theory Spec2Isabelle
  imports Complex_Main
begin

chapter \<open>The Co Penny query pipeline\<close>

section \<open>Python values, exceptions and string operations\<close>

text \<open>
  Exceptions are values: every function of the source that can raise returns
  \<open>exn + 'a\<close>, with \<open>Inl\<close> for the exception. An exception carries its class and
  the text that \<open>str(e)\<close> yields.
\<close>

datatype exn_class =
    RuntimeError | ValueError | TypeError | AttributeError | UnboundLocalError
  | FileNotFoundError | RequestException | EmptyDataError | OtherException

datatype exn = Exn exn_class string

fun exn_class_of :: "exn \<Rightarrow> exn_class" where
  "exn_class_of (Exn c m) = c"

fun exn_str :: "exn \<Rightarrow> string" where
  "exn_str (Exn c m) = m"

text \<open>
  \<open>try: body except Exception as e: handler(e)\<close>. Every class above derives
  from \<open>Exception\<close>, so the handler sees each of them.
\<close>

definition try_except :: "exn + 'a \<Rightarrow> (exn \<Rightarrow> exn + 'a) \<Rightarrow> exn + 'a" where
  "try_except body handler = (case body of Inl e \<Rightarrow> handler e | Inr v \<Rightarrow> Inr v)"

text \<open>
  A float is given by its value: a rational number (every finite double is one) or one
  of the three special values of IEEE arithmetic. The two zeros are not told apart.
\<close>

datatype pyfloat = Fin rat | PosInf | NegInf | NaN

text \<open>The values of Python that JSON documents and the agents' dictionaries hold.
  A dictionary is an association list whose first binding of a key is the one in force.\<close>

datatype pyval =
    PNone
  | PBool bool
  | PInt int
  | PFloat pyfloat
  | PStr string
  | PList "pyval list"
  | PDict "(string \<times> pyval) list"

text \<open>Truth value testing, as \<open>if x:\<close> and \<open>x or y\<close> perform it. NaN is true.\<close>

fun truthy :: "pyval \<Rightarrow> bool" where
  "truthy PNone = False"
| "truthy (PBool b) = b"
| "truthy (PInt i) = (i \<noteq> 0)"
| "truthy (PFloat f) = (f \<noteq> Fin 0)"
| "truthy (PStr s) = (s \<noteq> [])"
| "truthy (PList xs) = (xs \<noteq> [])"
| "truthy (PDict kvs) = (kvs \<noteq> [])"

definition py_or :: "pyval \<Rightarrow> pyval \<Rightarrow> pyval" where
  "py_or a b = (if truthy a then a else b)"

text \<open>\<open>d.get(k)\<close> and \<open>d.get(k, default)\<close> on a dictionary.\<close>

definition dict_get :: "(string \<times> pyval) list \<Rightarrow> string \<Rightarrow> pyval" where
  "dict_get d k = (case map_of d k of None \<Rightarrow> PNone | Some v \<Rightarrow> v)"

definition dict_get_or :: "(string \<times> pyval) list \<Rightarrow> string \<Rightarrow> pyval \<Rightarrow> pyval" where
  "dict_get_or d k dflt = (case map_of d k of None \<Rightarrow> dflt | Some v \<Rightarrow> v)"

text \<open>The same calls on an arbitrary value: only a dictionary has \<open>get\<close>.\<close>

fun py_get :: "pyval \<Rightarrow> string \<Rightarrow> pyval \<Rightarrow> exn + pyval" where
  "py_get (PDict d) k dflt = Inr (dict_get_or d k dflt)"
| "py_get v k dflt = Inl (Exn AttributeError ''object has no attribute get'')"

subsection \<open>Strings\<close>

text \<open>
  A text is held as the bytes of its UTF-8 encoding, so every Python string without a
  lone surrogate is a value of the model. The characters of a text are its code points:
  a leading byte together with the continuation bytes (0x80-0xBF) that follow it.
  \<open>len\<close>, slicing, iteration, \<open>strip\<close> and \<open>split\<close> work on characters, not on
  bytes; equality, concatenation and \<open>in\<close> are the same on either.
\<close>

definition is_cont :: "char \<Rightarrow> bool" where
  "is_cont c = (let n = (of_char c :: nat) in 128 \<le> n \<and> n < 192)"

function py_chars :: "string \<Rightarrow> string list" where
  "py_chars [] = []"
| "py_chars (c # cs) = (c # takeWhile is_cont cs) # py_chars (dropWhile is_cont cs)"
  by pat_completeness auto
termination
  by (relation "measure length") (auto simp add: le_imp_less_Suc length_dropWhile_le)

text \<open>\<open>len(s)\<close> and \<open>s[:n]\<close>.\<close>

definition py_len :: "string \<Rightarrow> nat" where
  "py_len s = length (py_chars s)"

definition py_take :: "nat \<Rightarrow> string \<Rightarrow> string" where
  "py_take n s = concat (take n (py_chars s))"

text \<open>
  \<open>str.lower()\<close>. On a text of ASCII characters only it maps A-Z to a-z. On any other
  text the result is fixed by the case mapping of the Unicode database, which belongs to
  Python and not to this repository: it is the argument \<open>unicode_lower\<close>.
\<close>

definition lower_char :: "char \<Rightarrow> char" where
  "lower_char c = (let n = (of_char c :: nat) in
     if 65 \<le> n \<and> n \<le> 90 then char_of (n + 32) else c)"

definition is_ascii :: "char \<Rightarrow> bool" where
  "is_ascii c = ((of_char c :: nat) < 128)"

definition lower_with :: "(string \<Rightarrow> string) \<Rightarrow> string \<Rightarrow> string" where
  "lower_with unicode_lower s = (if list_all is_ascii s then map lower_char s else unicode_lower s)"

text \<open>
  The characters that \<open>str.strip()\<close> removes and \<open>str.split()\<close> splits at: tab, line
  feed, vertical tab, form feed, carriage return, the separators 0x1C-0x1F, space, and the
  Unicode spaces U+0085, U+00A0, U+1680, U+2000-U+200A, U+2028, U+2029, U+202F, U+205F and
  U+3000, here in UTF-8.
\<close>

definition unicode_spaces :: "string list" where
  "unicode_spaces =
     [[CHR 0xC2, CHR 0x85], [CHR 0xC2, CHR 0xA0], [CHR 0xE1, CHR 0x9A, CHR 0x80],
      [CHR 0xE2, CHR 0x80, CHR 0x80], [CHR 0xE2, CHR 0x80, CHR 0x81],
      [CHR 0xE2, CHR 0x80, CHR 0x82], [CHR 0xE2, CHR 0x80, CHR 0x83],
      [CHR 0xE2, CHR 0x80, CHR 0x84], [CHR 0xE2, CHR 0x80, CHR 0x85],
      [CHR 0xE2, CHR 0x80, CHR 0x86], [CHR 0xE2, CHR 0x80, CHR 0x87],
      [CHR 0xE2, CHR 0x80, CHR 0x88], [CHR 0xE2, CHR 0x80, CHR 0x89],
      [CHR 0xE2, CHR 0x80, CHR 0x8A], [CHR 0xE2, CHR 0x80, CHR 0xA8],
      [CHR 0xE2, CHR 0x80, CHR 0xA9], [CHR 0xE2, CHR 0x80, CHR 0xAF],
      [CHR 0xE2, CHR 0x81, CHR 0x9F], [CHR 0xE3, CHR 0x80, CHR 0x80]]"

definition is_space :: "string \<Rightarrow> bool" where
  "is_space ch = (case ch of
       [c] \<Rightarrow> (let n = (of_char c :: nat) in (9 \<le> n \<and> n \<le> 13) \<or> (28 \<le> n \<and> n \<le> 32))
     | _ \<Rightarrow> ch \<in> set unicode_spaces)"

definition py_strip :: "string \<Rightarrow> string" where
  "py_strip s = concat (rev (dropWhile is_space (rev (dropWhile is_space (py_chars s)))))"

text \<open>\<open>p in s\<close> for strings: \<open>p\<close> occurs in \<open>s\<close> as a contiguous substring.\<close>

definition starts_with :: "string \<Rightarrow> string \<Rightarrow> bool" where
  "starts_with p s = (take (length p) s = p)"

fun str_in :: "string \<Rightarrow> string \<Rightarrow> bool" where
  "str_in p [] = (p = [])"
| "str_in p (c # cs) = (starts_with p (c # cs) \<or> str_in p cs)"

text \<open>\<open>any(word in s for word in words)\<close>.\<close>

definition any_in :: "string list \<Rightarrow> string \<Rightarrow> bool" where
  "any_in words s = list_ex (\<lambda>word. str_in word s) words"

text \<open>\<open>s.split()\<close>: the maximal runs of characters that are not spaces.\<close>

fun split_acc :: "string \<Rightarrow> string list \<Rightarrow> string list" where
  "split_acc cur [] = (if cur = [] then [] else [cur])"
| "split_acc cur (ch # chs) =
     (if is_space ch then (if cur = [] then split_acc [] chs else cur # split_acc [] chs)
      else split_acc (cur @ ch) chs)"

definition py_split :: "string \<Rightarrow> string list" where
  "py_split s = split_acc [] (py_chars s)"

text \<open>The apostrophe, for the texts that quote a name.\<close>

definition sq :: string where
  "sq = [CHR 0x27]"

text \<open>\<open>sep.join(parts)\<close>.\<close>

fun py_join :: "string \<Rightarrow> string list \<Rightarrow> string" where
  "py_join sep [] = []"
| "py_join sep [x] = x"
| "py_join sep (x # y # ys) = x @ sep @ py_join sep (y # ys)"

definition nl :: string where
  "nl = [CHR 0x0A]"

text \<open>\<open>xs[-n:]\<close> for a positive \<open>n\<close>: the last \<open>n\<close> elements.\<close>

definition last_n :: "nat \<Rightarrow> 'a list \<Rightarrow> 'a list" where
  "last_n n xs = drop (length xs - n) xs"

text \<open>
  \<open>re.search(r'\{[^{}]*\}', s, re.DOTALL)\<close>: the leftmost opening brace whose next
  brace is a closing one, with the text between them; \<open>None\<close> when there is none.
\<close>

fun flat_body :: "string \<Rightarrow> string option" where
  "flat_body [] = None"
| "flat_body (c # cs) =
     (if c = CHR ''}'' then Some [c]
      else if c = CHR ''{'' then None
      else map_option ((#) c) (flat_body cs))"

fun re_search_object :: "string \<Rightarrow> string option" where
  "re_search_object [] = None"
| "re_search_object (c # cs) =
     (if c = CHR ''{'' then
        (case flat_body cs of Some b \<Rightarrow> Some (c # b) | None \<Rightarrow> re_search_object cs)
      else re_search_object cs)"

section \<open>The LLM seen from the agents\<close>

text \<open>
  An agent calls \<open>self.llm_client.complete(prompt)\<close>, which returns text or raises.
  The provider is an oracle that may answer each call differently, so it takes the number
  of calls made before. The world records every prompt sent, in order.
\<close>

type_synonym llm = "nat \<Rightarrow> string \<Rightarrow> exn + string"

record world =
  llm_calls :: "string list"

definition complete :: "llm \<Rightarrow> string \<Rightarrow> world \<Rightarrow> (exn + string) \<times> world" where
  "complete llm prompt w =
     (llm (length (llm_calls w)) prompt, w\<lparr>llm_calls := llm_calls w @ [prompt]\<rparr>)"

text \<open>
  Library functions that the agents call and whose exact results are fixed by Python, not
  by this repository, are parameters of the model:
  \<^item> \<open>lib_loads\<close> is \<open>json.loads\<close>: the decoded value, or the \<open>ValueError\<close> it raises;
  \<^item> \<open>lib_str\<close> is \<open>str(x)\<close>, which an f-string applies to each value it interpolates;
  \<^item> \<open>lib_format\<close> is \<open>format(x, spec)\<close>, for the f-string fields with a format
    specification; it raises on a value the specification does not accept;
  \<^item> \<open>lib_set_list\<close> is \<open>list(set(xs))\<close>: the distinct elements of \<open>xs\<close>, in the
    order the set iterates them;
  \<^item> \<open>lib_lower\<close> is \<open>str.lower()\<close> on a text that is not pure ASCII.
\<close>

record pylib =
  lib_loads :: "string \<Rightarrow> exn + pyval"
  lib_str :: "pyval \<Rightarrow> string"
  lib_format :: "string \<Rightarrow> pyval \<Rightarrow> exn + string"
  lib_set_list :: "pyval list \<Rightarrow> pyval list"
  lib_lower :: "string \<Rightarrow> string"

definition py_lower :: "pylib \<Rightarrow> string \<Rightarrow> string" where
  "py_lower lib s = lower_with (lib_lower lib) s"

text \<open>Sequencing of steps that may raise, and a loop body run over a list.\<close>

definition ebind :: "exn + 'a \<Rightarrow> ('a \<Rightarrow> exn + 'b) \<Rightarrow> exn + 'b" where
  "ebind r f = (case r of Inl e \<Rightarrow> Inl e | Inr v \<Rightarrow> f v)"

fun emap :: "('a \<Rightarrow> exn + 'b) \<Rightarrow> 'a list \<Rightarrow> exn + 'b list" where
  "emap f [] = Inr []"
| "emap f (x # xs) = ebind (f x) (\<lambda>y. ebind (emap f xs) (\<lambda>ys. Inr (y # ys)))"

section \<open>Parsing agent (agents/parsing\_agent.py)\<close>

definition greetings :: "string list" where
  "greetings = [''hello'', ''hi'', ''hey'', ''good morning'', ''good evening'', ''how are you'']"

definition greeting_intent :: pyval where
  "greeting_intent = PDict
     [(''query_type'', PStr ''general_knowledge''),
      (''intent'', PStr ''greeting''),
      (''requires_knowledge'', PBool False),
      (''requires_transaction_data'', PBool False),
      (''requires_market_data'', PBool False),
      (''keywords'', PList []),
      (''risk_profile_needed'', PBool False)]"

text \<open>
  \<open>_fallback_parse\<close>. A local variable that a branch leaves unassigned is \<open>None\<close>
  here; reading it raises \<open>UnboundLocalError\<close>. The \<open>market_question\<close> branch
  of the source assigns \<open>requires_market_data\<close> and \<open>requires_knowledge\<close> and
  never \<open>requires_transaction_data\<close>. The exception's text is that of Python 3.11 and later.
\<close>

definition classify :: "string \<Rightarrow> string \<times> bool option \<times> bool option" where
  "classify query_lower =
     (if any_in [''spend'', ''expense'', ''budget'', ''transaction'', ''cashflow''] query_lower
      then (''transaction_analysis'', Some True, Some False)
      else if any_in [''invest'', ''portfolio'', ''sip'', ''mutual fund'', ''stock'', ''allocation'']
                query_lower
      then (''investment_advice'', Some False, Some True)
      else if any_in [''market'', ''price'', ''nav'', ''current''] query_lower
      then (''market_question'', None, Some True)
      else (''general_knowledge'', Some False, Some True))"

definition read_local :: "string \<Rightarrow> 'a option \<Rightarrow> exn + 'a" where
  "read_local name v = (case v of
       None \<Rightarrow> Inl (Exn UnboundLocalError
                 (''cannot access local variable '' @ sq @ name @ sq
                  @ '' where it is not associated with a value''))
     | Some x \<Rightarrow> Inr x)"

definition bucket_entry :: "string \<Rightarrow> int \<Rightarrow> pyval" where
  "bucket_entry bucket percent = PDict [(''bucket'', PStr bucket), (''percent'', PInt percent)]"

definition infer_allocation :: "string \<Rightarrow> pyval list option" where
  "infer_allocation query_lower =
     (let present = (\<lambda>p. str_in p query_lower);
          major_weight = 75;
          minor_weight = 15;
          major0 = (if present ''blue chip'' \<or> present ''large cap''
                    then Some ''Large Cap / Blue Chip'' else None);
          major_bucket = (if present ''index'' \<or> present ''nifty'' \<or> present ''sensex''
                    then (case major0 of Some b \<Rightarrow> Some b | None \<Rightarrow> Some ''Index Funds (Nifty/Sensex)'')
                    else major0);
          minor0 = (if present ''mid cap'' then Some ''Mid Cap''
                    else if present ''small cap'' then Some ''Small Cap''
                    else if present ''tech'' \<or> present ''technology'' \<or> present ''new ''
                    then Some ''Emerging/Theme Tech'' else None);
          minor_bucket = (if major_bucket \<noteq> None \<and> minor0 = None
                    then Some ''Index Funds (Nifty/Sensex)'' else minor0)
      in if major_bucket \<noteq> None \<or> minor_bucket \<noteq> None then
           (let first = (case major_bucket of Some b \<Rightarrow> [bucket_entry b major_weight] | None \<Rightarrow> []);
                remaining = 100 - (if first \<noteq> [] then major_weight else 0)
            in Some (first @ (case minor_bucket of
                                Some b \<Rightarrow> [bucket_entry b (min minor_weight remaining)]
                              | None \<Rightarrow> [])))
         else None)"

definition fallback_parse :: "pylib \<Rightarrow> string \<Rightarrow> exn + pyval" where
  "fallback_parse lib query =
     (let query_lower = py_lower lib query;
          (query_type, requires_transaction_data, requires_knowledge) = classify query_lower;
          keywords = filter (\<lambda>word. py_len word > 3) (py_split query_lower);
          inferred_allocation =
            (if query_type = ''investment_advice'' then infer_allocation query_lower else None)
      in case read_local ''requires_knowledge'' requires_knowledge of
           Inl e \<Rightarrow> Inl e
         | Inr rk \<Rightarrow>
        (case read_local ''requires_transaction_data'' requires_transaction_data of
           Inl e \<Rightarrow> Inl e
         | Inr rt \<Rightarrow>
             Inr (PDict
               ([(''query_type'', PStr query_type),
                 (''intent'', PStr (py_take 100 query)),
                 (''requires_knowledge'', PBool rk),
                 (''requires_transaction_data'', PBool rt),
                 (''requires_market_data'', PBool (query_type = ''market_question'')),
                 (''keywords'', PList (map PStr (take 5 keywords))),
                 (''risk_profile_needed'',
                    PBool (str_in ''risk'' query_lower \<or> str_in ''investment'' query_lower))]
                @ (case inferred_allocation of
                     Some (a # as) \<Rightarrow> [(''inferred_allocation'', PList (a # as))]
                   | _ \<Rightarrow> [])))))"

text \<open>The conversation context is a list of string-to-string dictionaries, or \<open>None\<close>.\<close>

type_synonym message = "(string \<times> string) list"

definition msg_get :: "message \<Rightarrow> string \<Rightarrow> string \<Rightarrow> string" where
  "msg_get msg k dflt = (case map_of msg k of None \<Rightarrow> dflt | Some v \<Rightarrow> v)"

definition render_context :: "message list \<Rightarrow> string" where
  "render_context recent =
     py_join nl (map (\<lambda>msg. msg_get msg ''role'' ''user'' @ '': '' @ msg_get msg ''content'' '''') recent)"

definition parse_prompt :: "string \<Rightarrow> string \<Rightarrow> string" where
  \<open>parse_prompt user_query context_section = py_join nl
     [''Analyze this financial query and extract structured information.'',
      '''',
      ''User Query: '' @ user_query,
      '''',
      context_section @ ''Determine:'',
      ''1. Query type (transaction_analysis, investment_advice, market_question, general_knowledge, portfolio_question, risk_assessment)'',
      ''2. Whether it requires knowledge retrieval (VectorDB) - for strategy, market insights, education'',
      ''3. Whether it requires transaction data (CSV/DB) - for spending, budget, cashflow'',
      ''4. Whether it requires real-time market data - for current prices, NAV, market conditions'',
      ''5. Key keywords for knowledge search (if applicable)'',
      ''6. Whether user risk profile is needed'',
      '''',
      ''Respond in JSON format:'',
      ''{'',
      ''    "query_type": "string",'',
      ''    "intent": "brief description",'',
      ''    "requires_knowledge": true/false,'',
      ''    "requires_transaction_data": true/false,'',
      ''    "requires_market_data": true/false,'',
      ''    "keywords": ["keyword1", "keyword2"],'',
      ''    "risk_profile_needed": true/false'',
      ''}'']\<close>

definition parse_query ::
  "pylib \<Rightarrow> llm \<Rightarrow> string \<Rightarrow> message list option \<Rightarrow> world \<Rightarrow> (exn + pyval) \<times> world" where
  "parse_query lib llm user_query context w =
     (let query_lower = py_strip (py_lower lib user_query) in
      if query_lower \<in> set greetings \<or> py_len query_lower < 4 then (Inr greeting_intent, w)
      else
        let context_str = (case context of
                             None \<Rightarrow> ''''
                           | Some cx \<Rightarrow> if cx = [] then '''' else render_context (last_n 3 cx));
            context_section = (if context_str \<noteq> ''''
                               then ''Recent Context:'' @ nl @ context_str @ nl @ nl else '''');
            prompt = parse_prompt user_query context_section;
            (r, w') = complete llm prompt w
        in (try_except
              (case r of
                 Inl e \<Rightarrow> Inl e
               | Inr response \<Rightarrow>
                   (case re_search_object response of
                      Some m \<Rightarrow> lib_loads lib m
                    | None \<Rightarrow> fallback_parse lib user_query))
              (\<lambda>e. fallback_parse lib user_query), w'))"

section \<open>Knowledge chunks and decimal numerals\<close>

text \<open>
  A knowledge chunk is a dictionary with an optional text \<open>content\<close> and an optional
  \<open>metadata\<close> dictionary, as the knowledge store returns it.
\<close>

record chunk =
  content :: "string option"
  metadata :: "(string \<times> pyval) list option"

definition chunk_content :: "chunk \<Rightarrow> string" where
  "chunk_content c = (case content c of None \<Rightarrow> '''' | Some s \<Rightarrow> s)"

text \<open>\<open>chunk.get('metadata', {}).get(k, dflt)\<close>.\<close>

definition chunk_meta_get :: "chunk \<Rightarrow> string \<Rightarrow> pyval \<Rightarrow> pyval" where
  "chunk_meta_get c k dflt = (case metadata c of None \<Rightarrow> dflt | Some m \<Rightarrow> dict_get_or m k dflt)"

definition digit_char :: "nat \<Rightarrow> char" where
  "digit_char d = char_of (48 + d)"

fun show_nat :: "nat \<Rightarrow> string" where
  "show_nat n = (if n < 10 then [digit_char n] else show_nat (n div 10) @ [digit_char (n mod 10)])"

declare show_nat.simps [simp del]

text \<open>\<open>enumerate(xs, 1)\<close>.\<close>

definition enumerate1 :: "'a list \<Rightarrow> (nat \<times> 'a) list" where
  "enumerate1 xs = zip [1 ..< Suc (length xs)] xs"

section \<open>Strategy agent (agents/strategy\_agent.py)\<close>

definition strategy_knowledge_text :: "pylib \<Rightarrow> chunk list \<Rightarrow> string" where
  "strategy_knowledge_text lib knowledge_context =
     (if knowledge_context = [] then ''''
      else ''RELEVANT KNOWLEDGE:'' @ nl @
        concat (map (\<lambda>(i, c).
            nl @ ''['' @ show_nat i @ ''] '' @ chunk_content c @ nl @
            (case metadata c of
               Some (kv # kvs) \<Rightarrow>
                 ''   Source: '' @ lib_str lib (dict_get_or (kv # kvs) ''title'' (PStr ''Unknown'')) @ nl
             | _ \<Rightarrow> ''''))
          (enumerate1 (take 5 knowledge_context))))"

text \<open>An optional dictionary argument is used when it is given and not empty.\<close>

definition given :: "(string \<times> pyval) list option \<Rightarrow> (string \<times> pyval) list option" where
  "given d = (case d of Some (kv # kvs) \<Rightarrow> Some (kv # kvs) | _ \<Rightarrow> None)"

definition strategy_risk_text :: "pylib \<Rightarrow> (string \<times> pyval) list option \<Rightarrow> string" where
  "strategy_risk_text lib risk_profile = (case given risk_profile of
       None \<Rightarrow> ''''
     | Some rp \<Rightarrow>
         nl @ ''USER RISK PROFILE:'' @ nl
         @ ''- Risk tolerance: '' @ lib_str lib (dict_get_or rp ''risk_tolerance'' (PStr ''moderate'')) @ nl
         @ ''- Investment goals: '' @ lib_str lib (dict_get_or rp ''goals'' (PList [])) @ nl
         @ ''- Time horizon: '' @ lib_str lib (dict_get_or rp ''time_horizon'' (PStr ''medium'')) @ nl)"

definition strategy_transaction_text :: "pylib \<Rightarrow> (string \<times> pyval) list option \<Rightarrow> string" where
  "strategy_transaction_text lib transaction_summary = (case given transaction_summary of
       None \<Rightarrow> ''''
     | Some ts \<Rightarrow>
         nl @ ''TRANSACTION PATTERNS:'' @ nl
         @ ''- Monthly spending: '' @ lib_str lib (dict_get_or ts ''monthly_spend'' (PStr ''N/A'')) @ nl
         @ ''- Savings rate: '' @ lib_str lib (dict_get_or ts ''savings_rate'' (PStr ''N/A'')) @ nl
         @ ''- Top categories: '' @ lib_str lib (dict_get_or ts ''top_categories'' (PList [])) @ nl)"

definition strategy_market_text :: "pylib \<Rightarrow> (string \<times> pyval) list option \<Rightarrow> string" where
  "strategy_market_text lib market_context = (case given market_context of
       None \<Rightarrow> ''''
     | Some mc \<Rightarrow>
         nl @ ''CURRENT MARKET CONTEXT:'' @ nl
         @ ''- Market conditions: '' @ lib_str lib (dict_get_or mc ''conditions'' (PStr ''N/A'')) @ nl
         @ ''- Key indicators: '' @ lib_str lib (dict_get_or mc ''indicators'' (PDict [])) @ nl)"

definition strategy_prompt :: "string \<Rightarrow> string \<Rightarrow> string \<Rightarrow> string \<Rightarrow> string \<Rightarrow> string" where
  \<open>strategy_prompt user_query knowledge_text risk_text transaction_text market_text = py_join nl
     [''You are a financial strategy advisor. Generate a personalized investment strategy based on the provided context.'',
      '''',
      ''USER QUERY: '' @ user_query,
      '''',
      knowledge_text,
      '''',
      risk_text,
      '''',
      transaction_text,
      '''',
      market_text,
      '''',
      ''Generate a comprehensive strategy recommendation in JSON format:'',
      ''{'',
      ''    "strategy_summary": "Brief 2-3 sentence summary",'',
      ''    "recommendations": ['',
      ''        {'',
      ''            "category": "string (e.g., Equity, Debt, Hybrid)",'',
      ''            "allocation_percentage": number,'',
      ''            "rationale": "why this allocation",'',
      ''            "specific_products": ["product1", "product2"] (optional)'',
      ''        }'',
      ''    ],'',
      ''    "action_items": ["action1", "action2"],'',
      ''    "risk_notes": "risk considerations",'',
      ''    "time_horizon": "short/medium/long term focus"'',
      ''}'',
      '''',
      ''Be specific, data-driven, and align with the user's risk profile and goals.'']\<close>

text \<open>The two static results of \<open>generate_strategy\<close>: for a response without a
  brace-delimited object, and for an exception.\<close>

definition strategy_fallback :: "string \<Rightarrow> pyval" where
  "strategy_fallback summary = PDict
     [(''strategy_summary'', PStr summary),
      (''recommendations'', PList []),
      (''action_items'', PList []),
      (''risk_notes'', PStr ''''),
      (''time_horizon'', PStr ''medium'')]"

definition generate_strategy ::
  "pylib \<Rightarrow> llm \<Rightarrow> string \<Rightarrow> chunk list \<Rightarrow> (string \<times> pyval) list option
     \<Rightarrow> (string \<times> pyval) list option \<Rightarrow> (string \<times> pyval) list option
     \<Rightarrow> world \<Rightarrow> (exn + pyval) \<times> world" where
  "generate_strategy lib llm user_query knowledge_context risk_profile transaction_summary
       market_context w =
     (let prompt = strategy_prompt user_query
            (strategy_knowledge_text lib knowledge_context)
            (strategy_risk_text lib risk_profile)
            (strategy_transaction_text lib transaction_summary)
            (strategy_market_text lib market_context);
          (r, w') = complete llm prompt w
      in (try_except
            (case r of
               Inl e \<Rightarrow> Inl e
             | Inr response \<Rightarrow>
                 (case re_search_object response of
                    Some m \<Rightarrow> lib_loads lib m
                  | None \<Rightarrow> Inr (strategy_fallback (py_take 200 response))))
            (\<lambda>e. Inr (strategy_fallback
                        (''Strategy generation encountered an error: '' @ exn_str e))), w'))"

section \<open>Risk agent (agents/risk\_agent.py)\<close>

definition risk_knowledge_text :: "chunk list option \<Rightarrow> string" where
  "risk_knowledge_text knowledge_context = (case knowledge_context of
       Some (c # cs) \<Rightarrow>
         ''RISK GUIDANCE:'' @ nl @
         concat (map (\<lambda>ch. if chunk_meta_get ch ''type'' PNone = PStr ''risk_guidance''
                            then ''- '' @ chunk_content ch @ nl else '''') (c # cs))
     | _ \<Rightarrow> '''')"

definition risk_prompt :: "pylib \<Rightarrow> (string \<times> pyval) list \<Rightarrow> (string \<times> pyval) list \<Rightarrow> string \<Rightarrow> string" where
  \<open>risk_prompt lib strategy risk_profile risk_knowledge = py_join nl
     [''You are a risk assessment specialist. Validate and adjust investment strategy based on risk profile.'',
      '''',
      ''USER RISK PROFILE:'',
      ''- Risk tolerance: '' @ lib_str lib (dict_get_or risk_profile ''risk_tolerance'' (PStr ''moderate'')),
      ''- Goals: '' @ lib_str lib (dict_get_or risk_profile ''goals'' (PList [])),
      ''- Time horizon: '' @ lib_str lib (dict_get_or risk_profile ''time_horizon'' (PStr ''medium'')),
      '''',
      ''PROPOSED STRATEGY:'',
      lib_str lib (dict_get_or strategy ''strategy_summary'' (PStr ''N/A'')),
      ''Recommendations: '' @ lib_str lib (dict_get_or strategy ''recommendations'' (PList [])),
      '''',
      risk_knowledge,
      '''',
      ''Assess and provide risk-adjusted feedback in JSON:'',
      ''{'',
      ''    "risk_alignment": "high/medium/low (how well strategy matches risk profile)",'',
      ''    "risk_score": number (1-10, where 10 is highest risk),'',
      ''    "adjustments_needed": true/false,'',
      ''    "adjusted_recommendations": ['',
      ''        {'',
      ''            "category": "string",'',
      ''            "original_allocation": number,'',
      ''            "adjusted_allocation": number,'',
      ''            "reason": "why adjustment needed"'',
      ''        }'',
      ''    ],'',
      ''    "risk_warnings": ["warning1", "warning2"],'',
      ''    "suitability": "suitable/moderately_suitable/not_suitable"'',
      ''}'']\<close>

definition risk_no_json :: pyval where
  "risk_no_json = PDict
     [(''risk_alignment'', PStr ''medium''),
      (''risk_score'', PInt 5),
      (''adjustments_needed'', PBool False),
      (''adjusted_recommendations'', PList []),
      (''risk_warnings'', PList []),
      (''suitability'', PStr ''suitable'')]"

definition risk_error :: "exn \<Rightarrow> pyval" where
  "risk_error e = PDict
     [(''risk_alignment'', PStr ''unknown''),
      (''risk_score'', PInt 5),
      (''adjustments_needed'', PBool False),
      (''adjusted_recommendations'', PList []),
      (''risk_warnings'', PList [PStr (''Risk assessment error: '' @ exn_str e)]),
      (''suitability'', PStr ''unknown'')]"

definition assess_risk ::
  "pylib \<Rightarrow> llm \<Rightarrow> (string \<times> pyval) list \<Rightarrow> (string \<times> pyval) list \<Rightarrow> chunk list option
     \<Rightarrow> world \<Rightarrow> (exn + pyval) \<times> world" where
  "assess_risk lib llm strategy risk_profile knowledge_context w =
     (let prompt = risk_prompt lib strategy risk_profile (risk_knowledge_text knowledge_context);
          (r, w') = complete llm prompt w
      in (try_except
            (case r of
               Inl e \<Rightarrow> Inl e
             | Inr response \<Rightarrow>
                 (case re_search_object response of
                    Some m \<Rightarrow> lib_loads lib m
                  | None \<Rightarrow> Inr risk_no_json))
            (\<lambda>e. Inr (risk_error e)), w'))"

section \<open>Output agent (agents/output\_agent.py)\<close>

text \<open>The currency mark of the source is three code points outside ASCII (U+00E2, U+201A,
  U+00B9); it is written here as their UTF-8 bytes.\<close>

definition currency_mark :: string where
  "currency_mark = [CHR 0xC3, CHR 0xA2, CHR 0xE2, CHR 0x80, CHR 0x9A, CHR 0xC2, CHR 0xB9]"

text \<open>
  \<open>for x in v[:n]\<close>: a list yields its first \<open>n\<close> elements and a string its first
  \<open>n\<close> characters; a dictionary or a number cannot be sliced.
\<close>

fun slice_items :: "nat \<Rightarrow> pyval \<Rightarrow> exn + pyval list" where
  "slice_items n (PList xs) = Inr (take n xs)"
| "slice_items n (PStr s) = Inr (map PStr (take n (py_chars s)))"
| "slice_items n v = Inl (Exn TypeError ''object is not subscriptable'')"

text \<open>The list that the answer renders: the risk stage's adjusted recommendations when
  they are a true value, the strategy's recommendations otherwise.\<close>

definition select_recommendations :: "(string \<times> pyval) list \<Rightarrow> (string \<times> pyval) list \<Rightarrow> pyval" where
  "select_recommendations strategy risk_assessment =
     py_or (dict_get risk_assessment ''adjusted_recommendations'')
           (dict_get_or strategy ''recommendations'' (PList []))"

definition recommendation_line :: "pylib \<Rightarrow> pyval \<Rightarrow> exn + string" where
  "recommendation_line lib rec =
     ebind (py_get rec ''adjusted_allocation'' PNone) (\<lambda>adjusted.
     ebind (py_get rec ''allocation_percentage'' (PInt 0)) (\<lambda>original.
     ebind (py_get rec ''category'' (PStr ''Unknown'')) (\<lambda>category.
     ebind (py_get rec ''rationale'' (PStr '''')) (\<lambda>rationale.
       Inr (''- **'' @ lib_str lib category @ ''**: '' @ lib_str lib (py_or adjusted original)
            @ ''% - '' @ lib_str lib rationale)))))"

definition recommendation_parts :: "pylib \<Rightarrow> pyval \<Rightarrow> exn + string list" where
  "recommendation_parts lib recommendations =
     (if truthy recommendations then
        ebind (slice_items 5 recommendations) (\<lambda>recs.
        ebind (emap (recommendation_line lib) recs) (\<lambda>lines.
          Inr ((nl @ ''**Recommended Allocation:**'') # lines)))
      else Inr [])"

definition bullet_parts :: "pylib \<Rightarrow> string \<Rightarrow> nat \<Rightarrow> pyval \<Rightarrow> exn + string list" where
  "bullet_parts lib header n items =
     (if truthy items then
        ebind (slice_items n items) (\<lambda>xs.
          Inr ((nl @ header) # map (\<lambda>x. ''- '' @ lib_str lib x) xs))
      else Inr [])"

definition insight_parts :: "pylib \<Rightarrow> (string \<times> pyval) list option \<Rightarrow> exn + string list" where
  "insight_parts lib transaction_insights = (case given transaction_insights of
       None \<Rightarrow> Inr []
     | Some ti \<Rightarrow>
         ebind (if truthy (dict_get ti ''monthly_spend'')
                then ebind (lib_format lib '',.0f'' (dict_get_or ti ''monthly_spend'' (PInt 0)))
                       (\<lambda>s. Inr [''- Monthly spending: '' @ currency_mark @ s])
                else Inr []) (\<lambda>spend_line.
         ebind (if truthy (dict_get ti ''savings_rate'')
                then ebind (lib_format lib ''.1f'' (dict_get_or ti ''savings_rate'' (PInt 0)))
                       (\<lambda>s. Inr [''- Savings rate: '' @ s @ ''%''])
                else Inr []) (\<lambda>rate_line.
           Inr ((nl @ ''**Your Financial Patterns:**'') # spend_line @ rate_line))))"

text \<open>
  A set holds hashable values only (a list or a dictionary raises \<open>TypeError\<close>), and
  \<open>', '.join\<close> accepts strings only.
\<close>

fun hashable :: "pyval \<Rightarrow> bool" where
  "hashable (PList xs) = False"
| "hashable (PDict d) = False"
| "hashable v = True"

fun str_item :: "pyval \<Rightarrow> exn + string" where
  "str_item (PStr s) = Inr s"
| "str_item v = Inl (Exn TypeError ''sequence item: expected str instance'')"

definition source_parts :: "pylib \<Rightarrow> chunk list option \<Rightarrow> exn + string list" where
  "source_parts lib knowledge_sources = (case knowledge_sources of
       Some (c # cs) \<Rightarrow>
         (let titles = filter truthy
                         (map (\<lambda>ch. chunk_meta_get ch ''title'' (PStr ''Unknown'')) (take 3 (c # cs)))
          in if list_all hashable titles then
               (if titles = [] then Inr []
                else ebind (emap str_item (lib_set_list lib titles)) (\<lambda>names.
                       Inr [nl @ ''*Based on insights from: '' @ py_join '', '' names @ ''*'']))
             else Inl (Exn TypeError ''unhashable type''))
     | _ \<Rightarrow> Inr [])"

definition answer_parts ::
  "pylib \<Rightarrow> (string \<times> pyval) list \<Rightarrow> (string \<times> pyval) list \<Rightarrow> (string \<times> pyval) list option
     \<Rightarrow> chunk list option \<Rightarrow> exn + string list" where
  "answer_parts lib strategy risk_assessment transaction_insights knowledge_sources =
     (let summary = (if truthy (dict_get strategy ''strategy_summary'')
                     then [''**Investment Strategy:**'' @ nl @ lib_str lib (dict_get strategy ''strategy_summary'')]
                     else [])
      in ebind (recommendation_parts lib (select_recommendations strategy risk_assessment)) (\<lambda>recs.
         ebind (bullet_parts lib ''**Risk Considerations:**'' 3
                  (dict_get risk_assessment ''risk_warnings'')) (\<lambda>warnings.
         ebind (insight_parts lib transaction_insights) (\<lambda>insights.
         ebind (bullet_parts lib ''**Next Steps:**'' 5 (dict_get strategy ''action_items'')) (\<lambda>actions.
         ebind (source_parts lib knowledge_sources) (\<lambda>sources.
           Inr (summary @ recs @ warnings @ insights @ actions @ sources)))))))"

definition format_response ::
  "pylib \<Rightarrow> string \<Rightarrow> (string \<times> pyval) list \<Rightarrow> (string \<times> pyval) list
     \<Rightarrow> (string \<times> pyval) list option \<Rightarrow> chunk list option \<Rightarrow> exn + (string \<times> pyval) list" where
  "format_response lib user_query strategy risk_assessment transaction_insights knowledge_sources =
     ebind (answer_parts lib strategy risk_assessment transaction_insights knowledge_sources)
       (\<lambda>parts. Inr
          [(''answer'', PStr (py_join nl parts)),
           (''status'', PStr ''success''),
           (''type'', PStr ''strategy_recommendation''),
           (''metadata'', PDict
              [(''risk_score'', dict_get_or risk_assessment ''risk_score'' (PInt 5)),
               (''risk_alignment'', dict_get_or risk_assessment ''risk_alignment'' (PStr ''medium'')),
               (''suitability'', dict_get_or risk_assessment ''suitability'' (PStr ''suitable'')),
               (''knowledge_sources_count'',
                  PInt (case knowledge_sources of None \<Rightarrow> 0 | Some ks \<Rightarrow> int (length ks)))]),
           (''data'', PDict
              [(''strategy'', PDict strategy),
               (''risk_assessment'', PDict risk_assessment)])])"

definition format_simple_response :: "string \<Rightarrow> chunk list option \<Rightarrow> (string \<times> pyval) list" where
  "format_simple_response answer knowledge_sources =
     [(''answer'', PStr answer), (''status'', PStr ''success''), (''type'', PStr ''text'')]
     @ (case knowledge_sources of
          Some (c # cs) \<Rightarrow>
            [(''metadata'', PDict [(''knowledge_sources'',
                PList (map (\<lambda>ch. chunk_meta_get ch ''title'' (PStr ''Unknown'')) (take 3 (c # cs))))])]
        | _ \<Rightarrow> [])"

section \<open>A JSON decoder and a library instance for concrete runs\<close>

text \<open>
  To run the agents on concrete responses, \<open>json_loads\<close> decodes JSON text as
  \<open>json.loads\<close> does: whitespace, the literals (with Python's \<open>NaN\<close>,
  \<open>Infinity\<close> and \<open>-Infinity\<close>), numbers, strings with their escapes, arrays and
  objects, and nothing after the value. A number with a fraction or an exponent becomes a
  float of its decimal value: the rounding to the nearest double and the overflow to an
  infinity are left out, and the runs below decode no such number. \<open>\u\<close> escapes are
  stored as UTF-8 bytes, and in an object the last binding of a repeated key wins. The
  recursion carries fuel, twice the length of the text, which bounds the number of nested
  calls. Every text that is not decoded raises \<open>ValueError\<close>, with one of two messages.
\<close>

definition json_ws :: "char \<Rightarrow> bool" where
  "json_ws c = (c = CHR '' '' \<or> c = CHR 0x09 \<or> c = CHR 0x0A \<or> c = CHR 0x0D)"

definition skip_ws :: "string \<Rightarrow> string" where
  "skip_ws s = dropWhile json_ws s"

definition is_digit :: "char \<Rightarrow> bool" where
  "is_digit c = (let n = (of_char c :: nat) in 48 \<le> n \<and> n \<le> 57)"

definition digit_val :: "char \<Rightarrow> nat" where
  "digit_val c = of_char c - 48"

definition digits_val :: "string \<Rightarrow> nat" where
  "digits_val ds = foldl (\<lambda>acc c. 10 * acc + digit_val c) 0 ds"

definition hex_val :: "char \<Rightarrow> nat option" where
  "hex_val c = (let n = (of_char c :: nat) in
     if 48 \<le> n \<and> n \<le> 57 then Some (n - 48)
     else if 65 \<le> n \<and> n \<le> 70 then Some (n - 55)
     else if 97 \<le> n \<and> n \<le> 102 then Some (n - 87)
     else None)"

definition utf8 :: "nat \<Rightarrow> string" where
  "utf8 cp =
     (if cp < 128 then [char_of cp]
      else if cp < 2048 then [char_of (192 + cp div 64), char_of (128 + cp mod 64)]
      else [char_of (224 + cp div 4096), char_of (128 + (cp div 64) mod 64), char_of (128 + cp mod 64)])"

fun parse_string_body :: "string \<Rightarrow> (string \<times> string) option" where
  "parse_string_body [] = None"
| "parse_string_body (c # cs) =
     (if c = CHR 0x22 then Some ([], cs)
      else if c = CHR 0x5C then
        (case cs of
           [] \<Rightarrow> None
         | e # es \<Rightarrow>
             if e = CHR ''u'' then
               (case es of
                  h1 # h2 # h3 # h4 # rest \<Rightarrow>
                    (case (hex_val h1, hex_val h2, hex_val h3, hex_val h4) of
                       (Some a, Some b, Some c', Some d) \<Rightarrow>
                         map_option (\<lambda>(s, r). (utf8 (4096 * a + 256 * b + 16 * c' + d) @ s, r))
                           (parse_string_body rest)
                     | _ \<Rightarrow> None)
                | _ \<Rightarrow> None)
             else
               (case map_of [(CHR 0x22, CHR 0x22), (CHR 0x5C, CHR 0x5C), (CHR ''/'', CHR ''/''),
                             (CHR ''b'', CHR 0x08), (CHR ''f'', CHR 0x0C), (CHR ''n'', CHR 0x0A),
                             (CHR ''r'', CHR 0x0D), (CHR ''t'', CHR 0x09)] e of
                  None \<Rightarrow> None
                | Some x \<Rightarrow> map_option (\<lambda>(s, r). (x # s, r)) (parse_string_body es)))
      else if (of_char c :: nat) < 32 then None
      else map_option (\<lambda>(s, r). (c # s, r)) (parse_string_body cs))"

text \<open>A number: an optional minus, an integer part without a leading zero, an optional
  fraction, an optional exponent.\<close>

definition parse_number :: "string \<Rightarrow> (pyval \<times> string) option" where
  "parse_number s =
     (let (neg, s1) = (case s of c # cs \<Rightarrow> if c = CHR ''-'' then (True, cs) else (False, s) | [] \<Rightarrow> (False, s));
          ip = takeWhile is_digit s1;
          s2 = dropWhile is_digit s1
      in if ip = [] \<or> (length ip > 1 \<and> hd ip = CHR ''0'') then None
         else
           let (fp, s3) = (case s2 of
                  c # cs \<Rightarrow> if c = CHR ''.'' \<and> takeWhile is_digit cs \<noteq> []
                            then (Some (takeWhile is_digit cs), dropWhile is_digit cs)
                            else (None, s2)
                | [] \<Rightarrow> (None, s2));
               (ex, s4) = (case s3 of
                  c # cs \<Rightarrow>
                    if c = CHR ''e'' \<or> c = CHR ''E'' then
                      (let (eneg, cs1) = (case cs of
                              d # ds \<Rightarrow> if d = CHR ''-'' then (True, ds)
                                        else if d = CHR ''+'' then (False, ds) else (False, cs)
                            | [] \<Rightarrow> (False, cs))
                       in if takeWhile is_digit cs1 = [] then (None, s3)
                          else (Some ((if eneg then -1 else 1) * int (digits_val (takeWhile is_digit cs1))),
                                dropWhile is_digit cs1))
                    else (None, s3)
                | [] \<Rightarrow> (None, s3));
               sgn = (if neg then -1 else 1 :: int)
           in if fp = None \<and> ex = None then Some (PInt (sgn * int (digits_val ip)), s4)
              else
                let frac = (case fp of None \<Rightarrow> [] | Some ds \<Rightarrow> ds);
                    e10 = (case ex of None \<Rightarrow> 0 | Some e \<Rightarrow> e) - int (length frac);
                    mant = of_int (sgn * int (digits_val (ip @ frac))) :: rat
                in Some (PFloat (Fin (if e10 \<ge> 0 then mant * 10 ^ nat e10 else mant / 10 ^ nat (- e10))), s4))"

text \<open>\<open>d[k] = v\<close> on a dictionary: an existing key keeps its place.\<close>

fun dict_set :: "(string \<times> pyval) list \<Rightarrow> string \<Rightarrow> pyval \<Rightarrow> (string \<times> pyval) list" where
  "dict_set [] k v = [(k, v)]"
| "dict_set ((k', v') # d) k v = (if k' = k then (k, v) # d else (k', v') # dict_set d k v)"

definition literals :: "(string \<times> pyval) list" where
  "literals = [(''true'', PBool True), (''false'', PBool False), (''null'', PNone),
               (''NaN'', PFloat NaN), (''Infinity'', PFloat PosInf), (''-Infinity'', PFloat NegInf)]"

fun parse_literal :: "(string \<times> pyval) list \<Rightarrow> string \<Rightarrow> (pyval \<times> string) option" where
  "parse_literal [] s = None"
| "parse_literal ((name, v) # ls) s =
     (if starts_with name s then Some (v, drop (length name) s) else parse_literal ls s)"

fun parse_value :: "nat \<Rightarrow> string \<Rightarrow> (pyval \<times> string) option"
and parse_elements :: "nat \<Rightarrow> pyval list \<Rightarrow> string \<Rightarrow> (pyval \<times> string) option"
and parse_members :: "nat \<Rightarrow> (string \<times> pyval) list \<Rightarrow> string \<Rightarrow> (pyval \<times> string) option" where
  "parse_value 0 s = None"
| "parse_value (Suc n) s =
     (case skip_ws s of
        [] \<Rightarrow> None
      | c # cs \<Rightarrow>
          if c = CHR 0x22 then map_option (\<lambda>(str, r). (PStr str, r)) (parse_string_body cs)
          else if c = CHR ''['' then
            (case skip_ws cs of
               [] \<Rightarrow> None
             | d # ds \<Rightarrow> if d = CHR '']'' then Some (PList [], ds) else parse_elements n [] cs)
          else if c = CHR ''{'' then
            (case skip_ws cs of
               [] \<Rightarrow> None
             | d # ds \<Rightarrow> if d = CHR ''}'' then Some (PDict [], ds) else parse_members n [] cs)
          else (case parse_literal literals (c # cs) of
                  Some r \<Rightarrow> Some r
                | None \<Rightarrow> parse_number (c # cs)))"
| "parse_elements 0 acc s = None"
| "parse_elements (Suc n) acc s =
     (case parse_value n s of
        None \<Rightarrow> None
      | Some (v, r) \<Rightarrow>
          (case skip_ws r of
             [] \<Rightarrow> None
           | c # cs \<Rightarrow>
               if c = CHR '','' then parse_elements n (acc @ [v]) cs
               else if c = CHR '']'' then Some (PList (acc @ [v]), cs)
               else None))"
| "parse_members 0 acc s = None"
| "parse_members (Suc n) acc s =
     (case skip_ws s of
        [] \<Rightarrow> None
      | q # qs \<Rightarrow>
          if q \<noteq> CHR 0x22 then None
          else
            (case parse_string_body qs of
               None \<Rightarrow> None
             | Some (k, r) \<Rightarrow>
                 (case skip_ws r of
                    [] \<Rightarrow> None
                  | c # cs \<Rightarrow>
                      if c \<noteq> CHR '':'' then None
                      else
                        (case parse_value n cs of
                           None \<Rightarrow> None
                         | Some (v, r') \<Rightarrow>
                             (case skip_ws r' of
                                [] \<Rightarrow> None
                              | c' # cs' \<Rightarrow>
                                  if c' = CHR '','' then parse_members n (dict_set acc k v) cs'
                                  else if c' = CHR ''}'' then Some (PDict (dict_set acc k v), cs')
                                  else None)))))"

definition json_loads :: "string \<Rightarrow> exn + pyval" where
  "json_loads s = (case parse_value (2 * length s + 2) s of
       None \<Rightarrow> Inl (Exn ValueError ''Expecting value'')
     | Some (v, r) \<Rightarrow> if skip_ws r = [] then Inr v else Inl (Exn ValueError ''Extra data''))"

text \<open>
  The library instance of the concrete runs. Its \<open>str\<close> is Python's on \<open>None\<close>, the
  booleans, integers and strings, which is all that the runs below print; its
  \<open>format\<close> accepts integers with the specifications \<open>,.0f\<close> (digits in groups of
  three) and \<open>.1f\<close>; its sets iterate in the order of first insertion; its \<open>lower\<close>
  maps A-Z to a-z and leaves every other byte, which is what \<open>str.lower()\<close> does on a
  text whose characters outside ASCII are lower case or have no case.
\<close>

definition show_int :: "int \<Rightarrow> string" where
  "show_int i = (if i < 0 then ''-'' @ show_nat (nat (- i)) else show_nat (nat i))"

fun example_str :: "pyval \<Rightarrow> string" where
  "example_str PNone = ''None''"
| "example_str (PBool b) = (if b then ''True'' else ''False'')"
| "example_str (PInt i) = show_int i"
| "example_str (PStr s) = s"
| "example_str (PFloat f) = ''<float>''"
| "example_str (PList xs) = ''<list>''"
| "example_str (PDict d) = ''<dict>''"

fun group3 :: "string \<Rightarrow> string" where
  "group3 (a # b # c # d # ds) = a # b # c # CHR '','' # group3 (d # ds)"
| "group3 ds = ds"

definition example_format :: "string \<Rightarrow> pyval \<Rightarrow> exn + string" where
  "example_format spec v = (case v of
       PInt i \<Rightarrow>
         if spec = '',.0f'' then
           Inr ((if i < 0 then ''-'' else '''') @ rev (group3 (rev (show_nat (nat \<bar>i\<bar>)))))
         else if spec = ''.1f'' then Inr (show_int i @ ''.0'')
         else Inl (Exn ValueError ''Invalid format specifier'')
     | _ \<Rightarrow> Inl (Exn ValueError ''Unknown format code''))"

definition example_lib :: pylib where
  "example_lib = \<lparr>lib_loads = json_loads, lib_str = example_str, lib_format = example_format,
                  lib_set_list = remdups, lib_lower = map lower_char\<rparr>"

text \<open>Two providers for the concrete runs: one that is down, one that answers every
  prompt with the same text. The world before the first call.\<close>

definition llm_down :: llm where
  "llm_down n prompt = Inl (Exn RuntimeError ''LLM request failed: connection refused'')"

definition llm_says :: "string \<Rightarrow> llm" where
  "llm_says text n prompt = Inr text"

definition w0 :: world where
  "w0 = \<lparr>llm_calls = []\<rparr>"

section \<open>LLM client (llm/llm\_client.py)\<close>

text \<open>
  The client's configuration, as \<open>__init__\<close> leaves it. The network is an oracle:
  \<open>requests.post\<close> answers the \<open>n\<close>-th request of a run with a response or raises.
  A response is read through its status code and its body text (\<open>resp.text\<close>); \<open>resp.json()\<close> decodes
  the text with \<open>json.loads\<close>. The fixed headers and the socket timeout are arguments
  of \<open>requests.post\<close> that no branch of the client depends on; they are left out.
  The network state records the number of requests made and the sleeps taken, in order.
\<close>

record llm_client =
  provider :: string
  base_url :: string
  retries :: int
  backoff_seconds :: rat
  payload_style :: string
  gemini_api_key :: "string option"
  gemini_model :: string
  openrouter_api_key :: "string option"
  openrouter_model :: string

record response =
  status_code :: int
  resp_text :: string

type_synonym http = "nat \<Rightarrow> string \<Rightarrow> pyval \<Rightarrow> exn + response"

record net =
  posts :: nat
  sleeps :: "rat list"

text \<open>
  The retry loop \<open>for attempt in range(self.retries + 1)\<close>, run over the attempts that
  remain. A \<open>requests.RequestException\<close> is retried after a sleep of
  \<open>backoff_seconds * (attempt + 1)\<close> while \<open>attempt < retries\<close> and becomes a
  \<open>RuntimeError\<close> on the last attempt; any other exception leaves the loop as it is.
  When the range is empty the loop ends with \<open>resp\<close> unassigned: the result \<open>None\<close>.
\<close>

fun post_loop ::
  "http \<Rightarrow> string \<Rightarrow> llm_client \<Rightarrow> string \<Rightarrow> pyval \<Rightarrow> nat list \<Rightarrow> net
     \<Rightarrow> (exn + response option) \<times> net" where
  "post_loop post who c url data [] s = (Inr None, s)"
| "post_loop post who c url data (attempt # rest) s =
     (let s' = s\<lparr>posts := Suc (posts s)\<rparr> in
      case post (posts s) url data of
        Inr resp \<Rightarrow> (Inr (Some resp), s')
      | Inl e \<Rightarrow>
          if exn_class_of e = RequestException then
            (if int attempt < retries c then
               post_loop post who c url data rest
                 (s'\<lparr>sleeps := sleeps s' @ [backoff_seconds c * of_nat (attempt + 1)]\<rparr>)
             else (Inl (Exn RuntimeError (who @ '' request failed: '' @ exn_str e)), s'))
          else (Inl e, s'))"

definition send :: "http \<Rightarrow> string \<Rightarrow> llm_client \<Rightarrow> string \<Rightarrow> pyval \<Rightarrow> net
     \<Rightarrow> (exn + response) \<times> net" where
  "send post who c url data s =
     (case post_loop post who c url data [0 ..< nat (retries c + 1)] s of
        (Inl e, s') \<Rightarrow> (Inl e, s')
      | (Inr None, s') \<Rightarrow>
          (Inl (Exn UnboundLocalError
             ''cannot access local variable resp where it is not associated with a value''), s')
      | (Inr (Some resp), s') \<Rightarrow> (Inr resp, s'))"

text \<open>The status check and \<open>resp.json()\<close>, with the length of the body snippet that
  the provider's branch quotes on a status outside 200-299.\<close>

definition decode_body :: "pylib \<Rightarrow> string \<Rightarrow> nat \<Rightarrow> response \<Rightarrow> exn + pyval" where
  "decode_body lib who snippet resp =
     (if \<not> (200 \<le> status_code resp \<and> status_code resp < 300) then
        Inl (Exn RuntimeError
               (who @ '' HTTP '' @ show_int (status_code resp) @ '': '' @ py_take snippet (resp_text resp)))
      else
        (case lib_loads lib (resp_text resp) of
           Inr js \<Rightarrow> Inr js
         | Inl e \<Rightarrow>
             if exn_class_of e = ValueError then
               Inl (Exn RuntimeError (''Non-JSON response from '' @ who @ '': '' @ py_take 300 (resp_text resp)))
             else Inl e))"

text \<open>\<open>isinstance(v, str)\<close>, and the first of the keys whose value in \<open>d\<close> is a string.\<close>

fun is_str :: "pyval \<Rightarrow> bool" where
  "is_str (PStr s) = True"
| "is_str v = False"

fun first_str :: "(string \<times> pyval) list \<Rightarrow> string list \<Rightarrow> pyval option" where
  "first_str d [] = None"
| "first_str d (k # ks) = (if is_str (dict_get d k) then Some (dict_get d k) else first_str d ks)"

text \<open>\<open>v.get(k)\<close> on an arbitrary value, and \<open>v[0]\<close> on a value that is true.\<close>

definition get_attr :: "pyval \<Rightarrow> string \<Rightarrow> exn + pyval" where
  "get_attr v k = py_get v k PNone"

fun item0 :: "pyval \<Rightarrow> exn + pyval" where
  "item0 (PList (x # xs)) = Inr x"
| "item0 (PStr (c # cs)) = Inr (PStr (c # takeWhile is_cont cs))"
| "item0 (PList []) = Inl (Exn OtherException ''list index out of range'')"
| "item0 (PStr []) = Inl (Exn OtherException ''string index out of range'')"
| "item0 (PDict d) = Inl (Exn OtherException ''KeyError: 0'')"
| "item0 v = Inl (Exn TypeError ''object is not subscriptable'')"

text \<open>The envelopes that the default provider's branch recognises, in the order tried:
  a text under a \<open>success\<close> status, the first choice's message content or text, a text
  at top level, a text in the \<open>data\<close> block; otherwise a \<open>RuntimeError\<close> that
  quotes the status and the error.\<close>

definition text_keys :: "string list" where
  "text_keys = [''answer'', ''response'', ''message'', ''output'', ''text'']"

definition success_text :: "pyval \<Rightarrow> pyval \<Rightarrow> pyval option" where
  "success_text js status =
     (if status = PStr ''success'' then
        (case js of
           PDict d \<Rightarrow> first_str d [''response'', ''message'', ''output'', ''text'']
         | _ \<Rightarrow> None)
      else None)"

definition msg_content :: "pyval \<Rightarrow> pyval option" where
  "msg_content msg = (case msg of
       PDict md \<Rightarrow> if is_str (dict_get md ''content'') then Some (dict_get md ''content'') else None
     | _ \<Rightarrow> None)"

definition choice_text :: "pyval \<Rightarrow> exn + pyval option" where
  "choice_text choices = (case choices of
       PList (x # xs) \<Rightarrow>
         (let choice0 = py_or x (PDict []) in
          ebind (get_attr choice0 ''message'') (\<lambda>m.
            case msg_content (py_or m (PDict [])) of
              Some v \<Rightarrow> Inr (Some v)
            | None \<Rightarrow> ebind (get_attr choice0 ''text'') (\<lambda>t. Inr (if is_str t then Some t else None))))
     | _ \<Rightarrow> Inr None)"

definition top_level_text :: "pyval \<Rightarrow> pyval option" where
  "top_level_text js = (case js of PDict d \<Rightarrow> first_str d text_keys | _ \<Rightarrow> None)"

definition data_text :: "pylib \<Rightarrow> pyval \<Rightarrow> pyval \<Rightarrow> exn + pyval" where
  "data_text lib js status =
     ebind (get_attr js ''data'') (\<lambda>data.
       case py_or data (PDict []) of
         PDict dd \<Rightarrow>
           (case first_str dd text_keys of
              Some v \<Rightarrow> Inr v
            | None \<Rightarrow>
                ebind (get_attr js ''error'') (\<lambda>err.
                  Inl (Exn RuntimeError
                         (''LLM error: status='' @ lib_str lib status @ '' error=''
                          @ lib_str lib (py_or err js)))))
       | _ \<Rightarrow> Inl (Exn AttributeError ''object has no attribute get''))"

definition normalize_free :: "pylib \<Rightarrow> pyval \<Rightarrow> exn + pyval" where
  "normalize_free lib js =
     ebind (get_attr js ''status'') (\<lambda>status.
       case success_text js status of
         Some v \<Rightarrow> Inr v
       | None \<Rightarrow>
           ebind (get_attr js ''choices'') (\<lambda>choices.
           ebind (choice_text choices) (\<lambda>found.
             case found of
               Some v \<Rightarrow> Inr v
             | None \<Rightarrow>
                 (case top_level_text js of
                    Some v \<Rightarrow> Inr v
                  | None \<Rightarrow> data_text lib js status))))"

definition free_payload :: "llm_client \<Rightarrow> string \<Rightarrow> string option \<Rightarrow> pyval" where
  "free_payload c prompt system =
     (let system_text = py_strip (case system of None \<Rightarrow> '''' | Some s \<Rightarrow> s) in
      if payload_style c = ''messages'' then
        PDict [(''messages'', PList
          ((if system_text \<noteq> ''''
            then [PDict [(''role'', PStr ''system''), (''content'', PStr system_text)]] else [])
           @ [PDict [(''role'', PStr ''user''), (''content'', PStr prompt)]]))]
      else
        PDict [(''message'', PStr (if system_text \<noteq> ''''
                                  then system_text @ nl @ nl @ prompt else prompt))])"

definition complete_free ::
  "pylib \<Rightarrow> http \<Rightarrow> llm_client \<Rightarrow> string \<Rightarrow> string option \<Rightarrow> net \<Rightarrow> (exn + pyval) \<times> net" where
  "complete_free lib post c prompt system s =
     (case send post ''LLM'' c (base_url c) (free_payload c prompt system) s of
        (Inl e, s') \<Rightarrow> (Inl e, s')
      | (Inr resp, s') \<Rightarrow>
          (ebind (decode_body lib ''LLM'' 300 resp) (normalize_free lib), s'))"

text \<open>\<open>_complete_gemini\<close>.\<close>

definition normalize_gemini :: "pylib \<Rightarrow> pyval \<Rightarrow> exn + pyval" where
  "normalize_gemini lib js =
     ebind (get_attr js ''candidates'') (\<lambda>cands.
       (let candidates = py_or cands (PList []) in
        ebind (case candidates of
                 PList (c0 # cs) \<Rightarrow>
                   ebind (get_attr c0 ''content'') (\<lambda>ct.
                   ebind (get_attr (py_or ct (PDict [])) ''parts'') (\<lambda>ps.
                     (case py_or ps (PList []) of
                        PList (p0 # ps') \<Rightarrow>
                          ebind (get_attr p0 ''text'') (\<lambda>t. Inr (if is_str t then Some t else None))
                      | _ \<Rightarrow> Inr None)))
               | _ \<Rightarrow> Inr None) (\<lambda>found.
          (case found of
             Some v \<Rightarrow> Inr v
           | None \<Rightarrow>
               ebind (get_attr js ''text'') (\<lambda>t.
                 if is_str t then Inr t
                 else Inl (Exn RuntimeError (''Gemini error: '' @ lib_str lib js)))))))"

definition complete_gemini ::
  "pylib \<Rightarrow> http \<Rightarrow> llm_client \<Rightarrow> string \<Rightarrow> string option \<Rightarrow> net \<Rightarrow> (exn + pyval) \<times> net" where
  "complete_gemini lib post c prompt system s =
     (case gemini_api_key c of
        None \<Rightarrow> (Inl (Exn RuntimeError
          ''GEMINI_API_KEY not set. Please export GEMINI_API_KEY or set LLM_PROVIDER=free.''), s)
      | Some key \<Rightarrow>
          if key = '''' then (Inl (Exn RuntimeError
            ''GEMINI_API_KEY not set. Please export GEMINI_API_KEY or set LLM_PROVIDER=free.''), s)
          else
            (let url = ''https://generativelanguage.googleapis.com/v1beta/models/''
                       @ gemini_model c @ '':generateContent?key='' @ key;
                 system_text = py_strip (case system of None \<Rightarrow> '''' | Some t \<Rightarrow> t);
                 body = PDict
                   ([(''contents'', PList [PDict [(''role'', PStr ''user''),
                        (''parts'', PList [PDict [(''text'', PStr prompt)]])]])]
                    @ (if system_text \<noteq> ''''
                       then [(''systemInstruction'',
                              PDict [(''parts'', PList [PDict [(''text'', PStr system_text)]])])]
                       else []))
             in case send post ''Gemini'' c url body s of
                  (Inl e, s') \<Rightarrow> (Inl e, s')
                | (Inr resp, s') \<Rightarrow>
                    (ebind (decode_body lib ''Gemini'' 500 resp) (normalize_gemini lib), s')))"

text \<open>\<open>_complete_openrouter\<close>. It returns the \<open>content\<close> of the first choice whenever
  that is a true value, of whatever type.\<close>

definition normalize_openrouter :: "pylib \<Rightarrow> pyval \<Rightarrow> exn + pyval" where
  "normalize_openrouter lib js =
     ebind (get_attr js ''choices'') (\<lambda>ch.
       (let choices = py_or ch (PList []);
            failed = Inl (Exn RuntimeError (''OpenRouter error: '' @ lib_str lib js))
        in if truthy choices then
             ebind (item0 choices) (\<lambda>c0.
             ebind (py_get c0 ''message'' (PDict [])) (\<lambda>m.
             ebind (get_attr m ''content'') (\<lambda>content.
               if truthy content then Inr content else failed)))
           else failed))"

definition complete_openrouter ::
  "pylib \<Rightarrow> http \<Rightarrow> llm_client \<Rightarrow> string \<Rightarrow> string option \<Rightarrow> net \<Rightarrow> (exn + pyval) \<times> net" where
  "complete_openrouter lib post c prompt system s =
     (case openrouter_api_key c of
        None \<Rightarrow> (Inl (Exn RuntimeError
          ''OPENROUTER_API_KEY not set. Please export OPENROUTER_API_KEY.''), s)
      | Some key \<Rightarrow>
          if key = '''' then (Inl (Exn RuntimeError
            ''OPENROUTER_API_KEY not set. Please export OPENROUTER_API_KEY.''), s)
          else
            (let messages =
                   (case system of
                      None \<Rightarrow> []
                    | Some t \<Rightarrow> if t = '''' then []
                                else [PDict [(''role'', PStr ''system''), (''content'', PStr t)]])
                   @ [PDict [(''role'', PStr ''user''), (''content'', PStr prompt)]];
                 body = PDict [(''model'', PStr (openrouter_model c)), (''messages'', PList messages)]
             in case send post ''OpenRouter'' c ''https://openrouter.ai/api/v1/chat/completions'' body s of
                  (Inl e, s') \<Rightarrow> (Inl e, s')
                | (Inr resp, s') \<Rightarrow>
                    (ebind (decode_body lib ''OpenRouter'' 500 resp) (normalize_openrouter lib), s')))"

definition client_complete ::
  "pylib \<Rightarrow> http \<Rightarrow> llm_client \<Rightarrow> string \<Rightarrow> string option \<Rightarrow> net \<Rightarrow> (exn + pyval) \<times> net" where
  "client_complete lib post c prompt system s =
     (if provider c = ''gemini'' then complete_gemini lib post c prompt system s
      else if provider c = ''openrouter'' then complete_openrouter lib post c prompt system s
      else complete_free lib post c prompt system s)"

text \<open>The client that \<open>LLMClient()\<close> builds when no environment variable is set, the
  network before the first request, and two servers for the concrete runs.\<close>

definition default_client :: llm_client where
  "default_client = \<lparr>provider = ''free'', base_url = ''https://apifreellm.com/api/chat'',
     retries = 2, backoff_seconds = 3 / 2, payload_style = ''message'',
     gemini_api_key = None, gemini_model = ''gemini-flash-latest'',
     openrouter_api_key = None, openrouter_model = ''google/gemini-2.0-flash-exp:free''\<rparr>"

definition net0 :: net where
  "net0 = \<lparr>posts = 0, sleeps = []\<rparr>"

definition server_ok :: "string \<Rightarrow> http" where
  "server_ok body n url data = Inr \<lparr>status_code = 200, resp_text = body\<rparr>"

definition server_unreachable :: http where
  "server_unreachable n url data = Inl (Exn RequestException ''connection refused'')"

section \<open>Floats, tables and the file system\<close>

text \<open>
  Comparison of floats and the test for zero are exact on their values. The operations
  that round are not this repository's: the sum of a column of doubles, division, and
  rounding to decimal places are computed by the processor and the numeric libraries, and
  are parameters of the environment below. This section gives their exact counterparts on
  values, in which the sum of the two infinities is NaN, NaN absorbs, and division by zero
  gives an infinity or NaN as it does for the arrays of the dataframe library (no
  exception). The environments of the concrete runs use them, on amounts for which
  arithmetic on doubles is exact.
\<close>

fun fadd :: "pyfloat \<Rightarrow> pyfloat \<Rightarrow> pyfloat" where
  "fadd (Fin a) (Fin b) = Fin (a + b)"
| "fadd NaN y = NaN"
| "fadd x NaN = NaN"
| "fadd PosInf NegInf = NaN"
| "fadd NegInf PosInf = NaN"
| "fadd PosInf y = PosInf"
| "fadd NegInf y = NegInf"
| "fadd x PosInf = PosInf"
| "fadd x NegInf = NegInf"

definition signed_inf :: "bool \<Rightarrow> pyfloat" where
  "signed_inf positive = (if positive then PosInf else NegInf)"

fun fdiv :: "pyfloat \<Rightarrow> pyfloat \<Rightarrow> pyfloat" where
  "fdiv (Fin a) (Fin b) =
     (if b \<noteq> 0 then Fin (a / b) else if a = 0 then NaN else signed_inf (a > 0))"
| "fdiv NaN y = NaN"
| "fdiv x NaN = NaN"
| "fdiv (Fin a) y = Fin 0"
| "fdiv PosInf (Fin b) = signed_inf (b \<ge> 0)"
| "fdiv NegInf (Fin b) = signed_inf (b < 0)"
| "fdiv x y = NaN"

text \<open>Rounding to \<open>n\<close> decimal places, half to even.\<close>

definition round_half_even :: "rat \<Rightarrow> int" where
  "round_half_even x =
     (let f = \<lfloor>x\<rfloor>; d = x - of_int f
      in if d < 1 / 2 then f else if d > 1 / 2 then f + 1 else if even f then f else f + 1)"

fun fround :: "nat \<Rightarrow> pyfloat \<Rightarrow> pyfloat" where
  "fround n (Fin x) = Fin (of_int (round_half_even (x * 10 ^ n)) / 10 ^ n)"
| "fround n x = x"

text \<open>\<open>x or y\<close> on floats: zero is the only false float.\<close>

definition f_or :: "pyfloat \<Rightarrow> pyfloat \<Rightarrow> pyfloat" where
  "f_or x y = (if x \<noteq> Fin 0 then x else y)"

text \<open>The exact sum of a list of floats, from the left; the empty sum is zero.\<close>

definition exact_sum :: "pyfloat list \<Rightarrow> pyfloat" where
  "exact_sum xs = foldl fadd (Fin 0) xs"

text \<open>The order of floats, for sorting: a missing value sorts last in either direction.\<close>

fun f_le :: "pyfloat \<Rightarrow> pyfloat \<Rightarrow> bool" where
  "f_le x NaN = True"
| "f_le NaN y = False"
| "f_le NegInf y = True"
| "f_le x PosInf = True"
| "f_le (Fin a) (Fin b) = (a \<le> b)"
| "f_le x y = False"

fun f_ge :: "pyfloat \<Rightarrow> pyfloat \<Rightarrow> bool" where
  "f_ge x NaN = True"
| "f_ge NaN y = False"
| "f_ge x y = f_le y x"

text \<open>A stable sort by insertion, under a given order.\<close>

fun insert_by :: "('a \<Rightarrow> 'a \<Rightarrow> bool) \<Rightarrow> 'a \<Rightarrow> 'a list \<Rightarrow> 'a list" where
  "insert_by le x [] = [x]"
| "insert_by le x (y # ys) = (if le x y then x # y # ys else y # insert_by le x ys)"

definition sort_by :: "('a \<Rightarrow> 'a \<Rightarrow> bool) \<Rightarrow> 'a list \<Rightarrow> 'a list" where
  "sort_by le xs = foldr (insert_by le) xs []"

text \<open>
  A table as the dataframe library reads it from a CSV file: the column names and the
  rows, a row giving each column's cell. A cell is a number (NaN when the field is
  empty) or a text. A numeric column holds numbers only; a column with a text that is
  not a number holds texts, and NaN for its empty fields.
\<close>

datatype cell = Num pyfloat | Str string

type_synonym row = "(string \<times> cell) list"

record dataframe =
  columns :: "string list"
  rows :: "row list"

definition row_get :: "row \<Rightarrow> string \<Rightarrow> cell" where
  "row_get r c = (case map_of r c of None \<Rightarrow> Num NaN | Some x \<Rightarrow> x)"

definition is_na :: "cell \<Rightarrow> bool" where
  "is_na x = (x = Num NaN)"

text \<open>The order of cells, for sorting keys: numbers before texts, texts by their
  characters' codes, a missing value last.\<close>

fun str_le :: "string \<Rightarrow> string \<Rightarrow> bool" where
  "str_le [] t = True"
| "str_le (c # cs) [] = False"
| "str_le (c # cs) (d # ds) =
     ((of_char c :: nat) < of_char d \<or> (c = d \<and> str_le cs ds))"

fun cell_le :: "cell \<Rightarrow> cell \<Rightarrow> bool" where
  "cell_le (Num a) (Num b) = f_le a b"
| "cell_le (Str s) (Str t) = str_le s t"
| "cell_le (Num a) (Str t) = (a \<noteq> NaN)"
| "cell_le (Str s) (Num b) = (b = NaN)"

fun cell_ge :: "cell \<Rightarrow> cell \<Rightarrow> bool" where
  "cell_ge (Num a) (Num b) = f_ge a b"
| "cell_ge (Str s) (Str t) = str_le t s"
| "cell_ge (Num a) (Str t) = False"
| "cell_ge (Str s) (Num b) = True"

text \<open>
  Dates are year, month and day. \<open>pd.to_datetime(column, errors="coerce")\<close> reads a cell
  as a date or as NaT (\<open>None\<close>); how it reads a text is the library's business, so it is a
  parameter of the environment, as is Python's \<open>float(s)\<close> on a text. The environment
  also holds the files: which paths exist and what table \<open>pd.read_csv\<close> reads from
  one (or the exception it raises, \<open>EmptyDataError\<close> on an empty file), whether the
  DuckDB engine is installed, and the table that engine returns for a query over a file.
  The arithmetic on doubles is part of the environment too:
  \<^item> \<open>column_sum\<close> is \<open>Series.sum()\<close> and \<open>group_sum\<close> the sum of one group of
    \<open>groupby(...).sum()\<close>, each on the values that are present;
  \<^item> \<open>float_div\<close> is the division of two doubles in an array;
  \<^item> \<open>series_round\<close> is \<open>Series.round(n)\<close> on one value and \<open>py_round\<close> is
    Python's \<open>round(x, n)\<close>;
  \<^item> \<open>str_lower\<close> is \<open>str.lower()\<close> on a text that is not pure ASCII.
\<close>

type_synonym date = "int \<times> nat \<times> nat"

record env =
  base_dir :: string
  data_path :: string
  path_exists :: "string \<Rightarrow> bool"
  read_csv :: "string \<Rightarrow> exn + dataframe"
  has_duckdb :: bool
  duckdb_query :: "string \<Rightarrow> string \<Rightarrow> exn + dataframe"
  to_datetime :: "cell \<Rightarrow> date option"
  float_of_str :: "string \<Rightarrow> exn + pyfloat"
  column_sum :: "pyfloat list \<Rightarrow> pyfloat"
  group_sum :: "pyfloat list \<Rightarrow> pyfloat"
  float_div :: "pyfloat \<Rightarrow> pyfloat \<Rightarrow> pyfloat"
  series_round :: "nat \<Rightarrow> pyfloat \<Rightarrow> pyfloat"
  py_round :: "nat \<Rightarrow> pyfloat \<Rightarrow> pyfloat"
  str_lower :: "string \<Rightarrow> string"

text \<open>The sum of a numeric column: missing values are skipped.\<close>

definition sum_skipna :: "env \<Rightarrow> pyfloat list \<Rightarrow> pyfloat" where
  "sum_skipna e xs = column_sum e (filter (\<lambda>x. x \<noteq> NaN) xs)"

text \<open>\<open>pd.read_csv(path, nrows=n)\<close>.\<close>

definition read_csv_nrows :: "env \<Rightarrow> string \<Rightarrow> nat \<Rightarrow> exn + dataframe" where
  "read_csv_nrows e path n = ebind (read_csv e path) (\<lambda>df. Inr (df\<lparr>rows := take n (rows df)\<rparr>))"

definition pad2 :: "nat \<Rightarrow> string" where
  "pad2 n = (if n < 10 then ''0'' @ show_nat n else show_nat n)"

definition pad4 :: "int \<Rightarrow> string" where
  "pad4 y = (let s = show_nat (nat y) in replicate (4 - length s) (CHR ''0'') @ s)"

text \<open>\<open>str\<close> of a month period and of a date; \<open>NaT\<close> for a missing one.\<close>

definition period_str :: "date option \<Rightarrow> string" where
  "period_str d = (case d of None \<Rightarrow> ''NaT'' | Some (y, m, dd) \<Rightarrow> pad4 y @ ''-'' @ pad2 m)"

definition date_str :: "date option \<Rightarrow> string" where
  "date_str d = (case d of None \<Rightarrow> ''NaT''
                 | Some (y, m, dd) \<Rightarrow> pad4 y @ ''-'' @ pad2 m @ ''-'' @ pad2 dd)"

fun date_le :: "date \<Rightarrow> date \<Rightarrow> bool" where
  "date_le (y1, m1, d1) (y2, m2, d2) =
     (y1 < y2 \<or> (y1 = y2 \<and> (m1 < m2 \<or> (m1 = m2 \<and> d1 \<le> d2))))"

text \<open>\<open>df[ds.dt.year == year]\<close> and \<open>df[ds.dt.month == month]\<close>: the rows whose date
  is read and has that year or month.\<close>

definition filter_year :: "env \<Rightarrow> string \<Rightarrow> int \<Rightarrow> row list \<Rightarrow> row list" where
  "filter_year e date_col year rs =
     filter (\<lambda>r. case to_datetime e (row_get r date_col) of
                   None \<Rightarrow> False | Some (y, m, d) \<Rightarrow> y = year) rs"

definition filter_month :: "env \<Rightarrow> string \<Rightarrow> int \<Rightarrow> row list \<Rightarrow> row list" where
  "filter_month e date_col month rs =
     filter (\<lambda>r. case to_datetime e (row_get r date_col) of
                   None \<Rightarrow> False | Some (y, m, d) \<Rightarrow> int m = month) rs"

text \<open>
  The sum of one group's cells, missing values skipped: numbers add up, texts are
  concatenated, and a group that mixes the two raises \<open>TypeError\<close>.
\<close>

fun cell_num :: "cell \<Rightarrow> pyfloat option" where
  "cell_num (Num f) = Some f"
| "cell_num (Str s) = None"

fun cell_text :: "cell \<Rightarrow> string option" where
  "cell_text (Str s) = Some s"
| "cell_text (Num f) = None"

definition sum_cells :: "env \<Rightarrow> cell list \<Rightarrow> exn + cell" where
  "sum_cells e cs =
     (let present = filter (\<lambda>c. \<not> is_na c) cs in
      if list_all (\<lambda>c. cell_num c \<noteq> None) present
      then Inr (Num (group_sum e (map (\<lambda>c. the (cell_num c)) present)))
      else if list_all (\<lambda>c. cell_text c \<noteq> None) present
      then Inr (Str (concat (map (\<lambda>c. the (cell_text c)) present)))
      else Inl (Exn TypeError ''unsupported operand type(s) for +''))"

text \<open>
  \<open>df.groupby(key, dropna=...)[amt].sum().reset_index()\<close>: one row per distinct key, in
  ascending key order, with the sum of the group's amounts. The key is a column of the
  table or one computed from it. With \<open>dropna\<close> the rows whose key is missing are left
  out.
\<close>

definition groupby_sum ::
  "env \<Rightarrow> bool \<Rightarrow> (row \<Rightarrow> cell) \<Rightarrow> string \<Rightarrow> row list \<Rightarrow> exn + (cell \<times> cell) list" where
  "groupby_sum e dropna key amt rs =
     (let used = (if dropna then filter (\<lambda>r. \<not> is_na (key r)) rs else rs);
          keys = sort_by cell_le (remdups (map key used))
      in emap (\<lambda>k. ebind (sum_cells e (map (\<lambda>r. row_get r amt) (filter (\<lambda>r. key r = k) used)))
                         (\<lambda>total. Inr (k, total))) keys)"

text \<open>\<open>next((c for c in aliases if c in df.columns), None)\<close>.\<close>

definition first_present :: "string list \<Rightarrow> dataframe \<Rightarrow> string option" where
  "first_present aliases df = List.find (\<lambda>c. c \<in> set (columns df)) aliases"

text \<open>\<open>float(x or 0.0)\<close> for a cell \<open>x\<close>.\<close>

definition float_or_zero :: "env \<Rightarrow> cell \<Rightarrow> exn + pyfloat" where
  "float_or_zero e x = (case x of
       Num f \<Rightarrow> Inr (f_or f (Fin 0))
     | Str s \<Rightarrow> if s = '''' then Inr (Fin 0) else float_of_str e s)"

definition cell_str :: "pylib \<Rightarrow> cell \<Rightarrow> string" where
  "cell_str lib x = (case x of Str s \<Rightarrow> s | Num f \<Rightarrow> lib_str lib (PFloat f))"

text \<open>An optional integer argument, as a value of the result dictionary.\<close>

definition opt_int :: "int option \<Rightarrow> pyval" where
  "opt_int v = (case v of None \<Rightarrow> PNone | Some i \<Rightarrow> PInt i)"

section \<open>CSV path resolution (app/tools/csv\_tools.py, app/tools/enhanced\_csv\_tools.py)\<close>

text \<open>\<open>s.replace(old, new)\<close> for single characters.\<close>

definition replace_char :: "char \<Rightarrow> char \<Rightarrow> string \<Rightarrow> string" where
  "replace_char old new s = map (\<lambda>c. if c = old then new else c) s"

definition normalize_user_id :: "string \<Rightarrow> string" where
  "normalize_user_id user_id =
     (if user_id = '''' then ''guest''
      else py_strip (replace_char (CHR '' '') (CHR ''_'') (replace_char (CHR ''.'') (CHR ''_'') user_id)))"

text \<open>
  \<open>os.path.join\<close> on POSIX paths: a component that starts with a slash replaces what
  was joined before it; otherwise the component is appended, after a slash unless the path
  so far is empty or ends with one.
\<close>

definition join_component :: "string \<Rightarrow> string \<Rightarrow> string" where
  "join_component joined b =
     (if starts_with ''/'' b then b
      else if joined = [] \<or> last joined = CHR ''/'' then joined @ b
      else joined @ ''/'' @ b)"

definition path_join :: "string \<Rightarrow> string list \<Rightarrow> string" where
  "path_join a bs = foldl join_component a bs"

definition user_csv :: "env \<Rightarrow> string \<Rightarrow> string" where
  "user_csv e safe_id =
     path_join (base_dir e) [''state'', ''models'', ''user_data'', safe_id, ''transactions.csv'']"

text \<open>\<open>get_user_csv_path\<close>, the same in both modules; \<open>base_path\<close> is \<open>DATA_PATH\<close>.\<close>

definition get_user_csv_path :: "env \<Rightarrow> string option \<Rightarrow> string option" where
  "get_user_csv_path e user_id =
     (let shared = (if path_exists e (data_path e) then Some (data_path e) else None) in
      case user_id of
        None \<Rightarrow> shared
      | Some u \<Rightarrow>
          if u = '''' then shared
          else if path_exists e (user_csv e (normalize_user_id u))
               then Some (user_csv e (normalize_user_id u))
               else shared)"

text \<open>\<open>csv_path or get_user_csv_path(user_id)\<close>: an empty \<open>csv_path\<close> is false.\<close>

definition resolve_path :: "env \<Rightarrow> string option \<Rightarrow> string option \<Rightarrow> string option" where
  "resolve_path e csv_path user_id = (case csv_path of
       None \<Rightarrow> get_user_csv_path e user_id
     | Some p \<Rightarrow> if p = '''' then get_user_csv_path e user_id else Some p)"

text \<open>\<open>_ensure_csv_exists(path)\<close>. \<open>os.path.exists(None)\<close> raises \<open>TypeError\<close>.\<close>

definition ensure_csv_exists :: "env \<Rightarrow> string option \<Rightarrow> exn + unit" where
  "ensure_csv_exists e path = (case path of
       None \<Rightarrow> Inl (Exn TypeError
                 ''stat: path should be string, bytes, os.PathLike or integer, not NoneType'')
     | Some p \<Rightarrow> if path_exists e p then Inr ()
                 else Inl (Exn FileNotFoundError (''CSV not found at '' @ p)))"

definition date_aliases :: "string list" where
  "date_aliases = [''ts'', ''date'', ''Date'', ''DATE'']"

definition amount_aliases :: "string list" where
  "amount_aliases = [''amount'', ''Amount'', ''AMOUNT'', ''monthly_expense_total'']"

definition category_aliases :: "string list" where
  "category_aliases = [''category'', ''Category'', ''CATEGORY'']"

definition merchant_aliases :: "string list" where
  "merchant_aliases = [''merchant'', ''description'', ''narration'', ''Merchant'', ''Description'']"

text \<open>\<open>df.head(k)\<close>: a negative \<open>k\<close> leaves out the last \<open>-k\<close> rows.\<close>

definition df_head :: "int \<Rightarrow> 'a list \<Rightarrow> 'a list" where
  "df_head k xs = (if k \<ge> 0 then take (nat k) xs else take (length xs - nat (- k)) xs)"

text \<open>\<open>int(n or 10)\<close>.\<close>

definition or_ten :: "int \<Rightarrow> int" where
  "or_ten n = (if n \<noteq> 0 then n else 10)"

definition cell_val :: "cell \<Rightarrow> pyval" where
  "cell_val x = (case x of Str s \<Rightarrow> PStr s | Num f \<Rightarrow> PFloat f)"

text \<open>\<open>column.astype(float)\<close> on one cell.\<close>

definition as_float :: "env \<Rightarrow> cell \<Rightarrow> exn + pyfloat" where
  "as_float e x = (case x of Num f \<Rightarrow> Inr f | Str s \<Rightarrow> float_of_str e s)"

section \<open>top\_merchants (app/tools/csv\_tools.py)\<close>

text \<open>The month filter: with a date column and a true \<open>month\<close>, the rows whose date
  reads as that month.\<close>

definition month_rows :: "env \<Rightarrow> string option \<Rightarrow> dataframe \<Rightarrow> row list" where
  "month_rows e month df = (case (first_present date_aliases df, month) of
       (Some date_col, Some m) \<Rightarrow>
         if m = '''' then rows df
         else filter (\<lambda>r. period_str (to_datetime e (row_get r date_col)) = m) (rows df)
     | _ \<Rightarrow> rows df)"

text \<open>Lines 162-163: the spend summed by merchant, a missing merchant being a group of its
  own, and the sums cast to float.\<close>

definition merchant_totals ::
  "env \<Rightarrow> string option \<Rightarrow> dataframe \<Rightarrow> string \<Rightarrow> string \<Rightarrow> exn + (cell \<times> pyfloat) list" where
  "merchant_totals e month df merchant_col amt_col =
     ebind (groupby_sum e False (\<lambda>r. row_get r merchant_col) amt_col (month_rows e month df))
       (\<lambda>totals. emap (\<lambda>(k, c). ebind (as_float e c) (\<lambda>f. Inr (k, f))) totals)"

text \<open>
  Lines 164-165: \<open>total_spent = float(grp["spent"].sum() or 0.0) or 1.0\<close> and
  \<open>grp["share"] = (grp["spent"] / total_spent).round(4)\<close>.
\<close>

definition share_divisor :: "env \<Rightarrow> pyfloat list \<Rightarrow> pyfloat" where
  "share_divisor e spent = f_or (f_or (sum_skipna e spent) (Fin 0)) (Fin 1)"

definition merchant_shares :: "env \<Rightarrow> (cell \<times> pyfloat) list \<Rightarrow> (cell \<times> pyfloat \<times> pyfloat) list" where
  "merchant_shares e grp =
     (let total_spent = share_divisor e (map snd grp)
      in map (\<lambda>(merchant, spent).
                (merchant, spent, series_round e 4 (float_div e spent total_spent))) grp)"

text \<open>Lines 166-168: the rows by descending spend, the first \<open>n\<close> of them, the spend
  rounded to two places, as a list of records.\<close>

definition merchant_result ::
  "env \<Rightarrow> string option \<Rightarrow> int \<Rightarrow> (cell \<times> pyfloat) list \<Rightarrow> (string \<times> pyval) list" where
  "merchant_result e month n grp =
     [(''month'', PStr (case month of None \<Rightarrow> ''all'' | Some m \<Rightarrow> if m = '''' then ''all'' else m)),
      (''items'', PList
         (map (\<lambda>(merchant, spent, share).
                 PDict [(''merchant'', cell_val merchant),
                        (''spent'', PFloat (series_round e 2 spent)),
                        (''share'', PFloat share)])
            (df_head (or_ten n)
               (sort_by (\<lambda>(m1, s1, h1) (m2, s2, h2). f_ge s1 s2) (merchant_shares e grp)))))]"

definition top_merchants ::
  "env \<Rightarrow> string option \<Rightarrow> int \<Rightarrow> string option \<Rightarrow> string option \<Rightarrow> exn + (string \<times> pyval) list" where
  "top_merchants e month n csv_path user_id = (case resolve_path e csv_path user_id of
       None \<Rightarrow> Inr [(''items'', PList []), (''notes'', PStr ''No transaction data available'')]
     | Some path \<Rightarrow>
         ebind (ensure_csv_exists e (Some path)) (\<lambda>u.
         ebind (read_csv e path) (\<lambda>df.
           case (first_present merchant_aliases df, first_present amount_aliases df) of
             (Some merchant_col, Some amt_col) \<Rightarrow>
               ebind (merchant_totals e month df merchant_col amt_col) (\<lambda>grp.
                 Inr (merchant_result e month n grp))
           | _ \<Rightarrow> Inr [(''items'', PList []), (''notes'', PStr ''merchant/amount column missing'')])))"

section \<open>Aggregate accessors (app/tools/enhanced\_csv\_tools.py)\<close>

definition detect_columns :: "dataframe \<Rightarrow> string option \<times> string option \<times> string option" where
  "detect_columns df =
     (first_present date_aliases df, first_present amount_aliases df, first_present category_aliases df)"

definition merchant_column :: "dataframe \<Rightarrow> string option" where
  "merchant_column df = first_present merchant_aliases df"

text \<open>\<open>_run_duckdb\<close>: only a statement whose first word is \<open>select\<close> or \<open>with\<close> is
  handed to the engine.\<close>

definition run_duckdb :: "env \<Rightarrow> string \<Rightarrow> string \<Rightarrow> exn + dataframe" where
  "run_duckdb e sql csv_path = (case py_split (lower_with (str_lower e) (py_strip sql)) of
       [] \<Rightarrow> Inl (Exn OtherException ''list index out of range'')
     | first_word # ws \<Rightarrow>
         if first_word \<in> {''select'', ''with''} then duckdb_query e sql csv_path
         else Inl (Exn ValueError
                     (''Only SELECT and WITH queries are allowed. Found: '' @ first_word)))"

definition ym_filter_clause :: "int option \<Rightarrow> int option \<Rightarrow> string \<Rightarrow> string" where
  "ym_filter_clause year month date_expr =
     (let clauses =
            (case year of None \<Rightarrow> [] | Some y \<Rightarrow> [''YEAR('' @ date_expr @ '') = '' @ show_int y])
          @ (case month of None \<Rightarrow> [] | Some m \<Rightarrow> [''MONTH('' @ date_expr @ '') = '' @ show_int m])
      in if clauses = [] then ''TRUE'' else py_join '' AND '' clauses)"

definition try_strptime :: "string \<Rightarrow> string \<Rightarrow> string" where
  "try_strptime date_col fmt =
     ''TRY_STRPTIME(CAST('' @ date_col @ '' AS VARCHAR), '' @ sq @ fmt @ sq @ '')''"

definition normalize_date_sql :: "string \<Rightarrow> string" where
  "normalize_date_sql date_col =
     ''COALESCE(TRY_CAST('' @ date_col @ '' AS DATE), ''
     @ py_join '', '' (map (try_strptime date_col)
         [''%Y-%m-%d'', ''%d-%m-%Y'', ''%d/%m/%Y'', ''%m/%d/%Y'', ''%d.%m.%Y''])
     @ '')''"

text \<open>The query texts, with the line breaks and indentation of the source.\<close>

definition total_sql :: "string \<Rightarrow> string \<Rightarrow> string \<Rightarrow> string" where
  "total_sql d_expr amount_col where_clause = py_join nl
     ['''',
      ''            WITH s AS ('',
      ''                SELECT '' @ d_expr @ '' AS d, CAST('' @ amount_col @ '' AS DOUBLE) AS amt FROM t'',
      ''            )'',
      ''            SELECT COALESCE(SUM(amt), 0) AS total FROM s WHERE '' @ where_clause,
      ''        '']"

definition monthly_sql :: "string \<Rightarrow> string \<Rightarrow> string \<Rightarrow> string" where
  "monthly_sql d_expr amount_col where_clause = py_join nl
     ['''',
      ''            WITH s AS ('',
      ''                SELECT DATE_TRUNC('' @ sq @ ''month'' @ sq @ '', '' @ d_expr
        @ '') AS m, CAST('' @ amount_col @ '' AS DOUBLE) AS amt FROM t'',
      ''            )'',
      ''            SELECT CAST(m AS DATE) AS month, SUM(amt) AS spent'',
      ''            FROM s'',
      ''            WHERE '' @ where_clause,
      ''            GROUP BY 1'',
      ''            ORDER BY 1'',
      ''        '']"

definition daily_sql :: "string \<Rightarrow> string \<Rightarrow> string \<Rightarrow> string" where
  "daily_sql d_expr amount_col where_clause = py_join nl
     ['''',
      ''            WITH s AS ('',
      ''                SELECT '' @ d_expr @ '' AS d, CAST('' @ amount_col @ '' AS DOUBLE) AS amt FROM t'',
      ''            )'',
      ''            SELECT CAST(d AS DATE) AS day, SUM(amt) AS spent'',
      ''            FROM s'',
      ''            WHERE '' @ where_clause,
      ''            GROUP BY 1'',
      ''            ORDER BY 1'',
      ''        '']"

definition grouped_sql :: "string \<Rightarrow> string \<Rightarrow> string \<Rightarrow> string \<Rightarrow> string \<Rightarrow> string list \<Rightarrow> string" where
  "grouped_sql d_expr amount_col key_col key_name where_clause limit_lines = py_join nl
     (['''',
       ''            WITH s AS ('',
       ''                SELECT '' @ d_expr @ '' AS d, CAST('' @ amount_col @ '' AS DOUBLE) AS amt, ''
         @ key_col @ '' AS '' @ key_name @ '' FROM t'',
       ''            )'',
       ''            SELECT '' @ key_name @ '', SUM(amt) AS spent'',
       ''            FROM s'',
       ''            WHERE '' @ where_clause,
       ''            GROUP BY 1'',
       ''            ORDER BY spent DESC'']
      @ limit_lines @ [''        ''])"

text \<open>The items of a result table: a label, by \<open>str\<close>, and the amount
  \<open>round(float(x or 0.0), 2)\<close>.\<close>

definition spent_item :: "pylib \<Rightarrow> env \<Rightarrow> string \<Rightarrow> cell \<Rightarrow> cell \<Rightarrow> exn + pyval" where
  "spent_item lib e label k amount =
     ebind (float_or_zero e amount) (\<lambda>f.
       Inr (PDict [(label, PStr (cell_str lib k)), (''spent'', PFloat (py_round e 2 f))]))"

definition table_items :: "pylib \<Rightarrow> env \<Rightarrow> string \<Rightarrow> dataframe \<Rightarrow> exn + pyval list" where
  "table_items lib e label df =
     emap (\<lambda>r. spent_item lib e label (row_get r label) (row_get r ''spent'')) (rows df)"

definition no_data :: "(string \<times> pyval) list" where
  "no_data = [(''items'', PList []), (''notes'', PStr ''No data available'')]"

definition not_found :: "string \<Rightarrow> (string \<times> pyval) list" where
  "not_found what = [(''items'', PList []), (''notes'', PStr (what @ '' not found''))]"

text \<open>The year and month filters of the dataframe path.\<close>

definition by_year :: "env \<Rightarrow> string \<Rightarrow> int option \<Rightarrow> row list \<Rightarrow> row list" where
  "by_year e date_col year rs = (case year of None \<Rightarrow> rs | Some y \<Rightarrow> filter_year e date_col y rs)"

definition by_month :: "env \<Rightarrow> string \<Rightarrow> int option \<Rightarrow> row list \<Rightarrow> row list" where
  "by_month e date_col month rs = (case month of None \<Rightarrow> rs | Some m \<Rightarrow> filter_month e date_col m rs)"

definition total_spend ::
  "env \<Rightarrow> int option \<Rightarrow> int option \<Rightarrow> string option \<Rightarrow> string option
     \<Rightarrow> exn + (string \<times> pyval) list" where
  "total_spend e year month csv_path user_id = (case resolve_path e csv_path user_id of
       None \<Rightarrow> Inr [(''total'', PFloat (Fin 0)), (''notes'', PStr ''No data available'')]
     | Some path \<Rightarrow>
         ebind (ensure_csv_exists e (Some path)) (\<lambda>u.
           if has_duckdb e then
             ebind (read_csv_nrows e path 1000) (\<lambda>df_head.
               case detect_columns df_head of
                 (date_col, None, c) \<Rightarrow>
                   Inr [(''total'', PFloat (Fin 0)), (''notes'', PStr ''amount column not found'')]
               | (date_col, Some amount_col, c) \<Rightarrow>
                   (let d_expr = (case date_col of None \<Rightarrow> ''NULL'' | Some d \<Rightarrow> normalize_date_sql d);
                        where_clause = (case date_col of None \<Rightarrow> ''TRUE''
                                        | Some d \<Rightarrow> ym_filter_clause year month ''d'')
                    in ebind (run_duckdb e (total_sql d_expr amount_col where_clause) path) (\<lambda>df.
                         case rows df of
                           [] \<Rightarrow> Inl (Exn OtherException ''single positional indexer is out-of-bounds'')
                         | r # rs \<Rightarrow>
                             ebind (float_or_zero e (row_get r ''total'')) (\<lambda>f.
                               Inr [(''year'', opt_int year), (''month'', opt_int month),
                                    (''total'', PFloat (py_round e 2 f))]))))
           else
             ebind (read_csv e path) (\<lambda>df.
               case detect_columns df of
                 (date_col, None, c) \<Rightarrow>
                   Inr [(''total'', PFloat (Fin 0)), (''notes'', PStr ''amount column not found'')]
               | (date_col, Some amount_col, c) \<Rightarrow>
                   (let rs = (case date_col of
                                None \<Rightarrow> rows df
                              | Some d \<Rightarrow> by_month e d month (by_year e d year (rows df)));
                        numeric = map (\<lambda>r. case row_get r amount_col of
                                         Num f \<Rightarrow> f
                                       | Str s \<Rightarrow> (case float_of_str e s of Inr f \<Rightarrow> f | Inl x \<Rightarrow> NaN)) rs;
                        total_val = f_or (sum_skipna e numeric) (Fin 0)
                    in Inr [(''year'', opt_int year), (''month'', opt_int month),
                            (''total'', PFloat (py_round e 2 total_val))]))))"

text \<open>The grouped sums of the dataframe path, as items: the key's label is the key itself
  for the month and day tables, and \<open>str\<close> of the key for categories and merchants.\<close>

definition grouped_items ::
  "pylib \<Rightarrow> env \<Rightarrow> string \<Rightarrow> (cell \<times> cell) list \<Rightarrow> exn + pyval list" where
  "grouped_items lib e label grp = emap (\<lambda>(k, amount). spent_item lib e label k amount) grp"

definition monthly_spend ::
  "pylib \<Rightarrow> env \<Rightarrow> int option \<Rightarrow> string option \<Rightarrow> string option \<Rightarrow> exn + (string \<times> pyval) list" where
  "monthly_spend lib e year csv_path user_id = (case resolve_path e csv_path user_id of
       None \<Rightarrow> Inr no_data
     | Some path \<Rightarrow>
         ebind (ensure_csv_exists e (Some path)) (\<lambda>u.
           if has_duckdb e then
             ebind (read_csv_nrows e path 1000) (\<lambda>df_head.
               case detect_columns df_head of
                 (Some date_col, Some amount_col, c) \<Rightarrow>
                   (let where_clause = (case year of None \<Rightarrow> ''TRUE''
                                        | Some y \<Rightarrow> ym_filter_clause year None ''d'')
                    in ebind (run_duckdb e
                                (monthly_sql (normalize_date_sql date_col) amount_col where_clause) path)
                         (\<lambda>df. ebind (table_items lib e ''month'' df) (\<lambda>items.
                            Inr [(''year'', opt_int year), (''items'', PList items)])))
               | _ \<Rightarrow> Inr (not_found ''date/amount columns''))
           else
             ebind (read_csv e path) (\<lambda>df.
               case detect_columns df of
                 (Some date_col, Some amount_col, c) \<Rightarrow>
                   ebind (groupby_sum e True
                            (\<lambda>r. Str (period_str (to_datetime e (row_get r date_col))))
                            amount_col (by_year e date_col year (rows df))) (\<lambda>grp.
                   ebind (grouped_items lib e ''month'' grp) (\<lambda>items.
                     Inr [(''year'', opt_int year), (''items'', PList items)]))
               | _ \<Rightarrow> Inr (not_found ''date/amount columns''))))"

definition daily_spend ::
  "pylib \<Rightarrow> env \<Rightarrow> int option \<Rightarrow> int option \<Rightarrow> string option \<Rightarrow> string option
     \<Rightarrow> exn + (string \<times> pyval) list" where
  "daily_spend lib e year month csv_path user_id = (case resolve_path e csv_path user_id of
       None \<Rightarrow> Inr no_data
     | Some path \<Rightarrow>
         ebind (ensure_csv_exists e (Some path)) (\<lambda>u.
           if has_duckdb e then
             ebind (read_csv_nrows e path 1000) (\<lambda>df_head.
               case detect_columns df_head of
                 (Some date_col, Some amount_col, c) \<Rightarrow>
                   ebind (run_duckdb e
                            (daily_sql (normalize_date_sql date_col) amount_col
                               (ym_filter_clause year month ''d'')) path)
                     (\<lambda>df. ebind (table_items lib e ''day'' df) (\<lambda>items.
                        Inr [(''year'', opt_int year), (''month'', opt_int month),
                             (''items'', PList items)]))
               | _ \<Rightarrow> Inr (not_found ''date/amount columns''))
           else
             ebind (read_csv e path) (\<lambda>df.
               case detect_columns df of
                 (Some date_col, Some amount_col, c) \<Rightarrow>
                   ebind (groupby_sum e True
                            (\<lambda>r. Str (date_str (to_datetime e (row_get r date_col))))
                            amount_col
                            (by_month e date_col month (by_year e date_col year (rows df)))) (\<lambda>grp.
                   ebind (grouped_items lib e ''day'' grp) (\<lambda>items.
                     Inr [(''year'', opt_int year), (''month'', opt_int month),
                          (''items'', PList items)]))
               | _ \<Rightarrow> Inr (not_found ''date/amount columns''))))"

definition category_stats ::
  "pylib \<Rightarrow> env \<Rightarrow> int option \<Rightarrow> int option \<Rightarrow> string option \<Rightarrow> string option
     \<Rightarrow> exn + (string \<times> pyval) list" where
  "category_stats lib e year month csv_path user_id = (case resolve_path e csv_path user_id of
       None \<Rightarrow> Inr no_data
     | Some path \<Rightarrow>
         ebind (ensure_csv_exists e (Some path)) (\<lambda>u.
           if has_duckdb e then
             ebind (read_csv_nrows e path 1000) (\<lambda>df_head.
               case detect_columns df_head of
                 (date_col, Some amount_col, Some category_col) \<Rightarrow>
                   (let d_expr = (case date_col of None \<Rightarrow> ''NULL'' | Some d \<Rightarrow> normalize_date_sql d);
                        where_clause = (case date_col of None \<Rightarrow> ''TRUE''
                                        | Some d \<Rightarrow> ym_filter_clause year month ''d'')
                    in ebind (run_duckdb e
                                (grouped_sql d_expr amount_col category_col ''category'' where_clause [])
                                path)
                         (\<lambda>df. ebind (table_items lib e ''category'' df) (\<lambda>items.
                            Inr [(''year'', opt_int year), (''month'', opt_int month),
                                 (''items'', PList items)])))
               | _ \<Rightarrow> Inr (not_found ''amount/category columns''))
           else
             ebind (read_csv e path) (\<lambda>df.
               case detect_columns df of
                 (date_col, Some amount_col, Some category_col) \<Rightarrow>
                   (let rs = (case date_col of
                                None \<Rightarrow> rows df
                              | Some d \<Rightarrow> by_month e d month (by_year e d year (rows df)))
                    in ebind (groupby_sum e True (\<lambda>r. row_get r category_col) amount_col rs) (\<lambda>grp.
                       ebind (grouped_items lib e ''category''
                                (sort_by (\<lambda>(k1, a1) (k2, a2). cell_ge a1 a2) grp)) (\<lambda>items.
                         Inr [(''year'', opt_int year), (''month'', opt_int month),
                              (''items'', PList items)])))
               | _ \<Rightarrow> Inr (not_found ''amount/category columns''))))"

definition merchant_stats ::
  "pylib \<Rightarrow> env \<Rightarrow> int option \<Rightarrow> int option \<Rightarrow> int \<Rightarrow> string option \<Rightarrow> string option
     \<Rightarrow> exn + (string \<times> pyval) list" where
  "merchant_stats lib e year month top_n csv_path user_id = (case resolve_path e csv_path user_id of
       None \<Rightarrow> Inr no_data
     | Some path \<Rightarrow>
         ebind (ensure_csv_exists e (Some path)) (\<lambda>u.
           if has_duckdb e then
             ebind (read_csv_nrows e path 1000) (\<lambda>df_head.
               case (detect_columns df_head, merchant_column df_head) of
                 ((date_col, Some amount_col, c), Some merchant_col) \<Rightarrow>
                   (let d_expr = (case date_col of None \<Rightarrow> ''NULL'' | Some d \<Rightarrow> normalize_date_sql d);
                        where_clause = (case date_col of None \<Rightarrow> ''TRUE''
                                        | Some d \<Rightarrow> ym_filter_clause year month ''d'')
                    in ebind (run_duckdb e
                                (grouped_sql d_expr amount_col merchant_col ''merchant'' where_clause
                                   [''            LIMIT '' @ show_int (or_ten top_n)])
                                path)
                         (\<lambda>df. ebind (table_items lib e ''merchant'' df) (\<lambda>items.
                            Inr [(''year'', opt_int year), (''month'', opt_int month),
                                 (''items'', PList items)])))
               | _ \<Rightarrow> Inr (not_found ''merchant/amount columns''))
           else
             ebind (read_csv e path) (\<lambda>df.
               case (detect_columns df, merchant_column df) of
                 ((date_col, Some amount_col, c), Some merchant_col) \<Rightarrow>
                   (let rs = (case date_col of
                                None \<Rightarrow> rows df
                              | Some d \<Rightarrow> by_month e d month (by_year e d year (rows df)))
                    in ebind (groupby_sum e True (\<lambda>r. row_get r merchant_col) amount_col rs) (\<lambda>grp.
                       ebind (grouped_items lib e ''merchant''
                                (df_head (or_ten top_n)
                                   (sort_by (\<lambda>(k1, a1) (k2, a2). cell_ge a1 a2) grp))) (\<lambda>items.
                         Inr [(''year'', opt_int year), (''month'', opt_int month),
                              (''items'', PList items)])))
               | _ \<Rightarrow> Inr (not_found ''merchant/amount columns''))))"

text \<open>\<open>time_coverage\<close> resolves the path like the others but does not test it before
  \<open>_ensure_csv_exists\<close>.\<close>

definition min_date :: "date list \<Rightarrow> date" where
  "min_date ds = hd (sort_by date_le ds)"

definition max_date :: "date list \<Rightarrow> date" where
  "max_date ds = last (sort_by date_le ds)"

definition time_coverage :: "env \<Rightarrow> string option \<Rightarrow> string option \<Rightarrow> exn + (string \<times> pyval) list" where
  "time_coverage e csv_path user_id =
     (let path = resolve_path e csv_path user_id in
      ebind (ensure_csv_exists e path) (\<lambda>u.
      ebind (read_csv_nrows e (the path) 50000) (\<lambda>df.
        case first_present date_aliases df of
          None \<Rightarrow> Inr [(''min'', PNone), (''max'', PNone)]
        | Some date_col \<Rightarrow>
            (case List.map_filter (\<lambda>r. to_datetime e (row_get r date_col)) (rows df) of
               [] \<Rightarrow> Inr [(''min'', PNone), (''max'', PNone)]
             | d # ds \<Rightarrow> Inr [(''min'', PStr (date_str (Some (min_date (d # ds))))),
                             (''max'', PStr (date_str (Some (max_date (d # ds)))))]))))"

section \<open>JSON guard (llm/json\_guard.py)\<close>

definition is_alnum :: "char \<Rightarrow> bool" where
  "is_alnum c = (let n = (of_char c :: nat) in
     (48 \<le> n \<and> n \<le> 57) \<or> (65 \<le> n \<and> n \<le> 90) \<or> (97 \<le> n \<and> n \<le> 122))"

definition ends_with :: "string \<Rightarrow> string \<Rightarrow> bool" where
  "ends_with p s = starts_with (rev p) (rev s)"

text \<open>\<open>_strip_code_fences\<close>: an opening fence with its language tag and line break, and a
  closing fence, are removed.\<close>

definition strip_code_fences :: "string \<Rightarrow> string" where
  "strip_code_fences s0 =
     (if s0 = '''' then s0
      else
        let s1 = py_strip s0;
            s2 = (if starts_with ''```'' s1 then
                    (let after = dropWhile is_alnum (drop 3 s1) in
                     py_strip (case after of
                                 c # cs \<Rightarrow> if c = CHR 0x0A then cs else s1
                               | [] \<Rightarrow> s1))
                  else s1)
        in if ends_with ''```'' s2 then py_strip (take (length s2 - 3) s2) else s2)"

definition validate_json_response :: "pylib \<Rightarrow> string \<Rightarrow> exn + pyval" where
  "validate_json_response lib txt =
     try_except (lib_loads lib (strip_code_fences txt))
       (\<lambda>e. Inl (Exn ValueError (''Failed to parse JSON response: '' @ exn_str e)))"

section \<open>Orchestrator (vectordb/orchestrator.py)\<close>

text \<open>
  The collaborators of the orchestrator that lie outside the pipeline are parameters:
  the system prompt text (a module constant, extended by the stored user profile), the
  knowledge store's retrieval, the risk profile that \<open>get_risk_profile()\<close> returns, the
  analysis agent (profile loading, data extraction and \<open>analyze\<close> in one), the
  implementation agent's plan and its formatting, and
  \<open>_get_comprehensive_data_context\<close>. The last one's body is a single \<open>try\<close> statement
  whose handler returns a pair, so it yields a text and a dictionary of charts for every
  message; none of these collaborators calls the LLM client.
\<close>

record services =
  system_advisor :: string
  retrieve_knowledge :: "string \<Rightarrow> exn + chunk list"
  risk_profile_of :: "(string \<times> pyval) list"
  financial_analysis_of :: "(string \<times> pyval) list \<Rightarrow> string option \<Rightarrow> exn + pyval"
  implementation_plan_of :: "pyval \<Rightarrow> pyval \<Rightarrow> pyval option \<Rightarrow> exn + pyval"
  implementation_response_of :: "pyval \<Rightarrow> exn + (string \<times> pyval) list"
  data_context :: "string \<Rightarrow> string option \<Rightarrow> string \<times> (string \<times> pyval) list"

text \<open>
  The orchestrator object: the flag that gates the agent workflow and the two optional
  agents. \<open>__init__\<close> has three ways through: the agents' module imported and the
  initialisation succeeded, imported and failed, or not imported; it sets
  \<open>use_vectordb = False\<close> on each of them.
\<close>

record orchestrator =
  use_vectordb :: bool
  analysis_agent :: bool
  implementation_agent :: bool

definition init_orchestrator :: "bool \<Rightarrow> bool \<Rightarrow> orchestrator" where
  "init_orchestrator vectordb_available init_fails =
     (if vectordb_available then
        (if \<not> init_fails
         then \<lparr>use_vectordb = False, analysis_agent = True, implementation_agent = True\<rparr>
         else \<lparr>use_vectordb = False, analysis_agent = False, implementation_agent = False\<rparr>)
      else \<lparr>use_vectordb = False, analysis_agent = False, implementation_agent = False\<rparr>)"

text \<open>Helpers for the values the workflow handles: a value used as a dictionary, a
  comparison with zero, and \<open>sep.join(v)\<close> on a value.\<close>

fun as_dict :: "pyval \<Rightarrow> exn + (string \<times> pyval) list" where
  "as_dict (PDict d) = Inr d"
| "as_dict v = Inl (Exn AttributeError ''object has no attribute get'')"

fun gt_zero :: "pyval \<Rightarrow> exn + bool" where
  "gt_zero (PInt i) = Inr (i > 0)"
| "gt_zero (PBool b) = Inr b"
| "gt_zero (PFloat (Fin x)) = Inr (x > 0)"
| "gt_zero (PFloat PosInf) = Inr True"
| "gt_zero (PFloat f) = Inr False"
| "gt_zero v = Inl (Exn TypeError ''> not supported between these instances'')"

fun join_value :: "string \<Rightarrow> pyval \<Rightarrow> exn + string" where
  "join_value sep (PList xs) = ebind (emap str_item xs) (\<lambda>ss. Inr (py_join sep ss))"
| "join_value sep (PStr s) = Inr (py_join sep (py_chars s))"
| "join_value sep (PDict d) = Inr (py_join sep (map fst d))"
| "join_value sep v = Inl (Exn TypeError ''can only join an iterable'')"

text \<open>\<open>for x in v\<close>: the elements of a list, the characters of a string, the keys of a
  dictionary; any other value is not iterable.\<close>

fun iter_items :: "pyval \<Rightarrow> exn + pyval list" where
  "iter_items (PList xs) = Inr xs"
| "iter_items (PStr s) = Inr (map PStr (py_chars s))"
| "iter_items (PDict d) = Inr (map (\<lambda>(k, v). PStr k) d)"
| "iter_items v = Inl (Exn TypeError ''object is not iterable'')"

text \<open>
  Step 3 of the workflow: the transaction summary and the financial analysis. Both
  start as \<open>None\<close>; the summary is set once the three accessors and the category loop
  have run without an exception, the analysis once the analysis agent has. Each of the two
  \<open>try\<close> statements swallows its exception. The categories are the accessor's, which
  are strings.
\<close>

definition category_breakdown :: "pyval list \<Rightarrow> exn + (string \<times> pyval) list" where
  "category_breakdown items =
     ebind (emap (\<lambda>item.
              ebind (py_get item ''category'' (PStr ''Unknown'')) (\<lambda>cat_name.
              ebind (py_get item ''spent'' (PInt 0)) (\<lambda>cat_spent.
              ebind (gt_zero cat_spent) (\<lambda>positive.
              ebind (if positive then
                       (if hashable cat_name then Inr () else Inl (Exn TypeError ''unhashable type''))
                     else Inr ()) (\<lambda>u.
                Inr (positive, cat_name, cat_spent)))))) items)
       (\<lambda>entries. Inr (foldl (\<lambda>d (positive, k, v).
                           if positive then dict_set d (case k of PStr s \<Rightarrow> s | _ \<Rightarrow> '''') v else d)
                         [] entries))"

definition build_summary ::
  "(string \<times> pyval) list \<Rightarrow> (string \<times> pyval) list \<Rightarrow> (string \<times> pyval) list
     \<Rightarrow> exn + (string \<times> pyval) list" where
  "build_summary tot monthly categories =
     ebind (if truthy (dict_get categories ''items'')
            then ebind (iter_items (dict_get_or categories ''items'' (PList []))) category_breakdown
            else Inr []) (\<lambda>breakdown.
     ebind (if monthly \<noteq> []
            then ebind (py_get (dict_get_or monthly ''recent_monthly'' (PDict [])) ''total'' (PInt 0)) Inr
            else Inr (PInt 0)) (\<lambda>monthly_total.
     ebind (slice_items 5 (dict_get_or categories ''items'' (PList []))) (\<lambda>top.
     ebind (emap (\<lambda>cat. get_attr cat ''category'') top) (\<lambda>top_categories.
       Inr [(''total_spend'', dict_get_or tot ''total'' (PInt 0)),
            (''monthly_spend'', monthly_total),
            (''top_categories'', PList top_categories),
            (''category_breakdown'', PDict breakdown),
            (''savings_rate'', PInt 0)]))))"

definition gather_transactions ::
  "pylib \<Rightarrow> env \<Rightarrow> services \<Rightarrow> orchestrator \<Rightarrow> string option
     \<Rightarrow> (string \<times> pyval) list option \<times> pyval option" where
  "gather_transactions lib e sv orch user_id =
     (case ebind (total_spend e None None None user_id) (\<lambda>tot.
           ebind (monthly_spend lib e None None user_id) (\<lambda>monthly.
           ebind (category_stats lib e None None None user_id) (\<lambda>categories.
             build_summary tot monthly categories))) of
        Inl x \<Rightarrow> (None, None)
      | Inr summary \<Rightarrow>
          (Some summary,
           if analysis_agent orch then
             (case financial_analysis_of sv summary user_id of
                Inl x \<Rightarrow> None
              | Inr a \<Rightarrow> Some a)
           else None))"

text \<open>Step 7: the implementation plan, \<open>None\<close> when there is no agent, no
  recommendation, or an exception.\<close>

definition plan_for ::
  "services \<Rightarrow> orchestrator \<Rightarrow> (string \<times> pyval) list \<Rightarrow> (string \<times> pyval) list
     \<Rightarrow> (string \<times> pyval) list \<Rightarrow> pyval option" where
  "plan_for sv orch profile strategy risk_assessment =
     (if implementation_agent orch then
        (let risk_tolerance = dict_get_or profile ''risk_tolerance'' (PStr ''Moderate'');
             recommendations = select_recommendations strategy risk_assessment
         in case ebind (iter_items recommendations) (\<lambda>recs.
                 ebind (emap (\<lambda>rec.
                          ebind (get_attr rec ''specific_products'') (\<lambda>p.
                            if truthy p then iter_items p else Inr [])) recs) (\<lambda>products.
                   if truthy recommendations then
                     ebind (implementation_plan_of sv risk_tolerance recommendations
                              (if concat products = [] then None else Some (PList (concat products))))
                       (\<lambda>plan. Inr (Some plan))
                   else Inr None)) of
              Inl x \<Rightarrow> None
            | Inr plan \<Rightarrow> plan)
      else None)"

text \<open>The prompt of the simpler path of the workflow.\<close>

definition workflow_prompt :: "services \<Rightarrow> chunk list \<Rightarrow> string \<Rightarrow> string \<Rightarrow> string" where
  "workflow_prompt sv knowledge_context data_analysis message =
     system_advisor sv @ nl @ nl
     @ (if knowledge_context \<noteq> [] then
          ''RELEVANT KNOWLEDGE:'' @ nl
          @ concat (map (\<lambda>(i, c). nl @ ''['' @ show_nat i @ ''] '' @ chunk_content c @ nl)
                      (enumerate1 (take 3 knowledge_context)))
          @ nl @ nl
        else '''')
     @ (if data_analysis \<noteq> '''' then ''TRANSACTION DATA CONTEXT:'' @ nl @ data_analysis @ nl @ nl else '''')
     @ ''User Question: '' @ message @ nl @ nl"

text \<open>The two branches of step 4, and the workflow. The workflow's own \<open>try\<close> statement
  turns every exception into the result \<open>None\<close>.\<close>

definition strategy_branch ::
  "pylib \<Rightarrow> llm \<Rightarrow> services \<Rightarrow> orchestrator \<Rightarrow> string \<Rightarrow> chunk list
     \<Rightarrow> (string \<times> pyval) list option \<Rightarrow> pyval option \<Rightarrow> world
     \<Rightarrow> (exn + (string \<times> pyval) list) \<times> world" where
  "strategy_branch lib llm sv orch message knowledge_context transaction_summary financial_analysis w =
     (let profile = risk_profile_of sv;
          (s, w1) = generate_strategy lib llm message knowledge_context (Some profile)
                      transaction_summary None w
      in case ebind s as_dict of
           Inl x \<Rightarrow> (Inl x, w1)
         | Inr strategy \<Rightarrow>
             (let (r, w2) = assess_risk lib llm strategy profile (Some knowledge_context) w1
              in (ebind (ebind r as_dict) (\<lambda>risk_assessment.
                    (let implementation_plan = plan_for sv orch profile strategy risk_assessment in
                     ebind (format_response lib message strategy risk_assessment transaction_summary
                              (Some knowledge_context)) (\<lambda>response.
                       (let r1 = (case financial_analysis of
                                    None \<Rightarrow> response
                                  | Some a \<Rightarrow>
                                      if truthy a then
                                        dict_set (dict_set response ''financial_analysis'' a)
                                          ''type'' (PStr ''strategy_with_analysis'')
                                      else response)
                        in case implementation_plan of
                             None \<Rightarrow> Inr r1
                           | Some plan \<Rightarrow>
                               if truthy plan then
                                 ebind (implementation_response_of sv plan) (\<lambda>impl.
                                 ebind (case map_of impl ''data'' of
                                          None \<Rightarrow> Inl (Exn OtherException ''KeyError: data'')
                                        | Some d \<Rightarrow> Inr d) (\<lambda>impl_data.
                                 ebind (case (map_of impl ''answer'', dict_get r1 ''answer'') of
                                          (Some (PStr a), PStr answer) \<Rightarrow>
                                            Inr (answer @ nl @ nl @ ''---'' @ nl @ nl @ a)
                                        | _ \<Rightarrow> Inl (Exn TypeError ''can only concatenate str'')) (\<lambda>answer.
                                   Inr (dict_set
                                          (dict_set (dict_set r1 ''implementation_plan'' impl_data)
                                             ''answer'' (PStr answer))
                                          ''type''
                                          (PStr (if dict_get r1 ''type'' = PStr ''strategy_with_analysis''
                                                 then ''strategy_with_analysis_and_implementation''
                                                 else ''strategy_with_implementation''))))))
                               else Inr r1)))), w2)))"

definition simple_branch ::
  "llm \<Rightarrow> services \<Rightarrow> string \<Rightarrow> string option \<Rightarrow> chunk list \<Rightarrow> pyval option \<Rightarrow> world
     \<Rightarrow> (exn + (string \<times> pyval) list) \<times> world" where
  "simple_branch llm sv message user_id knowledge_context financial_analysis w =
     (let (data_analysis, visualizations) = data_context sv message user_id;
          (r, w1) = complete llm (workflow_prompt sv knowledge_context data_analysis message) w
      in (ebind r (\<lambda>response_text.
            (let r0 = format_simple_response response_text (Some knowledge_context);
                 r1 = (if visualizations \<noteq> []
                       then dict_set (dict_set r0 ''visualizations'' (PDict visualizations))
                              ''type'' (PStr ''visualization'')
                       else r0)
             in Inr (case financial_analysis of
                       None \<Rightarrow> r1
                     | Some a \<Rightarrow>
                         if truthy a then
                           dict_set (dict_set r1 ''financial_analysis'' a) ''type''
                             (PStr (if dict_get r1 ''type'' = PStr ''visualization''
                                    then ''visualization_with_analysis'' else ''analysis''))
                         else r1))), w1))"

definition investment_types :: "pyval list" where
  "investment_types = [PStr ''investment_advice'', PStr ''portfolio_question'', PStr ''market_question'']"

definition process_with_vectordb_workflow ::
  "pylib \<Rightarrow> llm \<Rightarrow> env \<Rightarrow> services \<Rightarrow> orchestrator \<Rightarrow> string \<Rightarrow> message list option
     \<Rightarrow> string option \<Rightarrow> world \<Rightarrow> (string \<times> pyval) list option \<times> world" where
  "process_with_vectordb_workflow lib llm e sv orch message context user_id w =
     (let (p, w1) = parse_query lib llm message context w in
      case ebind p (\<lambda>parsed.
           ebind (py_get parsed ''requires_knowledge'' (PBool False)) (\<lambda>rk.
           ebind (if truthy rk then
                    ebind (py_get parsed ''keywords'' (PList [PStr message])) (\<lambda>kw.
                    ebind (join_value '' '' kw) (retrieve_knowledge sv))
                  else Inr []) (\<lambda>knowledge_context.
           ebind (py_get parsed ''requires_transaction_data'' (PBool False)) (\<lambda>rt.
           ebind (py_get parsed ''query_type'' (PStr '''')) (\<lambda>query_type.
             Inr (knowledge_context,
                  (if truthy rt then gather_transactions lib e sv orch user_id else (None, None)),
                  query_type \<in> set investment_types)))))) of
        Inl x \<Rightarrow> (None, w1)
      | Inr (knowledge_context, (transaction_summary, financial_analysis), is_investment_query) \<Rightarrow>
          (let (r, w2) =
                 (if is_investment_query \<and> knowledge_context \<noteq> []
                  then strategy_branch lib llm sv orch message knowledge_context transaction_summary
                         financial_analysis w1
                  else simple_branch llm sv message user_id knowledge_context financial_analysis w1)
           in (case r of Inl x \<Rightarrow> None | Inr response \<Rightarrow> Some response, w2)))"

text \<open>The prompt of \<open>chat\<close>'s own path: system text, data context, the question, the last
  five turns, and the fixed instructions.\<close>

definition chat_instructions :: string where
  \<open>chat_instructions = py_join nl
     [''INSTRUCTIONS:'',
      ''- Provide concise, data-driven answers with specific numbers'',
      ''- Be direct and to the point - avoid lengthy explanations'',
      ''- Use bullet points for multiple items'',
      ''- If visualizations are available, mention them briefly'',
      ''- Don't repeat greetings if continuing a conversation'',
      ''- Focus on the most relevant data points'']\<close>

definition chat_prompt :: "services \<Rightarrow> string \<Rightarrow> string \<Rightarrow> string \<Rightarrow> string" where
  "chat_prompt sv data_analysis message context_str =
     system_advisor sv @ nl @ nl
     @ (if data_analysis \<noteq> '''' then ''TRANSACTION DATA CONTEXT:'' @ nl @ data_analysis @ nl @ nl else '''')
     @ ''User Question: '' @ message @ nl @ nl
     @ (if context_str \<noteq> '''' then ''Recent conversation:'' @ nl @ context_str @ nl @ nl else '''')
     @ chat_instructions"

text \<open>The inner \<open>try\<close> of \<open>chat\<close>: a response that decodes as a JSON dictionary replaces
  the answer; any exception leaves the text response as it is.\<close>

definition with_json :: "pylib \<Rightarrow> string \<Rightarrow> (string \<times> pyval) list \<Rightarrow> (string \<times> pyval) list" where
  "with_json lib response response_data =
     (case ebind (validate_json_response lib response) (\<lambda>json_response.
           ebind (py_get json_response ''answer'' (PStr response)) (\<lambda>answer.
             Inr (dict_set (dict_set (dict_set response_data ''answer'' answer)
                              ''type'' (PStr ''json'')) ''data'' json_response))) of
        Inl x \<Rightarrow> response_data
      | Inr d \<Rightarrow> d)"

text \<open>The body of \<open>chat\<close>'s outer \<open>try\<close> statement, and \<open>chat\<close> with its handler.\<close>

definition recent_context :: "nat \<Rightarrow> message list option \<Rightarrow> string" where
  "recent_context n context = (case context of
       None \<Rightarrow> ''''
     | Some cx \<Rightarrow> if cx = [] then '''' else render_context (last_n n cx))"

definition chat_fallback ::
  "pylib \<Rightarrow> llm \<Rightarrow> services \<Rightarrow> string \<Rightarrow> message list option \<Rightarrow> string option \<Rightarrow> world
     \<Rightarrow> (exn + (string \<times> pyval) list) \<times> world" where
  "chat_fallback lib llm sv message context user_id w =
     (let context_str = recent_context 5 context;
          (data_analysis, visualizations) = data_context sv message user_id;
          (r, w1) = complete llm (chat_prompt sv data_analysis message context_str) w
      in (ebind r (\<lambda>response.
            (let r0 = [(''answer'', PStr response), (''status'', PStr ''success''), (''type'', PStr ''text'')];
                 r1 = (if visualizations \<noteq> []
                       then dict_set (dict_set r0 ''visualizations'' (PDict visualizations))
                              ''type'' (PStr ''visualization'')
                       else r0)
             in Inr (with_json lib response r1))), w1))"

definition chat_body ::
  "pylib \<Rightarrow> llm \<Rightarrow> env \<Rightarrow> services \<Rightarrow> orchestrator \<Rightarrow> string \<Rightarrow> message list option
     \<Rightarrow> string option \<Rightarrow> world \<Rightarrow> (exn + (string \<times> pyval) list) \<times> world" where
  "chat_body lib llm e sv orch message context user_id w =
     (if use_vectordb orch then
        (case process_with_vectordb_workflow lib llm e sv orch message context user_id w of
           (Some (kv # kvs), w1) \<Rightarrow> (Inr (kv # kvs), w1)
         | (r, w1) \<Rightarrow> chat_fallback lib llm sv message context user_id w1)
      else chat_fallback lib llm sv message context user_id w)"

definition error_envelope :: "exn \<Rightarrow> (string \<times> pyval) list" where
  "error_envelope x =
     [(''answer'', PStr (''I apologize, but I encountered an error: '' @ exn_str x)),
      (''status'', PStr ''error''),
      (''type'', PStr ''error'')]"

definition chat ::
  "pylib \<Rightarrow> llm \<Rightarrow> env \<Rightarrow> services \<Rightarrow> orchestrator \<Rightarrow> string \<Rightarrow> message list option
     \<Rightarrow> string option \<Rightarrow> world \<Rightarrow> (exn + (string \<times> pyval) list) \<times> world" where
  "chat lib llm e sv orch message context user_id w =
     (let (r, w1) = chat_body lib llm e sv orch message context user_id w
      in (try_except r (\<lambda>x. Inr (error_envelope x)), w1))"

section \<open>A sample file for the concrete runs\<close>

text \<open>
  A CSV with the columns \<open>date\<close>, \<open>amount\<close> and \<open>category\<close> and two rows of March 2024:
  groceries for 500 and rent for 15000. It is the shared \<open>transactions.csv\<close>; no other
  path exists. Dates are read in the form \<open>YYYY-MM-DD\<close>. With the engine installed, the
  environment answers the category query that the accessor builds for this file, year
  2024 and month 3, with the table that query denotes (the two categories' sums, the
  greater first), and no other query. The arithmetic is the exact one: the amounts of the
  sample files are small integers or infinities.
\<close>

definition iso_date :: "cell \<Rightarrow> date option" where
  "iso_date x = (case x of
       Num f \<Rightarrow> None
     | Str s \<Rightarrow>
         if length s = 10 \<and> s ! 4 = CHR ''-'' \<and> s ! 7 = CHR ''-''
            \<and> list_all is_digit (take 4 s @ take 2 (drop 5 s) @ drop 8 s)
         then Some (int (digits_val (take 4 s)), digits_val (take 2 (drop 5 s)), digits_val (drop 8 s))
         else None)"

definition march_table :: dataframe where
  "march_table = \<lparr>columns = [''date'', ''amount'', ''category''],
     rows = [[(''date'', Str ''2024-03-05''), (''amount'', Num (Fin 500)), (''category'', Str ''Groceries'')],
             [(''date'', Str ''2024-03-01''), (''amount'', Num (Fin 15000)), (''category'', Str ''Rent'')]]\<rparr>"

definition march_query :: string where
  "march_query = py_join nl
     ['''',
      ''            WITH s AS ('',
      ''                SELECT COALESCE(TRY_CAST(date AS DATE), TRY_STRPTIME(CAST(date AS VARCHAR), ''
        @ sq @ ''%Y-%m-%d'' @ sq @ ''), TRY_STRPTIME(CAST(date AS VARCHAR), ''
        @ sq @ ''%d-%m-%Y'' @ sq @ ''), TRY_STRPTIME(CAST(date AS VARCHAR), ''
        @ sq @ ''%d/%m/%Y'' @ sq @ ''), TRY_STRPTIME(CAST(date AS VARCHAR), ''
        @ sq @ ''%m/%d/%Y'' @ sq @ ''), TRY_STRPTIME(CAST(date AS VARCHAR), ''
        @ sq @ ''%d.%m.%Y'' @ sq @ '')) AS d, CAST(amount AS DOUBLE) AS amt, category AS category FROM t'',
      ''            )'',
      ''            SELECT category, SUM(amt) AS spent'',
      ''            FROM s'',
      ''            WHERE YEAR(d) = 2024 AND MONTH(d) = 3'',
      ''            GROUP BY 1'',
      ''            ORDER BY spent DESC'',
      ''        '']"

definition march_answer :: dataframe where
  "march_answer = \<lparr>columns = [''category'', ''spent''],
     rows = [[(''category'', Str ''Rent''), (''spent'', Num (Fin 15000))],
             [(''category'', Str ''Groceries''), (''spent'', Num (Fin 500))]]\<rparr>"

definition march_env :: "bool \<Rightarrow> env" where
  "march_env engine = \<lparr>base_dir = ''/app'', data_path = ''/app/data/transactions.csv'',
     path_exists = (\<lambda>p. p = ''/app/data/transactions.csv''),
     read_csv = (\<lambda>p. if p = ''/app/data/transactions.csv'' then Inr march_table
                     else Inl (Exn FileNotFoundError ''No such file or directory'')),
     has_duckdb = engine,
     duckdb_query = (\<lambda>sql p. if sql = march_query \<and> p = ''/app/data/transactions.csv''
                              then Inr march_answer
                              else Inl (Exn OtherException ''query not expected'')),
     to_datetime = iso_date,
     float_of_str = (\<lambda>s. Inl (Exn ValueError ''could not convert string to float'')),
     column_sum = exact_sum, group_sum = exact_sum, float_div = fdiv,
     series_round = fround, py_round = fround, str_lower = map lower_char\<rparr>"

text \<open>Four more files: one whose two merchants' amounts are the two infinities, one
  whose two merchants' amounts are 5 and -5, one with a single column that no accessor
  knows, and an installation without any file.\<close>

definition balanced_table :: dataframe where
  "balanced_table = \<lparr>columns = [''merchant'', ''amount''],
     rows = [[(''merchant'', Str ''A''), (''amount'', Num (Fin 5))],
             [(''merchant'', Str ''B''), (''amount'', Num (Fin (- 5)))]]\<rparr>"

definition balanced_env :: env where
  "balanced_env = (march_env False)\<lparr>read_csv := (\<lambda>p. Inr balanced_table)\<rparr>"

definition offset_table :: dataframe where
  "offset_table = \<lparr>columns = [''merchant'', ''amount''],
     rows = [[(''merchant'', Str ''A''), (''amount'', Num PosInf)],
             [(''merchant'', Str ''B''), (''amount'', Num NegInf)]]\<rparr>"

definition offset_env :: env where
  "offset_env = (march_env False)\<lparr>read_csv := (\<lambda>p. Inr offset_table)\<rparr>"

definition memo_table :: dataframe where
  "memo_table = \<lparr>columns = [''memo''], rows = [[(''memo'', Str ''lunch'')]]\<rparr>"

definition memo_env :: "bool \<Rightarrow> env" where
  "memo_env engine = (march_env engine)\<lparr>read_csv := (\<lambda>p. Inr memo_table)\<rparr>"

definition empty_env :: "bool \<Rightarrow> env" where
  "empty_env engine = (march_env engine)\<lparr>path_exists := (\<lambda>p. False)\<rparr>"

text \<open>A run of the orchestrator on an investment question: the provider answers the
  parsing prompt with an investment intent that asks for knowledge and every other prompt
  with a plain sentence, and the knowledge store returns one chunk for any query.\<close>

definition invest_llm :: llm where
  \<open>invest_llm n prompt =
     (if starts_with ''Analyze this financial query'' prompt
      then Inr ''{"query_type": "investment_advice", "requires_knowledge": true, "keywords": ["invest"]}''
      else Inr ''Consider index funds.'')\<close>

definition index_chunk :: chunk where
  "index_chunk = \<lparr>content = Some ''Index funds track a market index.'',
                   metadata = Some [(''title'', PStr ''Basics'')]\<rparr>"

definition invest_services :: services where
  "invest_services = \<lparr>system_advisor = ''You are Co Penny Advisor.'',
     retrieve_knowledge = (\<lambda>query. Inr [index_chunk]),
     risk_profile_of = [(''risk_tolerance'', PStr ''moderate''),
                        (''goals'', PList [PStr ''wealth_creation'', PStr ''retirement'']),
                        (''time_horizon'', PStr ''medium'')],
     financial_analysis_of = (\<lambda>summary user_id. Inl (Exn OtherException ''no model'')),
     implementation_plan_of = (\<lambda>risk_tolerance allocation assets. Inl (Exn OtherException ''no plan'')),
     implementation_response_of = (\<lambda>plan. Inl (Exn OtherException ''no plan'')),
     data_context = (\<lambda>message user_id. ('''', []))\<rparr>"

definition invest_question :: string where
  "invest_question = ''how should I invest my savings''"

section \<open>Notions used to state the properties\<close>

text \<open>
  The outcome of a completion gives a stage nothing to decode when the call raised, when
  the response holds no brace-delimited segment free of inner braces, or when
  \<open>json.loads\<close> rejects the first such segment.
\<close>

definition no_decodable_object :: "pylib \<Rightarrow> exn + string \<Rightarrow> bool" where
  "no_decodable_object lib r = (case r of
       Inl e \<Rightarrow> True
     | Inr response \<Rightarrow>
         (case re_search_object response of None \<Rightarrow> True | Some m \<Rightarrow> isl (lib_loads lib m)))"

text \<open>The \<open>answer\<close> entry of a response envelope, or the exception raised instead.\<close>

definition response_answer :: "exn + (string \<times> pyval) list \<Rightarrow> exn + pyval" where
  "response_answer r = (case r of Inl e \<Rightarrow> Inl e | Inr env \<Rightarrow> Inr (dict_get env ''answer''))"

text \<open>Two messages outside ASCII, in UTF-8: \<open>Hello\<close> followed by a no-break space
  (U+00A0), and the letter h followed by two letters e with acute accent (U+00E9).\<close>

definition hello_nbsp :: string where
  "hello_nbsp = ''Hello'' @ [CHR 0xC2, CHR 0xA0]"

definition short_accented :: string where
  "short_accented = [CHR ''h'', CHR 0xC3, CHR 0xA9, CHR 0xC3, CHR 0xA9]"

text \<open>Inputs of the concrete runs of the output agent: a strategy recommending 60 percent
  equity, and a risk assessment that adjusts it to 40.\<close>

definition strategy_60 :: "(string \<times> pyval) list" where
  "strategy_60 =
     [(''strategy_summary'', PStr ''Grow steadily.''),
      (''recommendations'', PList [PDict [(''category'', PStr ''Equity''),
                                          (''allocation_percentage'', PInt 60),
                                          (''rationale'', PStr ''growth'')]])]"

definition risk_40 :: "(string \<times> pyval) list" where
  "risk_40 =
     [(''risk_score'', PInt 7),
      (''adjusted_recommendations'', PList [PDict [(''category'', PStr ''Equity''),
                                                   (''original_allocation'', PInt 60),
                                                   (''adjusted_allocation'', PInt 40),
                                                   (''reason'', PStr ''too risky'')]])]"

chapter \<open>Properties\<close>

section \<open>Texts\<close>

text \<open>The characters of a text, put together again, are the text.\<close>

lemma concat_py_chars: "concat (py_chars s) = s"
  by (induction s rule: py_chars.induct) simp_all

lemma py_take_all: "py_len s \<le> n \<Longrightarrow> py_take n s = s"
  by (simp add: py_take_def py_len_def concat_py_chars)

section \<open>Parsing agent\<close>

lemma parse_query_greeting:
  assumes "py_strip (py_lower lib user_query) \<in> set greetings
           \<or> py_len (py_strip (py_lower lib user_query)) < 4"
  shows "parse_query lib llm user_query context w = (Inr greeting_intent, w)"
  using assms by (simp add: parse_query_def Let_def)

text \<open>
  C5. When the message, lowercased and stripped, is one of the six greeting strings or has
  fewer than four characters, \<open>parse_query\<close> returns the fixed greeting intent: intent
  \<open>greeting\<close>, the three \<open>requires_*\<close> flags false, no keywords. The world is returned
  unchanged: no prompt was sent to the LLM. Lowercasing and stripping are those of Python
  on any text, and the length counts characters (code points), not bytes.
\<close>

theorem C5_greeting_fast_path:
  assumes "py_strip (py_lower lib user_query) \<in>
             {''hello'', ''hi'', ''hey'', ''good morning'', ''good evening'', ''how are you''}
           \<or> py_len (py_strip (py_lower lib user_query)) < 4"
      and "parse_query lib llm user_query context w = (r, w')"
  shows "\<exists>d. r = Inr (PDict d)
           \<and> dict_get d ''intent'' = PStr ''greeting''
           \<and> dict_get d ''requires_knowledge'' = PBool False
           \<and> dict_get d ''requires_transaction_data'' = PBool False
           \<and> dict_get d ''requires_market_data'' = PBool False
           \<and> dict_get d ''keywords'' = PList []
           \<and> llm_calls w' = llm_calls w"
proof -
  have g: "py_strip (py_lower lib user_query) \<in> set greetings
           \<or> py_len (py_strip (py_lower lib user_query)) < 4"
    using assms(1) by (simp add: greetings_def)
  have "(r, w') = (Inr greeting_intent, w)"
    using parse_query_greeting [OF g] assms(2) by simp
  then show ?thesis
    by (simp add: greeting_intent_def dict_get_def)
qed

text \<open>
  Three messages on the fast path: a greeting in capitals between spaces; a greeting
  followed by a no-break space, which \<open>strip\<close> removes; and a word of three characters in
  five bytes, which is shorter than four characters.
\<close>

theorem C5_greeting_fast_path_witness:
  "py_strip (py_lower example_lib ''  Hello '') = ''hello''
   \<and> py_strip (py_lower example_lib hello_nbsp) = ''hello''
   \<and> length short_accented = 5
   \<and> py_len (py_strip (py_lower example_lib short_accented)) = 3
   \<and> (\<exists>d. fst (parse_query example_lib llm_down ''  Hello '' None w0) = Inr (PDict d)
           \<and> dict_get d ''intent'' = PStr ''greeting''
           \<and> dict_get d ''requires_knowledge'' = PBool False
           \<and> dict_get d ''requires_transaction_data'' = PBool False
           \<and> dict_get d ''requires_market_data'' = PBool False
           \<and> dict_get d ''keywords'' = PList []
           \<and> llm_calls (snd (parse_query example_lib llm_down ''  Hello '' None w0)) = llm_calls w0)
   \<and> (\<exists>d. fst (parse_query example_lib llm_down hello_nbsp None w0) = Inr (PDict d)
           \<and> dict_get d ''intent'' = PStr ''greeting''
           \<and> dict_get d ''requires_knowledge'' = PBool False
           \<and> dict_get d ''requires_transaction_data'' = PBool False
           \<and> dict_get d ''requires_market_data'' = PBool False
           \<and> dict_get d ''keywords'' = PList []
           \<and> llm_calls (snd (parse_query example_lib llm_down hello_nbsp None w0)) = llm_calls w0)
   \<and> (\<exists>d. fst (parse_query example_lib llm_down short_accented None w0) = Inr (PDict d)
           \<and> dict_get d ''intent'' = PStr ''greeting''
           \<and> dict_get d ''requires_knowledge'' = PBool False
           \<and> dict_get d ''requires_transaction_data'' = PBool False
           \<and> dict_get d ''requires_market_data'' = PBool False
           \<and> dict_get d ''keywords'' = PList []
           \<and> llm_calls (snd (parse_query example_lib llm_down short_accented None w0)) = llm_calls w0)"
proof -
  have n1: "py_strip (py_lower example_lib ''  Hello '') = ''hello''"
    by code_simp
  have n2: "py_strip (py_lower example_lib hello_nbsp) = ''hello''"
    by code_simp
  have n3: "py_len (py_strip (py_lower example_lib short_accented)) = 3"
    by code_simp
  have n4: "length short_accented = 5"
    by code_simp
  have h1: "py_strip (py_lower example_lib ''  Hello '') \<in>
             {''hello'', ''hi'', ''hey'', ''good morning'', ''good evening'', ''how are you''}
           \<or> py_len (py_strip (py_lower example_lib ''  Hello '')) < 4"
    by (simp add: n1)
  have h2: "py_strip (py_lower example_lib hello_nbsp) \<in>
             {''hello'', ''hi'', ''hey'', ''good morning'', ''good evening'', ''how are you''}
           \<or> py_len (py_strip (py_lower example_lib hello_nbsp)) < 4"
    by (simp add: n2)
  have h3: "py_strip (py_lower example_lib short_accented) \<in>
             {''hello'', ''hi'', ''hey'', ''good morning'', ''good evening'', ''how are you''}
           \<or> py_len (py_strip (py_lower example_lib short_accented)) < 4"
    by (simp add: n3)
  have p: "parse_query example_lib llm_down q None w0
           = (fst (parse_query example_lib llm_down q None w0),
              snd (parse_query example_lib llm_down q None w0))" for q
    by simp
  from C5_greeting_fast_path [OF h1 p] C5_greeting_fast_path [OF h2 p]
       C5_greeting_fast_path [OF h3 p] n1 n2 n3 n4
  show ?thesis
    by blast
qed

text \<open>
  C3. \<open>parse_query\<close> is claimed never to raise. On the message
  \<open>what is the nav today\<close> with the provider down, the \<open>except\<close> handler calls
  \<open>_fallback_parse\<close>, whose \<open>market_question\<close> branch reads the local
  \<open>requires_transaction_data\<close> that it never assigned: the call raises
  \<open>UnboundLocalError\<close>, after one prompt was sent.
\<close>

theorem C3_parse_query_raises:
  "fst (parse_query lib llm_down ''what is the nav today'' None w0)
     = Inl (Exn UnboundLocalError
         (''cannot access local variable '' @ sq @ ''requires_transaction_data'' @ sq
          @ '' where it is not associated with a value''))
   \<and> length (llm_calls (snd (parse_query lib llm_down ''what is the nav today'' None w0))) = 1"
  by code_simp

section \<open>Strategy and risk agents\<close>

lemma try_except_Inl: "try_except (Inl e) handler = handler e"
  by (simp add: try_except_def)

lemma try_except_Inr: "try_except (Inr v) handler = Inr v"
  by (simp add: try_except_def)

text \<open>
  C7, as amended. When the completion raises, or its response contains no brace-delimited
  segment free of inner braces, or \<open>json.loads\<close> rejects the first such segment, the
  Strategy stage returns a dictionary with \<open>recommendations = []\<close>,
  \<open>action_items = []\<close> and \<open>time_horizon = "medium"\<close>, and the Risk stage one with
  \<open>risk_score = 5\<close> and \<open>adjusted_recommendations = []\<close>; neither raises.
\<close>

theorem C7_static_fallbacks:
  assumes "\<forall>prompt. no_decodable_object lib (llm (length (llm_calls w)) prompt)"
  shows "(\<exists>d. fst (generate_strategy lib llm user_query knowledge_context risk_profile
                      transaction_summary market_context w) = Inr (PDict d)
              \<and> dict_get d ''recommendations'' = PList []
              \<and> dict_get d ''action_items'' = PList []
              \<and> dict_get d ''time_horizon'' = PStr ''medium'')
       \<and> (\<exists>d. fst (assess_risk lib llm strategy profile risk_context w) = Inr (PDict d)
              \<and> dict_get d ''risk_score'' = PInt 5
              \<and> dict_get d ''adjusted_recommendations'' = PList [])"
proof (intro conjI)
  let ?sp = "strategy_prompt user_query (strategy_knowledge_text lib knowledge_context)
               (strategy_risk_text lib risk_profile)
               (strategy_transaction_text lib transaction_summary)
               (strategy_market_text lib market_context)"
  let ?r = "llm (length (llm_calls w)) ?sp"
  have u: "no_decodable_object lib ?r"
    using assms by blast
  have "\<exists>s. fst (generate_strategy lib llm user_query knowledge_context risk_profile
                    transaction_summary market_context w) = Inr (strategy_fallback s)"
    using u
    by (auto simp: generate_strategy_def complete_def Let_def no_decodable_object_def
          try_except_def split: sum.splits option.splits)
  then show "\<exists>d. fst (generate_strategy lib llm user_query knowledge_context risk_profile
                      transaction_summary market_context w) = Inr (PDict d)
              \<and> dict_get d ''recommendations'' = PList []
              \<and> dict_get d ''action_items'' = PList []
              \<and> dict_get d ''time_horizon'' = PStr ''medium''"
    by (auto simp: strategy_fallback_def dict_get_def)
next
  let ?rp = "risk_prompt lib strategy profile (risk_knowledge_text risk_context)"
  let ?r = "llm (length (llm_calls w)) ?rp"
  have u: "no_decodable_object lib ?r"
    using assms by blast
  have "fst (assess_risk lib llm strategy profile risk_context w) = Inr risk_no_json
        \<or> (\<exists>e. fst (assess_risk lib llm strategy profile risk_context w) = Inr (risk_error e))"
    using u
    by (auto simp: assess_risk_def complete_def Let_def no_decodable_object_def
          try_except_def split: sum.splits option.splits)
  then show "\<exists>d. fst (assess_risk lib llm strategy profile risk_context w) = Inr (PDict d)
              \<and> dict_get d ''risk_score'' = PInt 5
              \<and> dict_get d ''adjusted_recommendations'' = PList []"
    by (auto simp: risk_no_json_def risk_error_def dict_get_def)
qed

theorem C7_static_fallbacks_witness:
  "(\<forall>prompt. no_decodable_object example_lib (llm_says ''this {is not json}'' (length (llm_calls w0)) prompt))
   \<and> (\<exists>d. fst (generate_strategy example_lib (llm_says ''this {is not json}'') ''where to invest''
                   [] None None None w0) = Inr (PDict d)
           \<and> dict_get d ''recommendations'' = PList []
           \<and> dict_get d ''action_items'' = PList []
           \<and> dict_get d ''time_horizon'' = PStr ''medium'')
   \<and> (\<exists>d. fst (assess_risk example_lib (llm_says ''this {is not json}'') [] [] None w0) = Inr (PDict d)
           \<and> dict_get d ''risk_score'' = PInt 5
           \<and> dict_get d ''adjusted_recommendations'' = PList [])"
proof -
  have e: "no_decodable_object example_lib (Inr ''this {is not json}'')"
    by code_simp
  have h: "\<forall>prompt. no_decodable_object example_lib
             (llm_says ''this {is not json}'' (length (llm_calls w0)) prompt)"
    by (simp add: llm_says_def e)
  from C7_static_fallbacks [where lib = example_lib and llm = "llm_says ''this {is not json}''"
      and w = w0, OF h] h show ?thesis
    by blast
qed

text \<open>
  The claim as stated fails: the response \<open>Sure: {"risk_score": 9}\<close> is not valid JSON,
  yet both stages decode the object embedded in it and return that, so the Risk stage
  reports score 9 and neither result has a recommendation list.
\<close>

theorem C7_counterexample:
  \<open>json_loads ''Sure: {"risk_score": 9}'' = Inl (Exn ValueError ''Expecting value'')
   \<and> fst (assess_risk example_lib (llm_says ''Sure: {"risk_score": 9}'') [] [] None w0)
       = Inr (PDict [(''risk_score'', PInt 9)])
   \<and> fst (generate_strategy example_lib (llm_says ''Sure: {"risk_score": 9}'') ''where to invest''
            [] None None None w0)
       = Inr (PDict [(''risk_score'', PInt 9)])\<close>
  by code_simp

section \<open>Output agent\<close>

lemma map_of_dict_set:
  "map_of (dict_set d k v) k' = (if k' = k then Some v else map_of d k')"
  by (induction d) auto

lemma dict_get_dict_set_other:
  "k' \<noteq> k \<Longrightarrow> dict_get (dict_set d k v) k' = dict_get d k'"
  by (simp add: dict_get_def map_of_dict_set)

lemma select_adjusted:
  assumes "dict_get risk_assessment ''adjusted_recommendations'' = PList adj" and "adj \<noteq> []"
  shows "select_recommendations strategy risk_assessment = PList adj"
  using assms by (simp add: select_recommendations_def py_or_def)

lemma answer_parts_ignores_strategy_recommendations:
  assumes "dict_get risk_assessment ''adjusted_recommendations'' = PList adj" and "adj \<noteq> []"
  shows "answer_parts lib (dict_set strategy ''recommendations'' recs) risk_assessment ti ks
         = answer_parts lib strategy risk_assessment ti ks"
proof -
  have s: "select_recommendations (dict_set strategy ''recommendations'' recs) risk_assessment
           = select_recommendations strategy risk_assessment"
    using assms by (simp add: select_adjusted)
  have a: "dict_get (dict_set strategy ''recommendations'' recs) ''strategy_summary''
           = dict_get strategy ''strategy_summary''"
    by (rule dict_get_dict_set_other) simp
  have b: "dict_get (dict_set strategy ''recommendations'' recs) ''action_items''
           = dict_get strategy ''action_items''"
    by (rule dict_get_dict_set_other) simp
  show ?thesis
    unfolding answer_parts_def s a b ..
qed

lemma recommendation_line_record:
  "recommendation_line lib (PDict r)
   = Inr (''- **'' @ lib_str lib (dict_get_or r ''category'' (PStr ''Unknown'')) @ ''**: ''
          @ lib_str lib (if truthy (dict_get r ''adjusted_allocation'')
                         then dict_get r ''adjusted_allocation''
                         else dict_get_or r ''allocation_percentage'' (PInt 0))
          @ ''% - '' @ lib_str lib (dict_get_or r ''rationale'' (PStr '''')))"
  by (simp add: recommendation_line_def ebind_def py_or_def dict_get_def dict_get_or_def)

lemma recommendation_lines_records:
  "emap (recommendation_line lib) (map PDict records)
   = Inr (map (\<lambda>r. ''- **'' @ lib_str lib (dict_get_or r ''category'' (PStr ''Unknown'')) @ ''**: ''
                    @ lib_str lib (if truthy (dict_get r ''adjusted_allocation'')
                                   then dict_get r ''adjusted_allocation''
                                   else dict_get_or r ''allocation_percentage'' (PInt 0))
                    @ ''% - '' @ lib_str lib (dict_get_or r ''rationale'' (PStr ''''))) records)"
  by (induction records) (simp_all add: recommendation_line_record ebind_def)

lemma recommendation_parts_records:
  assumes "adj \<noteq> []" and "take 5 adj = map PDict records"
  shows "recommendation_parts lib (PList adj)
   = Inr ((nl @ ''**Recommended Allocation:**'')
          # map (\<lambda>r. ''- **'' @ lib_str lib (dict_get_or r ''category'' (PStr ''Unknown'')) @ ''**: ''
                    @ lib_str lib (if truthy (dict_get r ''adjusted_allocation'')
                                   then dict_get r ''adjusted_allocation''
                                   else dict_get_or r ''allocation_percentage'' (PInt 0))
                    @ ''% - '' @ lib_str lib (dict_get_or r ''rationale'' (PStr ''''))) records)"
  using assms by (simp add: recommendation_parts_def ebind_def recommendation_lines_records)

text \<open>
  An element of the list that is not a record has no \<open>get\<close>: when one is among the
  first five adjusted recommendations, \<open>format_response\<close> raises \<open>AttributeError\<close>.
\<close>

lemma recommendation_line_non_record:
  assumes "\<forall>d. x \<noteq> PDict d"
  shows "recommendation_line lib x = Inl (Exn AttributeError ''object has no attribute get'')"
  using assms by (cases x) (simp_all add: recommendation_line_def ebind_def)

lemma recommendation_lines_non_record:
  assumes "\<exists>x \<in> set xs. \<forall>d. x \<noteq> PDict d"
  shows "emap (recommendation_line lib) xs = Inl (Exn AttributeError ''object has no attribute get'')"
  using assms
proof (induction xs)
  case Nil
  then show ?case by simp
next
  case (Cons y ys)
  show ?case
  proof (cases "\<forall>d. y \<noteq> PDict d")
    case True
    then show ?thesis by (simp add: recommendation_line_non_record ebind_def)
  next
    case False
    then obtain d where y: "y = PDict d" by blast
    with Cons.prems have "\<exists>x \<in> set ys. \<forall>d. x \<noteq> PDict d" by auto
    then have "emap (recommendation_line lib) ys
               = Inl (Exn AttributeError ''object has no attribute get'')"
      by (rule Cons.IH)
    then show ?thesis by (simp add: y recommendation_line_record ebind_def)
  qed
qed

lemma format_response_raises_on_non_record:
  assumes "dict_get risk_assessment ''adjusted_recommendations'' = PList adj"
      and "adj \<noteq> []"
      and "\<exists>x \<in> set (take 5 adj). \<forall>d. x \<noteq> PDict d"
  shows "format_response lib user_query strategy risk_assessment ti ks
         = Inl (Exn AttributeError ''object has no attribute get'')"
proof -
  have s: "select_recommendations strategy risk_assessment = PList adj"
    using assms(1,2) by (rule select_adjusted)
  show ?thesis
    unfolding format_response_def answer_parts_def s
    using assms(2) recommendation_lines_non_record [OF assms(3)]
    by (simp add: recommendation_parts_def ebind_def Let_def)
qed

text \<open>
  C4, as amended. When the risk assessment holds a non-empty list of adjusted
  recommendations whose first five elements are records, and the other sections of the
  answer render, the answer of \<open>format_response\<close> is the strategy summary (when there is
  one), the heading \<open>Recommended Allocation\<close>, one line per adjusted record among the
  first five - its category, its \<open>adjusted_allocation\<close> (when that is a true value, else
  its \<open>allocation_percentage\<close> or 0) followed by a percent sign, and its rationale - and
  then the other sections, joined by line feeds. The strategy's own \<open>recommendations\<close>
  entry has no part in it: the answer stays the same whatever that entry is replaced by.
\<close>

theorem C4_adjusted_records_rendered:
  assumes "dict_get risk_assessment ''adjusted_recommendations'' = PList adj"
      and "adj \<noteq> []"
      and "take 5 adj = map PDict records"
      and "bullet_parts lib ''**Risk Considerations:**'' 3 (dict_get risk_assessment ''risk_warnings'')
           = Inr warnings"
      and "insight_parts lib ti = Inr insights"
      and "bullet_parts lib ''**Next Steps:**'' 5 (dict_get strategy ''action_items'') = Inr actions"
      and "source_parts lib ks = Inr sources"
  shows "response_answer (format_response lib user_query strategy risk_assessment ti ks)
         = Inr (PStr (py_join nl
             ((if truthy (dict_get strategy ''strategy_summary'')
               then [''**Investment Strategy:**'' @ nl
                     @ lib_str lib (dict_get strategy ''strategy_summary'')]
               else [])
              @ [nl @ ''**Recommended Allocation:**'']
              @ map (\<lambda>r. ''- **'' @ lib_str lib (dict_get_or r ''category'' (PStr ''Unknown''))
                         @ ''**: ''
                         @ lib_str lib (if truthy (dict_get r ''adjusted_allocation'')
                                        then dict_get r ''adjusted_allocation''
                                        else dict_get_or r ''allocation_percentage'' (PInt 0))
                         @ ''% - '' @ lib_str lib (dict_get_or r ''rationale'' (PStr ''''))) records
              @ warnings @ insights @ actions @ sources)))
       \<and> (\<forall>recs. response_answer (format_response lib user_query
                       (dict_set strategy ''recommendations'' recs) risk_assessment ti ks)
                  = response_answer (format_response lib user_query strategy risk_assessment ti ks))"
proof (intro conjI allI)
  have s: "select_recommendations strategy risk_assessment = PList adj"
    using assms(1,2) by (rule select_adjusted)
  have "answer_parts lib strategy risk_assessment ti ks
        = Inr ((if truthy (dict_get strategy ''strategy_summary'')
                then [''**Investment Strategy:**'' @ nl
                      @ lib_str lib (dict_get strategy ''strategy_summary'')]
                else [])
               @ [nl @ ''**Recommended Allocation:**'']
               @ map (\<lambda>r. ''- **'' @ lib_str lib (dict_get_or r ''category'' (PStr ''Unknown''))
                          @ ''**: ''
                          @ lib_str lib (if truthy (dict_get r ''adjusted_allocation'')
                                         then dict_get r ''adjusted_allocation''
                                         else dict_get_or r ''allocation_percentage'' (PInt 0))
                          @ ''% - '' @ lib_str lib (dict_get_or r ''rationale'' (PStr ''''))) records
               @ warnings @ insights @ actions @ sources)"
    unfolding answer_parts_def s recommendation_parts_records [OF assms(2,3)] assms(4-7)
    by (simp add: ebind_def Let_def)
  then show "response_answer (format_response lib user_query strategy risk_assessment ti ks)
         = Inr (PStr (py_join nl
             ((if truthy (dict_get strategy ''strategy_summary'')
               then [''**Investment Strategy:**'' @ nl
                     @ lib_str lib (dict_get strategy ''strategy_summary'')]
               else [])
              @ [nl @ ''**Recommended Allocation:**'']
              @ map (\<lambda>r. ''- **'' @ lib_str lib (dict_get_or r ''category'' (PStr ''Unknown''))
                         @ ''**: ''
                         @ lib_str lib (if truthy (dict_get r ''adjusted_allocation'')
                                        then dict_get r ''adjusted_allocation''
                                        else dict_get_or r ''allocation_percentage'' (PInt 0))
                         @ ''% - '' @ lib_str lib (dict_get_or r ''rationale'' (PStr ''''))) records
              @ warnings @ insights @ actions @ sources)))"
    by (simp add: format_response_def response_answer_def ebind_def dict_get_def)
next
  fix recs
  have "answer_parts lib (dict_set strategy ''recommendations'' recs) risk_assessment ti ks
        = answer_parts lib strategy risk_assessment ti ks"
    using assms(1,2) by (rule answer_parts_ignores_strategy_recommendations)
  then show "response_answer (format_response lib user_query
                 (dict_set strategy ''recommendations'' recs) risk_assessment ti ks)
             = response_answer (format_response lib user_query strategy risk_assessment ti ks)"
    by (cases "answer_parts lib strategy risk_assessment ti ks")
       (simp_all add: format_response_def response_answer_def ebind_def dict_get_def)
qed

text \<open>
  The strategy recommends 60 percent equity and the risk assessment adjusts it to 40: the
  answer shows 40 percent. The adjusted record has no rationale, so the line ends after
  the dash.
\<close>

theorem C4_adjusted_records_rendered_witness:
  "dict_get risk_40 ''adjusted_recommendations''
     = PList [PDict [(''category'', PStr ''Equity''), (''original_allocation'', PInt 60),
                     (''adjusted_allocation'', PInt 40), (''reason'', PStr ''too risky'')]]
   \<and> response_answer (format_response example_lib ''q'' strategy_60 risk_40 None None)
     = Inr (PStr ''**Investment Strategy:**\<newline>Grow steadily.\<newline>\<newline>**Recommended Allocation:**\<newline>- **Equity**: 40% - '')
   \<and> response_answer (format_response example_lib ''q''
         (dict_set strategy_60 ''recommendations'' (PList [])) risk_40 None None)
     = Inr (PStr ''**Investment Strategy:**\<newline>Grow steadily.\<newline>\<newline>**Recommended Allocation:**\<newline>- **Equity**: 40% - '')"
proof -
  let ?r = "[(''category'', PStr ''Equity''), (''original_allocation'', PInt 60),
             (''adjusted_allocation'', PInt 40), (''reason'', PStr ''too risky'')]"
  have h1: "dict_get risk_40 ''adjusted_recommendations'' = PList [PDict ?r]"
    by code_simp
  have h2: "[PDict ?r] \<noteq> []"
    by simp
  have h3: "take 5 [PDict ?r] = map PDict [?r]"
    by simp
  have h4: "bullet_parts example_lib ''**Risk Considerations:**'' 3 (dict_get risk_40 ''risk_warnings'')
            = Inr []"
    by code_simp
  have h5: "insight_parts example_lib None = Inr []"
    by code_simp
  have h6: "bullet_parts example_lib ''**Next Steps:**'' 5 (dict_get strategy_60 ''action_items'')
            = Inr []"
    by code_simp
  have h7: "source_parts example_lib None = Inr []"
    by code_simp
  have v: "py_join nl
             ((if truthy (dict_get strategy_60 ''strategy_summary'')
               then [''**Investment Strategy:**'' @ nl
                     @ lib_str example_lib (dict_get strategy_60 ''strategy_summary'')]
               else [])
              @ [nl @ ''**Recommended Allocation:**'']
              @ map (\<lambda>r. ''- **'' @ lib_str example_lib (dict_get_or r ''category'' (PStr ''Unknown''))
                         @ ''**: ''
                         @ lib_str example_lib (if truthy (dict_get r ''adjusted_allocation'')
                                        then dict_get r ''adjusted_allocation''
                                        else dict_get_or r ''allocation_percentage'' (PInt 0))
                         @ ''% - '' @ lib_str example_lib (dict_get_or r ''rationale'' (PStr ''''))) [?r]
              @ [] @ [] @ [] @ [])
           = ''**Investment Strategy:**\<newline>Grow steadily.\<newline>\<newline>**Recommended Allocation:**\<newline>- **Equity**: 40% - ''"
    by code_simp
  from C4_adjusted_records_rendered [OF h1 h2 h3 h4 h5 h6 h7, where user_query = "''q''"]
  have "response_answer (format_response example_lib ''q'' strategy_60 risk_40 None None)
        = Inr (PStr ''**Investment Strategy:**\<newline>Grow steadily.\<newline>\<newline>**Recommended Allocation:**\<newline>- **Equity**: 40% - '')
      \<and> response_answer (format_response example_lib ''q''
           (dict_set strategy_60 ''recommendations'' (PList [])) risk_40 None None)
        = response_answer (format_response example_lib ''q'' strategy_60 risk_40 None None)"
    unfolding v by blast
  with h1 show ?thesis
    by simp
qed

text \<open>
  The claim as stated fails on a list that does not hold records, and the risk stage can
  return one: the reply below decodes to an assessment whose adjusted recommendations are
  a list of one string. \<open>format_response\<close> then calls \<open>get\<close> on the string and raises
  \<open>AttributeError\<close>; no recommendation list is rendered.
\<close>

theorem C4_counterexample:
  \<open>fst (assess_risk example_lib (llm_says ''{"adjusted_recommendations": ["Equity 40"]}'')
          strategy_60 [] None w0)
     = Inr (PDict [(''adjusted_recommendations'', PList [PStr ''Equity 40''])])
   \<and> format_response example_lib ''q'' strategy_60
         [(''adjusted_recommendations'', PList [PStr ''Equity 40''])] None None
     = Inl (Exn AttributeError ''object has no attribute get'')\<close>
  by code_simp

text \<open>
  A reply of the risk stage in the shape its prompt asks for nests the adjusted records
  inside the assessment. The stage decodes the first brace-delimited segment without an
  inner brace, which is the first adjusted record, and returns that record as the
  assessment: it has no \<open>adjusted_recommendations\<close> entry, and the answer shows the
  strategy's 60 percent.
\<close>

lemma nested_reply_loses_adjustments:
  \<open>fst (assess_risk example_lib
          (llm_says ''{"risk_score": 7, "adjusted_recommendations": [{"category": "Equity", "adjusted_allocation": 40}]}'')
          strategy_60 [] None w0)
     = Inr (PDict [(''category'', PStr ''Equity''), (''adjusted_allocation'', PInt 40)])
   \<and> response_answer (format_response example_lib ''q'' strategy_60
         [(''category'', PStr ''Equity''), (''adjusted_allocation'', PInt 40)] None None)
     = Inr (PStr ''**Investment Strategy:**\<newline>Grow steadily.\<newline>\<newline>**Recommended Allocation:**\<newline>- **Equity**: 60% - growth'')\<close>
  by code_simp

section \<open>LLM client\<close>

lemma post_loop_posts:
  "posts (snd (post_loop post who c url data attempts s)) \<le> posts s + length attempts"
proof (induction attempts arbitrary: s)
  case Nil
  then show ?case by simp
next
  case (Cons a attempts)
  show ?case
  proof (cases "post (posts s) url data")
    case (Inr resp)
    then show ?thesis by (simp add: Let_def)
  next
    case (Inl e)
    let ?s = "s\<lparr>posts := Suc (posts s),
                  sleeps := sleeps s @ [backoff_seconds c * of_nat (a + 1)]\<rparr>"
    have "posts (snd (post_loop post who c url data attempts ?s)) \<le> posts ?s + length attempts"
      by (rule Cons.IH)
    with Inl show ?thesis by (simp add: Let_def)
  qed
qed

lemma send_posts_bound:
  "posts (snd (send post who c url data s)) \<le> posts s + nat (retries c + 1)"
proof -
  have "posts (snd (post_loop post who c url data [0 ..< nat (retries c + 1)] s))
        \<le> posts s + length [0 ..< nat (retries c + 1)]"
    by (rule post_loop_posts)
  then show ?thesis
    by (auto simp: send_def split: prod.splits sum.splits option.splits)
qed

lemma post_loop_sleeps:
  "\<exists>k \<le> length attempts.
     sleeps (snd (post_loop post who c url data attempts s))
       = sleeps s @ map (\<lambda>a. backoff_seconds c * of_nat (a + 1)) (take k attempts)"
proof (induction attempts arbitrary: s)
  case Nil
  then show ?case by simp
next
  case (Cons a attempts)
  show ?case
  proof (cases "post (posts s) url data")
    case (Inr resp)
    then have "sleeps (snd (post_loop post who c url data (a # attempts) s))
               = sleeps s @ map (\<lambda>a. backoff_seconds c * of_nat (a + 1)) (take 0 (a # attempts))"
      by (simp add: Let_def)
    then show ?thesis by blast
  next
    case (Inl e)
    show ?thesis
    proof (cases "exn_class_of e = RequestException \<and> int a < retries c")
      case True
      let ?s = "s\<lparr>posts := Suc (posts s),
                    sleeps := sleeps s @ [backoff_seconds c * of_nat (a + 1)]\<rparr>"
      obtain k where k: "k \<le> length attempts"
        "sleeps (snd (post_loop post who c url data attempts ?s))
           = sleeps ?s @ map (\<lambda>a. backoff_seconds c * of_nat (a + 1)) (take k attempts)"
        using Cons.IH [of ?s] by blast
      have "sleeps (snd (post_loop post who c url data (a # attempts) s))
            = sleeps s @ map (\<lambda>a. backoff_seconds c * of_nat (a + 1)) (take (Suc k) (a # attempts))"
        using Inl True k(2) by (simp add: Let_def)
      moreover have "Suc k \<le> length (a # attempts)"
        using k(1) by simp
      ultimately show ?thesis by blast
    next
      case False
      with Inl have "sleeps (snd (post_loop post who c url data (a # attempts) s))
               = sleeps s @ map (\<lambda>a. backoff_seconds c * of_nat (a + 1)) (take 0 (a # attempts))"
        by (auto simp: Let_def)
      then show ?thesis by blast
    qed
  qed
qed

lemma http_error_status_is_runtime_error:
  assumes "\<not> (200 \<le> status_code resp \<and> status_code resp < 300)"
  shows "decode_body lib who n resp
         = Inl (Exn RuntimeError
                  (who @ '' HTTP '' @ show_int (status_code resp) @ '': '' @ py_take n (resp_text resp)))"
  using assms by (simp add: decode_body_def)

lemma response_ends_loop:
  assumes "post (posts s) url data = Inr resp"
  shows "post_loop post who c url data (a # attempts) s = (Inr (Some resp), s\<lparr>posts := Suc (posts s)\<rparr>)"
  using assms by (simp add: Let_def)

text \<open>
  C8. The client is claimed to raise a \<open>RuntimeError\<close> that carries the provider's
  status or body on every unrecognised response envelope. A body that is valid JSON but
  not an object is such an envelope: on the body \<open>[]\<close> with status 200 the default
  provider's branch calls \<open>js.get("status")\<close> on a list, and \<open>complete\<close> raises
  \<open>AttributeError\<close> after its single request.
\<close>

theorem C8_array_body_raises_attribute_error:
  "client_complete example_lib (server_ok ''[]'') default_client ''hello'' None net0
     = (Inl (Exn AttributeError ''object has no attribute get''), \<lparr>posts = 1, sleeps = []\<rparr>)"
  by code_simp

section \<open>Tabular data accessor\<close>

text \<open>
  C6. For the CSV with columns date, amount and category, one March-2024 Groceries row of
  500 and one March-2024 Rent row of 15000, \<open>category_stats(year=2024, month=3)\<close>
  returns the items by descending spend: Rent with 15000.0, then Groceries with 500.0.
  The first equation is the dataframe path; the second is the engine path, where the
  engine answers the query built by the accessor with the table that query denotes.
\<close>

theorem C6_category_stats_example:
  "category_stats example_lib (march_env False) (Some 2024) (Some 3) None None
     = Inr [(''year'', PInt 2024), (''month'', PInt 3),
            (''items'', PList [PDict [(''category'', PStr ''Rent''), (''spent'', PFloat (Fin 15000))],
                               PDict [(''category'', PStr ''Groceries''), (''spent'', PFloat (Fin 500))]])]
   \<and> category_stats example_lib (march_env True) (Some 2024) (Some 3) None None
     = Inr [(''year'', PInt 2024), (''month'', PInt 3),
            (''items'', PList [PDict [(''category'', PStr ''Rent''), (''spent'', PFloat (Fin 15000))],
                               PDict [(''category'', PStr ''Groceries''), (''spent'', PFloat (Fin 500))]])]"
  by code_simp

lemma insert_by_map:
  assumes "\<And>x y. le' (f x) (f y) = le x y"
  shows "insert_by le' (f x) (map f ys) = map f (insert_by le x ys)"
  using assms by (induction ys) simp_all

lemma sort_by_map:
  assumes "\<And>x y. le' (f x) (f y) = le x y"
  shows "sort_by le' (map f xs) = map f (sort_by le xs)"
proof (induction xs)
  case Nil
  show ?case by (simp add: sort_by_def)
next
  case (Cons x xs)
  have "sort_by le' (map f (x # xs)) = insert_by le' (f x) (sort_by le' (map f xs))"
    by (simp add: sort_by_def)
  also have "\<dots> = insert_by le' (f x) (map f (sort_by le xs))"
    by (simp add: Cons.IH)
  also have "\<dots> = map f (insert_by le x (sort_by le xs))"
    using assms by (rule insert_by_map)
  also have "\<dots> = map f (sort_by le (x # xs))"
    by (simp add: sort_by_def)
  finally show ?case .
qed

lemma df_head_map: "df_head k (map f xs) = map f (df_head k xs)"
  by (simp add: df_head_def take_map)

lemma share_divisor_cases:
  "share_divisor e spent = (if sum_skipna e spent = Fin 0 then Fin 1 else sum_skipna e spent)"
  by (simp add: share_divisor_def f_or_def)

lemma merchant_result_items:
  "merchant_result e month n grp =
     [(''month'', PStr (case month of None \<Rightarrow> ''all'' | Some m \<Rightarrow> if m = '''' then ''all'' else m)),
      (''items'', PList
         (map (\<lambda>(merchant, spent).
                 PDict [(''merchant'', cell_val merchant),
                        (''spent'', PFloat (series_round e 2 spent)),
                        (''share'', PFloat (series_round e 4
                            (float_div e spent (share_divisor e (map snd grp)))))])
            (df_head (or_ten n) (sort_by (\<lambda>(m1, s1) (m2, s2). f_ge s1 s2) grp))))]"
proof -
  let ?f = "\<lambda>(merchant, spent).
              (merchant, spent,
               series_round e 4 (float_div e spent (share_divisor e (map snd grp))))"
  have "sort_by (\<lambda>(m1, s1, h1) (m2, s2, h2). f_ge s1 s2) (map ?f grp)
        = map ?f (sort_by (\<lambda>(m1, s1) (m2, s2). f_ge s1 s2) grp)"
    by (rule sort_by_map) (simp add: case_prod_beta)
  then show ?thesis
    by (simp add: merchant_result_def merchant_shares_def Let_def df_head_map case_prod_beta o_def)
qed

text \<open>
  C10, as amended. When \<open>top_merchants\<close> finds its file, the merchant column and the
  amount column, and the spend summed by merchant is \<open>grp\<close> with the sum \<open>spent_sum\<close>
  over all merchants, it returns the merchants by descending spend, the first \<open>n\<close> of
  them (10 when \<open>n\<close> is 0), each with its spend rounded to two places and with the share
  \<open>spend / divisor\<close> rounded to four places. The divisor is 1.0 when the sum is zero and
  the sum itself otherwise, a NaN sum included; it is never zero. The sum, the division and
  the rounding are those of the environment, whatever their rounding errors.
\<close>

theorem C10_top_merchants_shares:
  assumes "resolve_path e csv_path user_id = Some path"
      and "path_exists e path"
      and "read_csv e path = Inr df"
      and "first_present merchant_aliases df = Some merchant_col"
      and "first_present amount_aliases df = Some amt_col"
      and "merchant_totals e month df merchant_col amt_col = Inr grp"
      and "sum_skipna e (map snd grp) = spent_sum"
  shows "(if spent_sum = Fin 0 then Fin 1 else spent_sum) \<noteq> Fin 0
       \<and> top_merchants e month n csv_path user_id =
           Inr [(''month'', PStr (case month of
                                    None \<Rightarrow> ''all''
                                  | Some m \<Rightarrow> if m = '''' then ''all'' else m)),
                (''items'', PList
                   (map (\<lambda>(merchant, spent).
                           PDict [(''merchant'', cell_val merchant),
                                  (''spent'', PFloat (series_round e 2 spent)),
                                  (''share'', PFloat (series_round e 4
                                      (float_div e spent
                                         (if spent_sum = Fin 0 then Fin 1 else spent_sum))))])
                      (df_head (or_ten n) (sort_by (\<lambda>(m1, s1) (m2, s2). f_ge s1 s2) grp))))]"
proof (intro conjI)
  show "(if spent_sum = Fin 0 then Fin 1 else spent_sum) \<noteq> Fin 0"
    by simp
  have d: "share_divisor e (map snd grp) = (if spent_sum = Fin 0 then Fin 1 else spent_sum)"
    using assms(7) by (simp add: share_divisor_cases)
  have "top_merchants e month n csv_path user_id = Inr (merchant_result e month n grp)"
    using assms(1-6) by (simp add: top_merchants_def ensure_csv_exists_def ebind_def)
  then show "top_merchants e month n csv_path user_id =
           Inr [(''month'', PStr (case month of
                                    None \<Rightarrow> ''all''
                                  | Some m \<Rightarrow> if m = '''' then ''all'' else m)),
                (''items'', PList
                   (map (\<lambda>(merchant, spent).
                           PDict [(''merchant'', cell_val merchant),
                                  (''spent'', PFloat (series_round e 2 spent)),
                                  (''share'', PFloat (series_round e 4
                                      (float_div e spent
                                         (if spent_sum = Fin 0 then Fin 1 else spent_sum))))])
                      (df_head (or_ten n) (sort_by (\<lambda>(m1, s1) (m2, s2). f_ge s1 s2) grp))))]"
    by (simp only: merchant_result_items d)
qed

text \<open>
  Two merchants whose amounts are 5 and -5: the sum is zero, the divisor is 1.0, and the
  shares are 5 and -5. A division by the sum itself would give the two infinities.
\<close>

theorem C10_top_merchants_shares_witness:
  "merchant_totals balanced_env None balanced_table ''merchant'' ''amount''
     = Inr [(Str ''A'', Fin 5), (Str ''B'', Fin (- 5))]
   \<and> sum_skipna balanced_env [Fin 5, Fin (- 5)] = Fin 0
   \<and> float_div balanced_env (Fin 5) (Fin 0) = PosInf
   \<and> top_merchants balanced_env None 10 None None
       = Inr [(''month'', PStr ''all''),
              (''items'', PList
                 [PDict [(''merchant'', PStr ''A''), (''spent'', PFloat (Fin 5)),
                         (''share'', PFloat (Fin 5))],
                  PDict [(''merchant'', PStr ''B''), (''spent'', PFloat (Fin (- 5))),
                         (''share'', PFloat (Fin (- 5)))]])]"
proof -
  have h1: "resolve_path balanced_env None None = Some ''/app/data/transactions.csv''"
    by code_simp
  have h2: "path_exists balanced_env ''/app/data/transactions.csv''"
    by code_simp
  have h3: "read_csv balanced_env ''/app/data/transactions.csv'' = Inr balanced_table"
    by code_simp
  have h4: "first_present merchant_aliases balanced_table = Some ''merchant''"
    by code_simp
  have h5: "first_present amount_aliases balanced_table = Some ''amount''"
    by code_simp
  have h6: "merchant_totals balanced_env None balanced_table ''merchant'' ''amount''
            = Inr [(Str ''A'', Fin 5), (Str ''B'', Fin (- 5))]"
    by code_simp
  have h7: "sum_skipna balanced_env (map snd [(Str ''A'', Fin 5), (Str ''B'', Fin (- 5))]) = Fin 0"
    by code_simp
  have s: "sum_skipna balanced_env [Fin 5, Fin (- 5)] = Fin 0"
    by code_simp
  have q: "float_div balanced_env (Fin 5) (Fin 0) = PosInf"
    by code_simp
  have v: "map (\<lambda>(merchant, spent).
                  PDict [(''merchant'', cell_val merchant),
                         (''spent'', PFloat (series_round balanced_env 2 spent)),
                         (''share'', PFloat (series_round balanced_env 4
                             (float_div balanced_env spent
                                (if Fin 0 = Fin 0 then Fin 1 else Fin 0))))])
             (df_head (or_ten 10) (sort_by (\<lambda>(m1, s1) (m2, s2). f_ge s1 s2)
                [(Str ''A'', Fin 5), (Str ''B'', Fin (- 5))]))
           = [PDict [(''merchant'', PStr ''A''), (''spent'', PFloat (Fin 5)),
                     (''share'', PFloat (Fin 5))],
              PDict [(''merchant'', PStr ''B''), (''spent'', PFloat (Fin (- 5))),
                     (''share'', PFloat (Fin (- 5)))]]"
    by code_simp
  from C10_top_merchants_shares [OF h1 h2 h3 h4 h5 h6 h7, where n = 10]
  have "top_merchants balanced_env None 10 None None
       = Inr [(''month'', PStr ''all''),
              (''items'', PList
                 [PDict [(''merchant'', PStr ''A''), (''spent'', PFloat (Fin 5)),
                         (''share'', PFloat (Fin 5))],
                  PDict [(''merchant'', PStr ''B''), (''spent'', PFloat (Fin (- 5))),
                         (''share'', PFloat (Fin (- 5)))]])]"
    unfolding v by simp
  with h6 s q show ?thesis
    by simp
qed

text \<open>
  The claim as stated fails where the sum is not a number: with one merchant at plus
  infinity and one at minus infinity the sum is NaN, which is a true value, so the
  divisor stays NaN instead of becoming 1.0 and both shares are NaN.
\<close>

theorem C10_counterexample:
  "sum_skipna offset_env [PosInf, NegInf] = NaN
   \<and> share_divisor offset_env [PosInf, NegInf] = NaN
   \<and> top_merchants offset_env None 10 None None
       = Inr [(''month'', PStr ''all''),
              (''items'', PList
                 [PDict [(''merchant'', PStr ''A''), (''spent'', PFloat PosInf), (''share'', PFloat NaN)],
                  PDict [(''merchant'', PStr ''B''), (''spent'', PFloat NegInf), (''share'', PFloat NaN)]])]"
  by code_simp

lemma first_present_head:
  "first_present aliases (df\<lparr>rows := rs\<rparr>) = first_present aliases df"
  by (simp add: first_present_def)

lemma detect_columns_head:
  "detect_columns (df\<lparr>rows := rs\<rparr>) = detect_columns df"
  by (simp add: detect_columns_def first_present_head)

lemma merchant_column_head:
  "merchant_column (df\<lparr>rows := rs\<rparr>) = merchant_column df"
  by (simp add: merchant_column_def first_present_head)

lemma no_path_results:
  assumes "resolve_path e csv_path user_id = None"
  shows "total_spend e year month csv_path user_id
           = Inr [(''total'', PFloat (Fin 0)), (''notes'', PStr ''No data available'')]"
    and "monthly_spend lib e year csv_path user_id = Inr no_data"
    and "daily_spend lib e year month csv_path user_id = Inr no_data"
    and "category_stats lib e year month csv_path user_id = Inr no_data"
    and "merchant_stats lib e year month top_n csv_path user_id = Inr no_data"
  using assms
  by (simp_all add: total_spend_def monthly_spend_def daily_spend_def category_stats_def
        merchant_stats_def)

lemma total_spend_no_amount:
  assumes "resolve_path e csv_path user_id = Some path" and "path_exists e path"
    and "read_csv e path = Inr df" and "first_present amount_aliases df = None"
  shows "total_spend e year month csv_path user_id
           = Inr [(''total'', PFloat (Fin 0)), (''notes'', PStr ''amount column not found'')]"
  using assms
  by (simp add: total_spend_def ensure_csv_exists_def ebind_def read_csv_nrows_def
        detect_columns_def first_present_head)

lemma monthly_spend_no_columns:
  assumes "resolve_path e csv_path user_id = Some path" and "path_exists e path"
    and "read_csv e path = Inr df"
    and "first_present date_aliases df = None \<or> first_present amount_aliases df = None"
  shows "monthly_spend lib e year csv_path user_id = Inr (not_found ''date/amount columns'')"
  using assms
  by (auto simp: monthly_spend_def ensure_csv_exists_def ebind_def read_csv_nrows_def
        detect_columns_def first_present_head split: option.splits)

lemma daily_spend_no_columns:
  assumes "resolve_path e csv_path user_id = Some path" and "path_exists e path"
    and "read_csv e path = Inr df"
    and "first_present date_aliases df = None \<or> first_present amount_aliases df = None"
  shows "daily_spend lib e year month csv_path user_id = Inr (not_found ''date/amount columns'')"
  using assms
  by (auto simp: daily_spend_def ensure_csv_exists_def ebind_def read_csv_nrows_def
        detect_columns_def first_present_head split: option.splits)

lemma category_stats_no_columns:
  assumes "resolve_path e csv_path user_id = Some path" and "path_exists e path"
    and "read_csv e path = Inr df"
    and "first_present amount_aliases df = None \<or> first_present category_aliases df = None"
  shows "category_stats lib e year month csv_path user_id = Inr (not_found ''amount/category columns'')"
  using assms
  by (auto simp: category_stats_def ensure_csv_exists_def ebind_def read_csv_nrows_def
        detect_columns_def first_present_head split: option.splits)

lemma merchant_stats_no_columns:
  assumes "resolve_path e csv_path user_id = Some path" and "path_exists e path"
    and "read_csv e path = Inr df"
    and "first_present merchant_aliases df = None \<or> first_present amount_aliases df = None"
  shows "merchant_stats lib e year month top_n csv_path user_id
           = Inr (not_found ''merchant/amount columns'')"
  using assms
  by (auto simp: merchant_stats_def ensure_csv_exists_def ebind_def read_csv_nrows_def
        detect_columns_def merchant_column_def first_present_head split: option.splits)

lemma time_coverage_no_date:
  assumes "resolve_path e csv_path user_id = Some path" and "path_exists e path"
    and "read_csv e path = Inr df" and "first_present date_aliases df = None"
  shows "time_coverage e csv_path user_id = Inr [(''min'', PNone), (''max'', PNone)]"
  using assms
  by (simp add: time_coverage_def ensure_csv_exists_def ebind_def read_csv_nrows_def
        first_present_head Let_def)

text \<open>
  C2, as amended. For \<open>total_spend\<close>, \<open>monthly_spend\<close>, \<open>daily_spend\<close>,
  \<open>category_stats\<close> and \<open>merchant_stats\<close>, with or without the engine: when no CSV path
  resolves (no \<open>csv_path\<close> argument, and neither the user's file nor the shared file
  exists) the function returns its result object with the note \<open>No data available\<close>;
  when the file exists and is read but lacks a column the function requires, it returns
  its result object with the matching \<open>not found\<close> note. It raises in neither case.
  \<open>time_coverage\<close> on a file that is read and has no date column returns
  \<open>{"min": None, "max": None}\<close>, without a note.
\<close>

theorem C2_graceful_results:
  "(resolve_path e csv_path user_id = None \<longrightarrow>
      total_spend e year month csv_path user_id
        = Inr [(''total'', PFloat (Fin 0)), (''notes'', PStr ''No data available'')]
      \<and> monthly_spend lib e year csv_path user_id
        = Inr [(''items'', PList []), (''notes'', PStr ''No data available'')]
      \<and> daily_spend lib e year month csv_path user_id
        = Inr [(''items'', PList []), (''notes'', PStr ''No data available'')]
      \<and> category_stats lib e year month csv_path user_id
        = Inr [(''items'', PList []), (''notes'', PStr ''No data available'')]
      \<and> merchant_stats lib e year month top_n csv_path user_id
        = Inr [(''items'', PList []), (''notes'', PStr ''No data available'')])
   \<and> (resolve_path e csv_path user_id = Some path \<and> path_exists e path \<and> read_csv e path = Inr df \<longrightarrow>
        (first_present amount_aliases df = None \<longrightarrow>
           total_spend e year month csv_path user_id
             = Inr [(''total'', PFloat (Fin 0)), (''notes'', PStr ''amount column not found'')])
      \<and> (first_present date_aliases df = None \<or> first_present amount_aliases df = None \<longrightarrow>
           monthly_spend lib e year csv_path user_id
             = Inr [(''items'', PList []), (''notes'', PStr ''date/amount columns not found'')]
           \<and> daily_spend lib e year month csv_path user_id
             = Inr [(''items'', PList []), (''notes'', PStr ''date/amount columns not found'')])
      \<and> (first_present amount_aliases df = None \<or> first_present category_aliases df = None \<longrightarrow>
           category_stats lib e year month csv_path user_id
             = Inr [(''items'', PList []), (''notes'', PStr ''amount/category columns not found'')])
      \<and> (first_present merchant_aliases df = None \<or> first_present amount_aliases df = None \<longrightarrow>
           merchant_stats lib e year month top_n csv_path user_id
             = Inr [(''items'', PList []), (''notes'', PStr ''merchant/amount columns not found'')])
      \<and> (first_present date_aliases df = None \<longrightarrow>
           time_coverage e csv_path user_id = Inr [(''min'', PNone), (''max'', PNone)]))"
proof (intro conjI impI)
  assume n: "resolve_path e csv_path user_id = None"
  show "total_spend e year month csv_path user_id
          = Inr [(''total'', PFloat (Fin 0)), (''notes'', PStr ''No data available'')]"
    using n by (rule no_path_results(1))
  show "monthly_spend lib e year csv_path user_id
          = Inr [(''items'', PList []), (''notes'', PStr ''No data available'')]"
    using no_path_results(2) [OF n] by (simp add: no_data_def)
  show "daily_spend lib e year month csv_path user_id
          = Inr [(''items'', PList []), (''notes'', PStr ''No data available'')]"
    using no_path_results(3) [OF n] by (simp add: no_data_def)
  show "category_stats lib e year month csv_path user_id
          = Inr [(''items'', PList []), (''notes'', PStr ''No data available'')]"
    using no_path_results(4) [OF n] by (simp add: no_data_def)
  show "merchant_stats lib e year month top_n csv_path user_id
          = Inr [(''items'', PList []), (''notes'', PStr ''No data available'')]"
    using no_path_results(5) [OF n] by (simp add: no_data_def)
next
  assume r: "resolve_path e csv_path user_id = Some path \<and> path_exists e path \<and> read_csv e path = Inr df"
  assume "first_present amount_aliases df = None"
  with r show "total_spend e year month csv_path user_id
          = Inr [(''total'', PFloat (Fin 0)), (''notes'', PStr ''amount column not found'')]"
    by (simp add: total_spend_no_amount)
next
  assume r: "resolve_path e csv_path user_id = Some path \<and> path_exists e path \<and> read_csv e path = Inr df"
  assume c: "first_present date_aliases df = None \<or> first_present amount_aliases df = None"
  from r c have "monthly_spend lib e year csv_path user_id = Inr (not_found ''date/amount columns'')"
    by (intro monthly_spend_no_columns) auto
  then show "monthly_spend lib e year csv_path user_id
          = Inr [(''items'', PList []), (''notes'', PStr ''date/amount columns not found'')]"
    by (simp add: not_found_def)
  from r c have "daily_spend lib e year month csv_path user_id = Inr (not_found ''date/amount columns'')"
    by (intro daily_spend_no_columns) auto
  then show "daily_spend lib e year month csv_path user_id
          = Inr [(''items'', PList []), (''notes'', PStr ''date/amount columns not found'')]"
    by (simp add: not_found_def)
next
  assume r: "resolve_path e csv_path user_id = Some path \<and> path_exists e path \<and> read_csv e path = Inr df"
  assume c: "first_present amount_aliases df = None \<or> first_present category_aliases df = None"
  from r c have "category_stats lib e year month csv_path user_id
                   = Inr (not_found ''amount/category columns'')"
    by (intro category_stats_no_columns) auto
  then show "category_stats lib e year month csv_path user_id
          = Inr [(''items'', PList []), (''notes'', PStr ''amount/category columns not found'')]"
    by (simp add: not_found_def)
next
  assume r: "resolve_path e csv_path user_id = Some path \<and> path_exists e path \<and> read_csv e path = Inr df"
  assume c: "first_present merchant_aliases df = None \<or> first_present amount_aliases df = None"
  from r c have "merchant_stats lib e year month top_n csv_path user_id
                   = Inr (not_found ''merchant/amount columns'')"
    by (intro merchant_stats_no_columns) auto
  then show "merchant_stats lib e year month top_n csv_path user_id
          = Inr [(''items'', PList []), (''notes'', PStr ''merchant/amount columns not found'')]"
    by (simp add: not_found_def)
next
  assume r: "resolve_path e csv_path user_id = Some path \<and> path_exists e path \<and> read_csv e path = Inr df"
  assume "first_present date_aliases df = None"
  with r show "time_coverage e csv_path user_id = Inr [(''min'', PNone), (''max'', PNone)]"
    by (simp add: time_coverage_no_date)
qed

theorem C2_graceful_results_witness:
  "resolve_path (empty_env False) None None = None
   \<and> total_spend (empty_env False) None None None None
       = Inr [(''total'', PFloat (Fin 0)), (''notes'', PStr ''No data available'')]
   \<and> monthly_spend example_lib (empty_env False) None None None
       = Inr [(''items'', PList []), (''notes'', PStr ''No data available'')]
   \<and> daily_spend example_lib (empty_env False) None None None None
       = Inr [(''items'', PList []), (''notes'', PStr ''No data available'')]
   \<and> category_stats example_lib (empty_env False) None None None None
       = Inr [(''items'', PList []), (''notes'', PStr ''No data available'')]
   \<and> merchant_stats example_lib (empty_env False) None None 10 None None
       = Inr [(''items'', PList []), (''notes'', PStr ''No data available'')]
   \<and> resolve_path (memo_env True) None None = Some ''/app/data/transactions.csv''
   \<and> read_csv (memo_env True) ''/app/data/transactions.csv'' = Inr memo_table
   \<and> first_present amount_aliases memo_table = None
   \<and> total_spend (memo_env True) None None None None
       = Inr [(''total'', PFloat (Fin 0)), (''notes'', PStr ''amount column not found'')]
   \<and> monthly_spend example_lib (memo_env True) None None None
       = Inr [(''items'', PList []), (''notes'', PStr ''date/amount columns not found'')]
   \<and> daily_spend example_lib (memo_env True) None None None None
       = Inr [(''items'', PList []), (''notes'', PStr ''date/amount columns not found'')]
   \<and> category_stats example_lib (memo_env True) None None None None
       = Inr [(''items'', PList []), (''notes'', PStr ''amount/category columns not found'')]
   \<and> merchant_stats example_lib (memo_env True) None None 10 None None
       = Inr [(''items'', PList []), (''notes'', PStr ''merchant/amount columns not found'')]
   \<and> time_coverage (memo_env True) None None = Inr [(''min'', PNone), (''max'', PNone)]"
proof -
  have a: "resolve_path (empty_env False) None None = None"
    by code_simp
  have b: "resolve_path (memo_env True) None None = Some ''/app/data/transactions.csv''
           \<and> path_exists (memo_env True) ''/app/data/transactions.csv''
           \<and> read_csv (memo_env True) ''/app/data/transactions.csv'' = Inr memo_table"
    by code_simp
  have c: "first_present amount_aliases memo_table = None"
          "first_present date_aliases memo_table = None"
          "first_present merchant_aliases memo_table = None"
    by code_simp+
  note t1 = C2_graceful_results [where e = "empty_env False" and csv_path = None and user_id = None
      and year = None and month = None and top_n = 10 and lib = example_lib]
  note t2 = C2_graceful_results [where e = "memo_env True" and csv_path = None and user_id = None
      and year = None and month = None and top_n = 10 and lib = example_lib
      and path = "''/app/data/transactions.csv''" and df = memo_table]
  from t1 a t2 b c show ?thesis
    by simp
qed

text \<open>
  The claim as stated fails by the accessors' own design: a \<open>csv_path\<close> that names an
  absent file makes \<open>_ensure_csv_exists\<close> raise \<open>FileNotFoundError\<close>, and
  \<open>time_coverage\<close> on a file without a date column returns a result with no note.
\<close>

theorem C2_counterexample:
  "total_spend (march_env False) None None (Some ''/nowhere.csv'') None
     = Inl (Exn FileNotFoundError ''CSV not found at /nowhere.csv'')
   \<and> time_coverage (memo_env False) None None = Inr [(''min'', PNone), (''max'', PNone)]"
  by code_simp

section \<open>Orchestrator\<close>

lemma init_never_uses_vectordb:
  "use_vectordb (init_orchestrator available init_fails) = False"
  by (simp add: init_orchestrator_def)

lemma chat_fallback_calls:
  "llm_calls (snd (chat_fallback lib llm sv message context user_id w))
     = llm_calls w @ [chat_prompt sv (fst (data_context sv message user_id)) message
                        (recent_context 5 context)]"
  by (simp add: chat_fallback_def complete_def Let_def split: prod.splits)

lemma chat_snd:
  "snd (chat lib llm e sv orch message context user_id w)
     = snd (chat_body lib llm e sv orch message context user_id w)"
  by (simp add: chat_def split: prod.splits)

lemma chat_fst:
  "fst (chat lib llm e sv orch message context user_id w)
     = try_except (fst (chat_body lib llm e sv orch message context user_id w))
         (\<lambda>x. Inr (error_envelope x))"
  by (simp add: chat_def split: prod.splits)

text \<open>
  C9. \<open>chat\<close> returns a response envelope for every message, context, user and
  orchestrator, whatever the LLM, the files and the other collaborators do: when the body
  of its \<open>try\<close> statement raises \<open>x\<close>, the result is the envelope with the answer
  \<open>I apologize, but I encountered an error: \<close> followed by \<open>str(x)\<close>, status
  \<open>error\<close> and type \<open>error\<close>; otherwise it is the body's response.
\<close>

theorem C9_chat_never_raises:
  "\<exists>envelope. fst (chat lib llm e sv orch message ctx user_id w) = Inr envelope
     \<and> envelope = (case fst (chat_body lib llm e sv orch message ctx user_id w) of
                     Inl x \<Rightarrow> [(''answer'', PStr (''I apologize, but I encountered an error: '' @ exn_str x)),
                               (''status'', PStr ''error''),
                               (''type'', PStr ''error'')]
                   | Inr response \<Rightarrow> response)"
  by (cases "fst (chat_body lib llm e sv orch message ctx user_id w)")
     (simp_all add: chat_fst try_except_def error_envelope_def)

theorem C9_chat_never_raises_witness:
  "fst (chat_body example_lib llm_down (march_env False) invest_services (init_orchestrator True False)
          invest_question None None w0)
     = Inl (Exn RuntimeError ''LLM request failed: connection refused'')
   \<and> fst (chat example_lib llm_down (march_env False) invest_services (init_orchestrator True False)
            invest_question None None w0)
     = Inr [(''answer'', PStr ''I apologize, but I encountered an error: LLM request failed: connection refused''),
            (''status'', PStr ''error''),
            (''type'', PStr ''error'')]"
proof -
  have b: "fst (chat_body example_lib llm_down (march_env False) invest_services
                  (init_orchestrator True False) invest_question None None w0)
           = Inl (Exn RuntimeError ''LLM request failed: connection refused'')"
    by code_simp
  from C9_chat_never_raises [where lib = example_lib and llm = llm_down and e = "march_env False"
      and sv = invest_services and orch = "init_orchestrator True False"
      and message = invest_question and ctx = None and user_id = None and w = w0] b
  show ?thesis
    by auto
qed

text \<open>
  C1, as amended. The constructor sets \<open>use_vectordb = False\<close> on each of its paths, so
  \<open>chat\<close> never enters the agent workflow: for every message it takes the path that
  builds the one consolidated prompt (system text, data context, the message, the recent
  turns, the instructions) and issues exactly one LLM completion, that prompt's.
\<close>

theorem C1_chat_single_completion:
  "use_vectordb (init_orchestrator available init_fails) = False
   \<and> chat_body lib llm e sv (init_orchestrator available init_fails) message context user_id w
       = chat_fallback lib llm sv message context user_id w
   \<and> llm_calls (snd (chat lib llm e sv (init_orchestrator available init_fails) message context
                        user_id w))
       = llm_calls w @ [chat_prompt sv (fst (data_context sv message user_id)) message
                          (recent_context 5 context)]"
proof (intro conjI)
  show g: "use_vectordb (init_orchestrator available init_fails) = False"
    by (rule init_never_uses_vectordb)
  show b: "chat_body lib llm e sv (init_orchestrator available init_fails) message context user_id w
           = chat_fallback lib llm sv message context user_id w"
    by (simp add: chat_body_def g)
  show "llm_calls (snd (chat lib llm e sv (init_orchestrator available init_fails) message context
                          user_id w))
        = llm_calls w @ [chat_prompt sv (fst (data_context sv message user_id)) message
                           (recent_context 5 context)]"
    by (simp add: chat_snd b chat_fallback_calls)
qed

text \<open>
  The claim as stated fails: the message below parses to an \<open>investment_advice\<close> intent
  and the knowledge store returns a chunk for it, yet \<open>chat\<close> sends the consolidated
  prompt alone and returns the completion as a plain text response; no Strategy or Risk
  prompt is sent.
\<close>

theorem C1_counterexample:
  "fst (parse_query example_lib invest_llm invest_question None w0)
     = Inr (PDict [(''query_type'', PStr ''investment_advice''),
                   (''requires_knowledge'', PBool True),
                   (''keywords'', PList [PStr ''invest''])])
   \<and> retrieve_knowledge invest_services ''invest'' = Inr [index_chunk]
   \<and> fst (chat example_lib invest_llm (march_env False) invest_services (init_orchestrator True False)
            invest_question None None w0)
     = Inr [(''answer'', PStr ''Consider index funds.''), (''status'', PStr ''success''),
            (''type'', PStr ''text'')]
   \<and> llm_calls (snd (chat example_lib invest_llm (march_env False) invest_services
                        (init_orchestrator True False) invest_question None None w0))
     = [chat_prompt invest_services '''' invest_question '''']"
  by code_simp

text \<open>With the flag set by hand, the same message does run the stages: three prompts
  are sent (parsing, strategy, risk) and the response is a strategy recommendation.\<close>

lemma workflow_runs_stages_when_enabled:
  "map (take 37)
     (llm_calls (snd (chat example_lib invest_llm (march_env False) invest_services
                        ((init_orchestrator True False)\<lparr>use_vectordb := True\<rparr>)
                        invest_question None None w0)))
     = [''Analyze this financial query and extr'',
        ''You are a financial strategy advisor.'',
        ''You are a risk assessment specialist.'']
   \<and> response_answer (fst (chat example_lib invest_llm (march_env False) invest_services
                             ((init_orchestrator True False)\<lparr>use_vectordb := True\<rparr>)
                             invest_question None None w0))
     = Inr (PStr ''**Investment Strategy:**\<newline>Consider index funds.\<newline>\<newline>*Based on insights from: Basics*'')"
  by code_simp

end
